theory Spec2Isabelle
  imports Complex_Main "HOL-Library.Sublist" "HOL-Library.List_Lexorder" "HOL-Library.Log_Nat"
begin

section \<open>Python values\<close>

text \<open>
  A Python \<^verbatim>\<open>str\<close> is a sequence of Unicode code points, so it is a list of
  naturals here; \<open>asc\<close> turns an ASCII literal into such a list. The Unicode table
  behind \<^verbatim>\<open>str.isalnum\<close> is not part of the repository: every function that calls
  it takes the predicate as its first argument \<open>isalnum\<close>.
\<close>

type_synonym ustring = "nat list"

definition asc :: "string \<Rightarrow> ustring" where
  "asc s = map of_char s"

text \<open>The restriction of \<^verbatim>\<open>str.isalnum\<close> to ASCII, for concrete runs.\<close>

definition ascii_isalnum :: "nat \<Rightarrow> bool" where
  "ascii_isalnum c = ((48 \<le> c \<and> c \<le> 57) \<or> (65 \<le> c \<and> c \<le> 90) \<or> (97 \<le> c \<and> c \<le> 122))"

text \<open>\<^verbatim>\<open>s.strip(chars)\<close>: drop leading and trailing characters that occur in \<open>chars\<close>.\<close>

definition py_strip :: "ustring \<Rightarrow> ustring \<Rightarrow> ustring" where
  "py_strip chars s =
     rev (dropWhile (\<lambda>c. c \<in> set chars) (rev (dropWhile (\<lambda>c. c \<in> set chars) s)))"

text \<open>\<^verbatim>\<open>s.split(sep)\<close> for a one-character separator.\<close>

fun split_on :: "nat \<Rightarrow> ustring \<Rightarrow> ustring list" where
  "split_on sep [] = [[]]"
| "split_on sep (c # cs) =
     (if c = sep then [] # split_on sep cs
      else (case split_on sep cs of
              [] \<Rightarrow> [[c]]
            | p # ps \<Rightarrow> (c # p) # ps))"

text \<open>
  JSON values as \<^verbatim>\<open>json.loads\<close> and \<^verbatim>\<open>response.json()\<close> build them. A \<^verbatim>\<open>float\<close>
  is kept by its value; a \<^verbatim>\<open>dict\<close> is an association list in insertion order,
  looked up by its first binding of a key.
\<close>

datatype pyfloat = Finite rat | PosInf | NegInf | NaN

datatype json =
    JNull
  | JBool bool
  | JInt int
  | JFloat pyfloat
  | JStr ustring
  | JArr "json list"
  | JObj "(ustring \<times> json) list"

text \<open>Truth value of a Python object in \<^verbatim>\<open>if x\<close>, \<^verbatim>\<open>not x\<close>, \<^verbatim>\<open>x or y\<close>.\<close>

fun truthy :: "json \<Rightarrow> bool" where
  "truthy JNull = False"
| "truthy (JBool b) = b"
| "truthy (JInt i) = (i \<noteq> 0)"
| "truthy (JFloat (Finite r)) = (r \<noteq> 0)"
| "truthy (JFloat _) = True"
| "truthy (JStr s) = (s \<noteq> [])"
| "truthy (JArr xs) = (xs \<noteq> [])"
| "truthy (JObj kvs) = (kvs \<noteq> [])"

text \<open>\<^verbatim>\<open>a or b\<close>.\<close>

definition py_or :: "json \<Rightarrow> json \<Rightarrow> json" where
  "py_or a b = (if truthy a then a else b)"

text \<open>\<^verbatim>\<open>x == n\<close> for an integer literal \<open>n\<close>: numbers compare by value, \<^verbatim>\<open>True\<close> is 1.\<close>

fun py_eq_int :: "json \<Rightarrow> int \<Rightarrow> bool" where
  "py_eq_int (JInt i) n = (i = n)"
| "py_eq_int (JFloat (Finite r)) n = (r = of_int n)"
| "py_eq_int (JBool b) n = ((if b then 1 else 0) = n)"
| "py_eq_int _ n = False"

text \<open>\<^verbatim>\<open>d[k] = v\<close> on a dict: the value is replaced in place, a new key goes last.\<close>

primrec dict_set :: "ustring \<Rightarrow> json \<Rightarrow> (ustring \<times> json) list \<Rightarrow> (ustring \<times> json) list" where
  "dict_set k v [] = [(k, v)]"
| "dict_set k v (p # ps) = (if fst p = k then (k, v) # ps else p # dict_set k v ps)"

text \<open>\<^verbatim>\<open>d.update(kwargs)\<close>.\<close>

definition dict_update :: "(ustring \<times> json) list \<Rightarrow> (ustring \<times> json) list \<Rightarrow> (ustring \<times> json) list" where
  "dict_update d kwargs = fold (\<lambda>(k, v). dict_set k v) kwargs d"

text \<open>\<^verbatim>\<open>d.get(k)\<close>, with \<^verbatim>\<open>None\<close> for a missing key.\<close>

definition dict_get :: "(ustring \<times> json) list \<Rightarrow> ustring \<Rightarrow> json" where
  "dict_get d k = (case map_of d k of None \<Rightarrow> JNull | Some v \<Rightarrow> v)"

text \<open>
  Exceptions. The text of a message is cut to its fixed prefix; \<open>TimeoutError\<close> keeps
  the elapsed seconds its message reports; \<open>HTTPException\<close> keeps the status code.
\<close>

datatype error =
    RuntimeError string
  | TimeoutError rat
  | ValueError string
  | TypeError
  | AttributeError
  | KeyError
  | IndexError
  | JSONDecodeError
  | FileNotFoundError string
  | FileExistsError
  | NotADirectoryError
  | IsADirectoryError
  | CalledProcessError
  | UnicodeDecodeError
  | ValidationError
  | HTTPException nat
  | TransportError string

section \<open>The file system and the storage manager (src/storage.py)\<close>

text \<open>
  A path is the list of its components from the root. \<open>path_div\<close> is pathlib's
  \<^verbatim>\<open>/\<close>: the right operand is split at slashes, empty and \<^verbatim>\<open>.\<close> components are
  dropped, and an operand that starts with a slash replaces the left one.
\<close>

type_synonym path = "ustring list"

definition path_parts :: "ustring \<Rightarrow> path" where
  "path_parts s = filter (\<lambda>c. c \<noteq> [] \<and> c \<noteq> asc ''.'') (split_on 47 s)"

definition path_div :: "path \<Rightarrow> ustring \<Rightarrow> path" where
  "path_div p s = (case s of [] \<Rightarrow> p | c # cs \<Rightarrow> if c = 47 then path_parts s else p @ path_parts s)"

text \<open>
  File contents: a JSON document, the list file written for the concat demuxer, or
  media (video, frame, audio) that is either complete or cut short.
\<close>

datatype media = Complete | Truncated

datatype content = Json json | ConcatList "path list" | Media media

text \<open>
  Calls to the collaborators of the video stage, each logged with the set of files that
  exist when it is made.
\<close>

datatype event =
    ExtractLastFrame path int path
  | GenerateFromText int
  | GenerateFromImage int path
  | UploadImage path
  | CreateTask json
  | PollTask ustring
  | DownloadFile ustring path

record world =
  dirs :: "path set"
  files :: "path \<rightharpoonup> content"
  log :: "(event \<times> path set) list"

definition path_exists :: "path \<Rightarrow> world \<Rightarrow> bool" where
  "path_exists p w = (p \<in> dirs w \<or> p \<in> dom (files w))"

text \<open>
  \<^verbatim>\<open>Path.mkdir(parents=True, exist_ok=True)\<close>: fails when the path or one of its
  ancestors is a regular file, otherwise the path and its ancestors are directories
  afterwards.
\<close>

definition mkdir_parents :: "path \<Rightarrow> world \<Rightarrow> (error + unit) \<times> world" where
  "mkdir_parents p w =
     (if p \<in> dom (files w) then (Inl FileExistsError, w)
      else if \<exists>q \<in> set (prefixes p). q \<in> dom (files w) then (Inl NotADirectoryError, w)
      else (Inr (), w\<lparr>dirs := dirs w \<union> set (prefixes p)\<rparr>))"

text \<open>The sanitising expression of \<^verbatim>\<open>generate_job_id\<close>, \<^verbatim>\<open>save_video\<close> and \<^verbatim>\<open>get_video_path\<close>.\<close>

definition safe_chars :: "(nat \<Rightarrow> bool) \<Rightarrow> ustring \<Rightarrow> ustring" where
  "safe_chars isalnum s =
     map (\<lambda>c. if isalnum c \<or> c \<in> set (asc ''_-'') then c else of_char CHR ''_'') s"

text \<open>
  \<^verbatim>\<open>StorageManager.generate_job_id\<close>. \<open>stamp\<close> is what
  \<^verbatim>\<open>datetime.now().strftime('%Y%m%d_%H%M%S')\<close> returns at the call and \<open>uuid_hex\<close> the
  hex digits of the fresh \<^verbatim>\<open>uuid4()\<close>.
\<close>

definition generate_job_id :: "(nat \<Rightarrow> bool) \<Rightarrow> ustring \<Rightarrow> ustring \<Rightarrow> ustring option \<Rightarrow> ustring" where
  "generate_job_id isalnum stamp uuid_hex title =
     (case title of
        None \<Rightarrow> stamp @ asc ''_'' @ take 8 uuid_hex
      | Some t \<Rightarrow>
          if t \<noteq> [] then take 50 (py_strip (asc ''_'') (safe_chars isalnum t))
          else stamp @ asc ''_'' @ take 8 uuid_hex)"

text \<open>\<^verbatim>\<open>StorageManager.get_job_dir\<close>; \<open>jobs_dir\<close> is \<^verbatim>\<open>self.jobs_dir\<close>.\<close>

definition get_job_dir :: "path \<Rightarrow> ustring \<Rightarrow> ustring option \<Rightarrow> world \<Rightarrow> (error + path) \<times> world" where
  "get_job_dir jobs_dir job_id stage w =
     (let job_root = path_div jobs_dir job_id;
          job_dir = (case stage of
                       None \<Rightarrow> job_root
                     | Some s \<Rightarrow> if s \<noteq> [] then path_div job_root s else job_root)
      in case mkdir_parents job_dir w of
           (Inl e, w') \<Rightarrow> (Inl e, w')
         | (Inr u, w') \<Rightarrow> (Inr job_dir, w'))"


text \<open>\<^verbatim>\<open>StorageManager.load_job_metadata\<close>.\<close>

definition load_job_metadata :: "path \<Rightarrow> ustring \<Rightarrow> world \<Rightarrow> (error + json) \<times> world" where
  "load_job_metadata jobs_dir job_id w =
     (case get_job_dir jobs_dir job_id (Some (asc ''prompts'')) w of
        (Inl e, w') \<Rightarrow> (Inl e, w')
      | (Inr job_dir, w') \<Rightarrow>
          (let metadata_path = path_div job_dir (asc ''metadata.json'') in
           if \<not> path_exists metadata_path w' then (Inr (JObj []), w')
           else (case files w' metadata_path of
                   None \<Rightarrow> (Inl IsADirectoryError, w')
                 | Some (Json j) \<Rightarrow> (Inr j, w')
                 | Some c \<Rightarrow> (Inl JSONDecodeError, w'))))"

text \<open>\<^verbatim>\<open>StorageManager.save_job_metadata\<close>.\<close>

definition save_job_metadata :: "path \<Rightarrow> ustring \<Rightarrow> json \<Rightarrow> world \<Rightarrow> (error + path) \<times> world" where
  "save_job_metadata jobs_dir job_id metadata w =
     (case get_job_dir jobs_dir job_id (Some (asc ''prompts'')) w of
        (Inl e, w') \<Rightarrow> (Inl e, w')
      | (Inr job_dir, w') \<Rightarrow>
          (let metadata_path = path_div job_dir (asc ''metadata.json'') in
           if metadata_path \<in> dirs w' then (Inl IsADirectoryError, w')
           else (Inr metadata_path, w'\<lparr>files := (files w')(metadata_path \<mapsto> Json metadata)\<rparr>)))"

text \<open>
  \<^verbatim>\<open>StorageManager.update_job_status\<close>; \<open>now\<close> is \<^verbatim>\<open>datetime.now().isoformat()\<close> at
  the call. Item assignment on a loaded document that is not a dict raises.
\<close>

definition update_job_status ::
  "path \<Rightarrow> ustring \<Rightarrow> ustring \<Rightarrow> ustring \<Rightarrow> (ustring \<times> json) list \<Rightarrow> world \<Rightarrow> (error + unit) \<times> world" where
  "update_job_status jobs_dir now job_id status kwargs w =
     (case load_job_metadata jobs_dir job_id w of
        (Inl e, w1) \<Rightarrow> (Inl e, w1)
      | (Inr metadata, w1) \<Rightarrow>
          (case metadata of
             JObj d \<Rightarrow>
               (let d1 = dict_set (asc ''status'') (JStr status) d;
                    d2 = dict_set (asc ''updated_at'') (JStr now) d1;
                    d3 = dict_update d2 kwargs
                in case save_job_metadata jobs_dir job_id (JObj d3) w1 of
                     (Inl e, w2) \<Rightarrow> (Inl e, w2)
                   | (Inr p, w2) \<Rightarrow> (Inr (), w2))
           | _ \<Rightarrow> (Inl TypeError, w1)))"

section \<open>The status query (api/main.py)\<close>






section \<open>The remote task client (src/services/kie_client.py)\<close>

text \<open>\<^verbatim>\<open>KieClient._safe_get\<close>: the loop over the keys, then the method itself.\<close>

fun safe_get_keys :: "json \<Rightarrow> ustring list \<Rightarrow> json" where
  "safe_get_keys cur [] = cur"
| "safe_get_keys cur (k # ks) =
     (case cur of
        JObj d \<Rightarrow> (case map_of d k of None \<Rightarrow> JNull | Some v \<Rightarrow> safe_get_keys v ks)
      | _ \<Rightarrow> JNull)"

definition safe_get :: "json \<Rightarrow> ustring \<Rightarrow> json" where
  "safe_get d p = safe_get_keys d (split_on 46 p)"

text \<open>
  \<^verbatim>\<open>str(x)\<close>: a string is returned as it is; the text Python prints for any other
  value is the parameter \<open>py_repr\<close>.
\<close>

definition py_str :: "(json \<Rightarrow> ustring) \<Rightarrow> json \<Rightarrow> ustring" where
  "py_str py_repr v = (case v of JStr s \<Rightarrow> s | _ \<Rightarrow> py_repr v)"

text \<open>
  \<^verbatim>\<open>KieClient.create_task\<close>. \<open>post\<close> is the \<^verbatim>\<open>try\<close> block: the HTTP POST,
  \<^verbatim>\<open>raise_for_status\<close> and \<^verbatim>\<open>response.json()\<close>; it yields the exception that is
  re-raised or, for a response with a success status, the decoded body.
\<close>

definition create_task :: "(json \<Rightarrow> ustring) \<Rightarrow> (json \<Rightarrow> error + json) \<Rightarrow> json \<Rightarrow> error + ustring" where
  "create_task py_repr post payload =
     (case post payload of
        Inl e \<Rightarrow> Inl e
      | Inr data \<Rightarrow>
          if (case data of JObj d \<Rightarrow> py_eq_int (dict_get d (asc ''code'')) 500 | _ \<Rightarrow> False)
          then Inl (RuntimeError ''KIE API error'')
          else
            (let task_id =
                   py_or (safe_get data (asc ''data.taskId''))
                     (py_or (safe_get data (asc ''taskId'')) (safe_get data (asc ''data.id'')))
             in if \<not> truthy task_id then Inl (RuntimeError ''No taskId in API response'')
                else Inr (py_str py_repr task_id)))"

text \<open>\<^verbatim>\<open>x[0]\<close>. A dict decoded from JSON has string keys only, so 0 is never a key.\<close>

fun py_index0 :: "json \<Rightarrow> error + json" where
  "py_index0 (JArr []) = Inl IndexError"
| "py_index0 (JArr (x # xs)) = Inr x"
| "py_index0 (JStr []) = Inl IndexError"
| "py_index0 (JStr (c # cs)) = Inr (JStr [c])"
| "py_index0 (JObj d) = Inl KeyError"
| "py_index0 _ = Inl TypeError"

text \<open>
  \<^verbatim>\<open>KieClient.extract_result_url\<close>. \<open>json_loads\<close> is \<^verbatim>\<open>json.loads\<close> on a string,
  \<open>None\<close> where it raises its decode error; it rejects what is not a string.
\<close>

definition extract_result_url :: "(ustring \<Rightarrow> json option) \<Rightarrow> json \<Rightarrow> error + json" where
  "extract_result_url json_loads detail =
     (let raw = safe_get detail (asc ''data.resultJson'') in
      if \<not> truthy raw then Inl (RuntimeError ''Missing data.resultJson'')
      else
        (case raw of
           JStr s \<Rightarrow>
             (case json_loads s of
                None \<Rightarrow> Inl JSONDecodeError
              | Some parsed \<Rightarrow>
                  (case parsed of
                     JObj p \<Rightarrow>
                       (let urls = py_or (dict_get p (asc ''resultUrls'')) (JArr []) in
                        if \<not> truthy urls then Inl (RuntimeError ''Missing resultUrls'')
                        else py_index0 urls)
                   | _ \<Rightarrow> Inl AttributeError))
         | _ \<Rightarrow> Inl TypeError))"

text \<open>
  What \<^verbatim>\<open>json.loads\<close> returns on the three documents of the concrete runs below;
  no other text is decoded there.
\<close>

definition sample_json_loads :: "ustring \<Rightarrow> json option" where
  \<open>sample_json_loads s =
     (if s = asc ''{"resultUrls": ["https://cdn.example/a.mp4", "https://cdn.example/b.mp4"]}''
      then Some (JObj [(asc ''resultUrls'',
                   JArr [JStr (asc ''https://cdn.example/a.mp4''), JStr (asc ''https://cdn.example/b.mp4'')])])
      else if s = asc ''{"resultUrls": "https://cdn.example/a.mp4"}''
      then Some (JObj [(asc ''resultUrls'', JStr (asc ''https://cdn.example/a.mp4''))])
      else if s = asc ''{"resultUrls": []}''
      then Some (JObj [(asc ''resultUrls'', JArr [])])
      else None)\<close>


text \<open>
  Floating-point arithmetic. A Python \<^verbatim>\<open>float\<close> is a binary64 number; a finite one is
  kept as the rational it denotes. \<open>fl x\<close> is \<open>x\<close> rounded to the nearest number with a
  significand of 53 bits, ties to the even significand: the result of \<^verbatim>\<open>+\<close>, \<^verbatim>\<open>-\<close> and
  \<^verbatim>\<open>*\<close> on floats is \<open>fl\<close> of the exact result. The exponent range is not modelled:
  in \<^verbatim>\<open>poll_task\<close> no result reaches \<open>2 ^ 1024\<close> for clock readings below
  \<open>2 ^ 1023\<close>, and a difference of two floats below \<open>2 ^ - 1022\<close> is exact.
\<close>

definition round_half_even :: "rat \<Rightarrow> int" where
  "round_half_even q =
     (let f = \<lfloor>q\<rfloor>; r = q - of_int f
      in if r < 1 / 2 then f else if 1 / 2 < r then f + 1 else if even f then f else f + 1)"

text \<open>The exponent \<open>e\<close> with \<open>2 ^ e \<le> x < 2 ^ (e + 1)\<close>, for \<open>x > 0\<close>.\<close>

definition ilog2 :: "rat \<Rightarrow> int" where
  "ilog2 x = (if 1 \<le> x then bitlen \<lfloor>x\<rfloor> - 1 else - bitlen (\<lceil>1 / x\<rceil> - 1))"

definition fl :: "rat \<Rightarrow> rat" where
  "fl x = (if x = 0 then 0
           else (let u = 2 powi (ilog2 \<bar>x\<bar> - 52) in of_int (round_half_even (x / u)) * u))"

text \<open>The numbers with a significand of 53 bits, which \<open>fl\<close> leaves as they are.\<close>

definition representable :: "rat \<Rightarrow> bool" where
  "representable y \<longleftrightarrow> (\<exists>m j. y = of_int m * 2 powi j \<and> \<bar>m\<bar> < 2 ^ 53)"

text \<open>The float that the literal \<^verbatim>\<open>1.3\<close> denotes.\<close>

definition float_1_3 :: rat where
  "float_1_3 = fl (13 / 10)"

text \<open>
  \<^verbatim>\<open>random.random()\<close> is \<open>k / 2 ^ 53\<close> for the 53 random bits \<open>k\<close> it draws, and
  \<^verbatim>\<open>random.uniform(a, b)\<close> is \<^verbatim>\<open>a + (b - a) * self.random()\<close>.
\<close>

definition py_random :: "nat \<Rightarrow> rat" where
  "py_random bits = of_nat (bits mod 2 ^ 53) / 2 ^ 53"

definition py_uniform :: "rat \<Rightarrow> rat \<Rightarrow> nat \<Rightarrow> rat" where
  "py_uniform a b bits = fl (a + fl (fl (b - a) * py_random bits))"

text \<open>The polling configuration set in \<^verbatim>\<open>KieClient.__init__\<close>, in seconds.\<close>

definition initial_delay :: rat where "initial_delay = 2"
definition max_delay :: rat where "max_delay = 15"
definition timeout :: rat where "timeout = 20 * 60"

text \<open>
  What the loop of \<open>poll_task\<close> meets: the outcome of the \<open>k\<close>-th status request
  (the exception of the transport or of \<^verbatim>\<open>raise_for_status\<close>, or the decoded body), the
  float \<^verbatim>\<open>time.time()\<close> returns in iteration \<open>k\<close>, and the random bits
  \<^verbatim>\<open>random.uniform(0, 0.5)\<close> draws in iteration \<open>k\<close>.
\<close>

record poll_env =
  get_detail :: "nat \<Rightarrow> error + json"
  time_time :: "nat \<Rightarrow> rat"
  random_bits :: "nat \<Rightarrow> nat"

text \<open>
  One entry per sleep: the elapsed time checked before it, the delay, and the seconds
  passed to \<^verbatim>\<open>asyncio.sleep\<close>.
\<close>

record poll_sleep =
  elapsed_before :: rat
  nominal :: rat
  slept :: rat

text \<open>
  \<^verbatim>\<open>KieClient.poll_task\<close>; \<open>start_time\<close> is the float \<^verbatim>\<open>time.time()\<close> returns at the
  call. The \<^verbatim>\<open>while True\<close> loop runs on fuel, \<open>None\<close> when it is used up; it returns
  the result of the call with the sleeps made.
\<close>

fun poll_loop ::
  "nat \<Rightarrow> poll_env \<Rightarrow> rat \<Rightarrow> nat \<Rightarrow> rat \<Rightarrow> poll_sleep list
     \<Rightarrow> ((error + json) \<times> poll_sleep list) option" where
  "poll_loop 0 env start_time k delay sleeps = None"
| "poll_loop (Suc fuel) env start_time k delay sleeps =
     (case get_detail env k of
        Inl e \<Rightarrow> Some (Inl e, sleeps)
      | Inr detail \<Rightarrow>
          (let state = safe_get detail (asc ''data.state'') in
           if state = JStr (asc ''success'') then Some (Inr detail, sleeps)
           else if state = JStr (asc ''fail'') then Some (Inl (RuntimeError ''Task failed''), sleeps)
           else
             (let elapsed = fl (time_time env k - start_time) in
              if elapsed > timeout then Some (Inl (TimeoutError elapsed), sleeps)
              else
                (let s = fl (delay + py_uniform 0 (1 / 2) (random_bits env k)) in
                 poll_loop fuel env start_time (Suc k) (min max_delay (fl (delay * float_1_3)))
                   (sleeps @ [\<lparr>elapsed_before = elapsed, nominal = delay, slept = s\<rparr>])))))"

definition poll_task :: "nat \<Rightarrow> poll_env \<Rightarrow> rat \<Rightarrow> ((error + json) \<times> poll_sleep list) option" where
  "poll_task fuel env start_time = poll_loop fuel env start_time 0 initial_delay []"

text \<open>The delay in force in iteration \<open>k\<close> of the loop.\<close>

fun delay_at :: "nat \<Rightarrow> rat" where
  "delay_at 0 = initial_delay"
| "delay_at (Suc k) = min max_delay (fl (delay_at k * float_1_3))"

declare delay_at.simps [simp del]

text \<open>A provider that never reports a terminal state.\<close>

definition waiting_detail :: json where
  "waiting_detail = JObj [(asc ''data'', JObj [(asc ''state'', JStr (asc ''waiting''))])]"

text \<open>
  Two runs against it: one read every 130 seconds with a jitter of a quarter second, and
  one with the largest jitter \<^verbatim>\<open>random.uniform(0, 0.5)\<close> can return.
\<close>

definition sample_poll_env :: poll_env where
  "sample_poll_env =
     \<lparr>get_detail = \<lambda>k. Inr waiting_detail, time_time = \<lambda>k. 1 + 130 * of_nat k,
      random_bits = \<lambda>k. 2 ^ 52\<rparr>"

definition largest_jitter_env :: poll_env where
  "largest_jitter_env =
     \<lparr>get_detail = \<lambda>k. Inr waiting_detail, time_time = \<lambda>k. 1300 * of_nat k,
      random_bits = \<lambda>k. 2 ^ 53 - 1\<rparr>"


section \<open>The full pipeline task (api/main.py)\<close>

text \<open>\<^verbatim>\<open>str(n)\<close> of a natural number, as in the f-strings of the progress messages.\<close>

fun dec :: "nat \<Rightarrow> ustring" where
  "dec n = (if n < 10 then [48 + n] else dec (n div 10) @ [48 + n mod 10])"

declare dec.simps [simp del]

text \<open>
  A step of the \<^verbatim>\<open>try\<close> block of \<open>full_pipeline_task\<close> as far as the status record
  sees it: a call of \<open>update_job_status\<close> with its status and keyword arguments, or an
  exception raised by a stage.
\<close>

datatype step = Update ustring "(ustring \<times> json) list" | Raise error

text \<open>What \<^verbatim>\<open>generate_prompts\<close> passes to its status update.\<close>

record prompts_info =
  p_title :: json
  p_num_shots :: int
  p_clip_duration :: int
  p_voice_reader :: json

text \<open>
  How the stages of one run turn out: whether a prompts file is already there, the
  outcome of loading it or of \<^verbatim>\<open>generate_prompts\<close>, the number of shots and how many
  of them the video stage finishes before it raises or returns, the outcomes of
  concatenation and voice-over, whether the final video is already there, the outcome of
  the mux, and the dump of the final result.
\<close>

record pipeline_run =
  prompts_cached :: bool
  prompts_result :: "error + prompts_info"
  videos_total :: nat
  videos_done :: nat
  videos_error :: "error option"
  concat_error :: "error option"
  voiceover_error :: "error option"
  final_cached :: bool
  merge_error :: "error option"
  final_video_path :: ustring
  final_result :: json

definition raise_if :: "error option \<Rightarrow> step list" where
  "raise_if e = (case e of None \<Rightarrow> [] | Some x \<Rightarrow> [Raise x])"

text \<open>
  The \<^verbatim>\<open>try\<close> block of \<open>full_pipeline_task\<close>, with the updates made inside
  \<^verbatim>\<open>generate_prompts\<close>, \<^verbatim>\<open>generate_videos_from_prompts\<close> and \<^verbatim>\<open>merge_final_video\<close>.
  Nothing after a \<open>Raise\<close> is run.
\<close>

definition try_steps :: "pipeline_run \<Rightarrow> step list" where
  "try_steps run =
     (if prompts_cached run then
        (case prompts_result run of Inl e \<Rightarrow> [Raise e] | Inr info \<Rightarrow> [])
      else
        Update (asc ''processing'') [(asc ''message'', JStr (asc ''Generating prompts''))]
        # (case prompts_result run of
             Inl e \<Rightarrow> [Raise e]
           | Inr info \<Rightarrow>
               [Update (asc ''prompts_generated'')
                  [(asc ''title'', p_title info),
                   (asc ''num_shots'', JInt (p_num_shots info)),
                   (asc ''total_duration'', JInt (p_num_shots info * p_clip_duration info)),
                   (asc ''voice_reader_text'', p_voice_reader info)]]))
     @ [Update (asc ''processing'') [(asc ''message'', JStr (asc ''Generating videos''))]]
     @ map (\<lambda>idx. Update (asc ''processing'')
              [(asc ''message'',
                  JStr (asc ''Generated '' @ dec idx @ asc ''/'' @ dec (videos_total run) @ asc '' videos'')),
               (asc ''progress'',
                  JObj [(asc ''videos_completed'', JInt (int idx)),
                        (asc ''videos_total'', JInt (int (videos_total run)))])])
         [1 ..< Suc (videos_done run)]
     @ raise_if (videos_error run)
     @ [Update (asc ''processing'') [(asc ''message'', JStr (asc ''Concatenating videos''))]]
     @ raise_if (concat_error run)
     @ [Update (asc ''processing'') [(asc ''message'', JStr (asc ''Generating voiceover''))]]
     @ raise_if (voiceover_error run)
     @ [Update (asc ''processing'') [(asc ''message'', JStr (asc ''Merging final video''))]]
     @ (if final_cached run then []
        else (case merge_error run of
                Some e \<Rightarrow> [Raise e]
              | None \<Rightarrow>
                  [Update (asc ''completed'')
                     [(asc ''message'', JStr (asc ''Final video created'')),
                      (asc ''final_video_path'', JStr (final_video_path run))]]))
     @ [Update (asc ''completed'') [(asc ''result'', final_result run)]]"

text \<open>
  Running the steps in order; \<open>clock i\<close> is \<^verbatim>\<open>datetime.now().isoformat()\<close> when step
  \<open>i\<close> of the run is reached.
\<close>

fun run_steps :: "path \<Rightarrow> ustring \<Rightarrow> (nat \<Rightarrow> ustring) \<Rightarrow> nat \<Rightarrow> step list \<Rightarrow> world \<Rightarrow> (error + unit) \<times> world" where
  "run_steps jobs_dir job_id clock i [] w = (Inr (), w)"
| "run_steps jobs_dir job_id clock i (Update status kwargs # rest) w =
     (case update_job_status jobs_dir (clock i) job_id status kwargs w of
        (Inl e, w') \<Rightarrow> (Inl e, w')
      | (Inr u, w') \<Rightarrow> run_steps jobs_dir job_id clock (Suc i) rest w')"
| "run_steps jobs_dir job_id clock i (Raise e # rest) w = (Inl e, w)"

text \<open>
  \<open>full_pipeline_task\<close>: the \<^verbatim>\<open>try\<close> block, and the handler of \<^verbatim>\<open>except Exception\<close>
  that records \<^verbatim>\<open>str(e)\<close>, here \<open>err_str e\<close>.
\<close>

definition full_pipeline_task ::
  "path \<Rightarrow> ustring \<Rightarrow> (nat \<Rightarrow> ustring) \<Rightarrow> (error \<Rightarrow> ustring) \<Rightarrow> pipeline_run \<Rightarrow> world \<Rightarrow> (error + unit) \<times> world" where
  "full_pipeline_task jobs_dir job_id clock err_str run w =
     (case run_steps jobs_dir job_id clock 0 (try_steps run) w of
        (Inr u, w') \<Rightarrow> (Inr (), w')
      | (Inl e, w') \<Rightarrow>
          update_job_status jobs_dir (clock (length (try_steps run))) job_id (asc ''failed'')
            [(asc ''error'', JStr (err_str e))] w')"

text \<open>The keys of the persisted status record of a job, none when there is no record.\<close>

definition metadata_file :: "path \<Rightarrow> ustring \<Rightarrow> path" where
  "metadata_file jobs_dir job_id =
     path_div (path_div (path_div jobs_dir job_id) (asc ''prompts'')) (asc ''metadata.json'')"

definition status_keys :: "path \<Rightarrow> ustring \<Rightarrow> world \<Rightarrow> ustring set" where
  "status_keys jobs_dir job_id w =
     (case files w (metadata_file jobs_dir job_id) of
        Some (Json (JObj d)) \<Rightarrow> fst ` set d
      | _ \<Rightarrow> {})"


text \<open>The keys a step writes into the status record.\<close>

fun step_keys :: "step \<Rightarrow> ustring set" where
  "step_keys (Update status kwargs) = fst ` set kwargs"
| "step_keys (Raise e) = {}"

text \<open>
  A store on which the status file of the job can be written: no regular file lies on
  the path of its directory, the file's own path is not a directory, and what it holds,
  if anything, is a JSON object.
\<close>

definition healthy :: "path \<Rightarrow> ustring \<Rightarrow> world \<Rightarrow> bool" where
  "healthy jobs_dir job_id w =
     ((\<forall>q \<in> set (prefixes (path_div (path_div jobs_dir job_id) (asc ''prompts''))). q \<notin> dom (files w))
      \<and> metadata_file jobs_dir job_id \<notin> dirs w
      \<and> (case files w (metadata_file jobs_dir job_id) of
            None \<Rightarrow> True
          | Some (Json (JObj d)) \<Rightarrow> True
          | _ \<Rightarrow> False))"

text \<open>
  Two concrete runs: one whose prompt generation raises, one in which every stage of a
  one-shot job succeeds.
\<close>

definition sample_failed_run :: pipeline_run where
  "sample_failed_run =
     \<lparr>prompts_cached = False,
      prompts_result = Inl (ValueError ''Failed to parse JSON from Claude response''),
      videos_total = 0, videos_done = 0, videos_error = None, concat_error = None,
      voiceover_error = None, final_cached = False, merge_error = None,
      final_video_path = [], final_result = JNull\<rparr>"

definition sample_finished_run :: pipeline_run where
  "sample_finished_run =
     \<lparr>prompts_cached = False,
      prompts_result = Inr \<lparr>p_title = JStr (asc ''Iran Protests Update''), p_num_shots = 1,
                            p_clip_duration = 10, p_voice_reader = JStr (asc ''Protests spread.'')\<rparr>,
      videos_total = 1, videos_done = 1, videos_error = None, concat_error = None,
      voiceover_error = None, final_cached = False, merge_error = None,
      final_video_path = asc ''/srv/jobs/Iran_Protests_Update/final/final.mp4'',
      final_result = JObj [(asc ''job_id'', JStr (asc ''Iran_Protests_Update'')),
                           (asc ''final_video_path'', JStr (asc ''/srv/jobs/Iran_Protests_Update/final/final.mp4'')),
                           (asc ''status'', JStr (asc ''completed''))]\<rparr>"


section \<open>Media operations (src/services/merge_service.py)\<close>

text \<open>
  A command line is a list of option words and file names. The media tool is any
  function from the command and the world to what happens when the command is run:
  either the program cannot be started and \<^verbatim>\<open>Popen\<close> raises, or it runs and ends with
  an exit status, captured output that decodes as text or does not, and what it leaves
  at its output file, \<open>None\<close> when the output is not touched. \<open>ffmpeg_output\<close> reads the
  output file off the command: the first file name that is not the operand of \<^verbatim>\<open>-i\<close>.
\<close>

datatype arg = Opt ustring | File path

datatype outcome = NotStarted error | Exited int bool "content option"

type_synonym tool = "arg list \<Rightarrow> world \<Rightarrow> outcome"

fun ffmpeg_output :: "arg list \<Rightarrow> path option" where
  "ffmpeg_output [] = None"
| "ffmpeg_output (Opt a # File p # rest) = (if a = asc ''-i'' then ffmpeg_output rest else Some p)"
| "ffmpeg_output (Opt a # rest) = ffmpeg_output rest"
| "ffmpeg_output (File p # rest) = Some p"

text \<open>
  \<^verbatim>\<open>subprocess.run(cmd, check=True, capture_output=True, text=True)\<close>. A program that
  cannot be started raises the error of \<^verbatim>\<open>Popen\<close> (\<^verbatim>\<open>FileNotFoundError\<close> for a missing
  binary). Once the program has ended its captured output is decoded, which raises
  \<^verbatim>\<open>UnicodeDecodeError\<close> when it is not text; then a non-zero exit status raises
  \<^verbatim>\<open>CalledProcessError\<close>.
\<close>

definition subprocess_run :: "tool \<Rightarrow> arg list \<Rightarrow> world \<Rightarrow> (error + unit) \<times> world" where
  "subprocess_run run_tool cmd w =
     (case run_tool cmd w of
        NotStarted e \<Rightarrow> (Inl e, w)
      | Exited rc decodes written \<Rightarrow>
          (let w' = (case (ffmpeg_output cmd, written) of
                       (Some out, Some c) \<Rightarrow> w\<lparr>files := (files w)(out \<mapsto> c)\<rparr>
                     | _ \<Rightarrow> w)
           in if \<not> decodes then (Inl UnicodeDecodeError, w')
              else if rc \<noteq> 0 then (Inl CalledProcessError, w')
              else (Inr (), w')))"

text \<open>The command lines built in \<^verbatim>\<open>concatenate_videos\<close> and \<^verbatim>\<open>merge_audio_video\<close>.\<close>

definition concat_command :: "path \<Rightarrow> path \<Rightarrow> arg list" where
  "concat_command concat_file output_path =
     [Opt (asc ''ffmpeg''), Opt (asc ''-y''), Opt (asc ''-f''), Opt (asc ''concat''),
      Opt (asc ''-safe''), Opt (asc ''0''), Opt (asc ''-i''), File concat_file,
      Opt (asc ''-c''), Opt (asc ''copy''), File output_path]"

definition mux_command :: "path \<Rightarrow> path \<Rightarrow> path \<Rightarrow> arg list" where
  "mux_command video_path audio_path output_path =
     [Opt (asc ''ffmpeg''), Opt (asc ''-y''), Opt (asc ''-i''), File video_path,
      Opt (asc ''-i''), File audio_path, Opt (asc ''-c:v''), Opt (asc ''copy''),
      Opt (asc ''-c:a''), Opt (asc ''aac''), Opt (asc ''-map''), Opt (asc ''0:v:0''),
      Opt (asc ''-map''), Opt (asc ''1:a:0''), Opt (asc ''-shortest''), File output_path]"

text \<open>
  \<^verbatim>\<open>MergeService.concatenate_videos\<close>; \<open>concat_file\<close> is the name
  \<^verbatim>\<open>NamedTemporaryFile\<close> gives the list file, which is removed in the \<^verbatim>\<open>finally\<close>
  clause.
\<close>

definition concatenate_videos :: "tool \<Rightarrow> path \<Rightarrow> path list \<Rightarrow> path \<Rightarrow> world \<Rightarrow> (error + path) \<times> world" where
  "concatenate_videos run_tool concat_file video_paths output_path w =
     (let w1 = w\<lparr>files := (files w)(concat_file \<mapsto> ConcatList video_paths)\<rparr>
      in case subprocess_run run_tool (concat_command concat_file output_path) w1 of
           (r, w2) \<Rightarrow>
             (let w3 = (if path_exists concat_file w2
                        then w2\<lparr>files := (files w2)(concat_file := None)\<rparr> else w2)
              in case r of Inl e \<Rightarrow> (Inl e, w3) | Inr u \<Rightarrow> (Inr output_path, w3)))"

text \<open>\<^verbatim>\<open>MergeService.merge_audio_video\<close>.\<close>

definition merge_audio_video :: "tool \<Rightarrow> path \<Rightarrow> path \<Rightarrow> path \<Rightarrow> world \<Rightarrow> (error + path) \<times> world" where
  "merge_audio_video run_tool video_path audio_path output_path w =
     (case subprocess_run run_tool (mux_command video_path audio_path output_path) w of
        (Inl e, w') \<Rightarrow> (Inl e, w')
      | (Inr u, w') \<Rightarrow> (Inr output_path, w'))"

text \<open>\<^verbatim>\<open>StorageManager.get_concat_video_path\<close> and \<^verbatim>\<open>get_final_video_path\<close>.\<close>

definition get_concat_video_path :: "path \<Rightarrow> ustring \<Rightarrow> world \<Rightarrow> (error + path) \<times> world" where
  "get_concat_video_path jobs_dir job_id w =
     (case get_job_dir jobs_dir job_id (Some (asc ''videos'')) w of
        (Inl e, w') \<Rightarrow> (Inl e, w')
      | (Inr d, w') \<Rightarrow> (Inr (path_div d (asc ''concatenated.mp4'')), w'))"

definition get_final_video_path :: "path \<Rightarrow> ustring \<Rightarrow> world \<Rightarrow> (error + path) \<times> world" where
  "get_final_video_path jobs_dir job_id w =
     (case get_job_dir jobs_dir job_id (Some (asc ''final'')) w of
        (Inl e, w') \<Rightarrow> (Inl e, w')
      | (Inr d, w') \<Rightarrow> (Inr (path_div d (asc ''final.mp4'')), w'))"

text \<open>
  \<^verbatim>\<open>StorageManager.list_videos_for_job\<close>; \<open>glob_mp4 d w\<close> is what
  \<^verbatim>\<open>d.glob("*.mp4")\<close> yields.
\<close>

definition list_videos_for_job ::
  "(path \<Rightarrow> world \<Rightarrow> path list) \<Rightarrow> path \<Rightarrow> ustring \<Rightarrow> world \<Rightarrow> (error + path list) \<times> world" where
  "list_videos_for_job glob_mp4 jobs_dir job_id w =
     (case get_job_dir jobs_dir job_id (Some (asc ''videos'')) w of
        (Inl e, w') \<Rightarrow> (Inl e, w')
      | (Inr d, w') \<Rightarrow>
          (Inr (sort (filter (\<lambda>f. f = [] \<or> last f \<notin> {asc ''concatenated.mp4'', asc ''final.mp4''})
                       (glob_mp4 d w'))), w'))"

text \<open>\<^verbatim>\<open>MergeService.combine_videos\<close>.\<close>

definition combine_videos ::
  "tool \<Rightarrow> path \<Rightarrow> (path \<Rightarrow> world \<Rightarrow> path list) \<Rightarrow> path \<Rightarrow> ustring \<Rightarrow> world \<Rightarrow> (error + path) \<times> world" where
  "combine_videos run_tool concat_file glob_mp4 jobs_dir job_id w =
     (case get_concat_video_path jobs_dir job_id w of
        (Inl e, w1) \<Rightarrow> (Inl e, w1)
      | (Inr output_path, w1) \<Rightarrow>
          if path_exists output_path w1 then (Inr output_path, w1)
          else
            (case list_videos_for_job glob_mp4 jobs_dir job_id w1 of
               (Inl e, w2) \<Rightarrow> (Inl e, w2)
             | (Inr video_paths, w2) \<Rightarrow>
                 if video_paths = [] then (Inl (ValueError ''No videos found for job''), w2)
                 else concatenate_videos run_tool concat_file video_paths output_path w2))"

text \<open>A media tool that is cut off after it has begun to write its output.\<close>

definition interrupted_tool :: tool where
  "interrupted_tool cmd w = Exited 1 True (Some (Media Truncated))"

text \<open>A media tool that writes its output in full and exits with status 0.\<close>

definition working_tool :: tool where
  "working_tool cmd w = Exited 0 True (Some (Media Complete))"


text \<open>A job directory with two finished shots, for the concrete runs.\<close>

definition sample_videos_dir :: path where
  "sample_videos_dir = [asc ''srv'', asc ''jobs'', asc ''Test-50'', asc ''videos'']"

definition sample_video_world :: world where
  "sample_video_world =
     \<lparr>dirs = set (prefixes sample_videos_dir),
      files = [sample_videos_dir @ [asc ''01_anchor.mp4''] \<mapsto> Media Complete,
               sample_videos_dir @ [asc ''02_street.mp4''] \<mapsto> Media Complete],
      log = []\<rparr>"


section \<open>Frame extraction (src/services/frame_extractor_service.py)\<close>

text \<open>The paths that exist, and the logging of a call with them.\<close>

definition existing :: "world \<Rightarrow> path set" where
  "existing w = dirs w \<union> dom (files w)"

definition log_event :: "event \<Rightarrow> world \<Rightarrow> world" where
  "log_event ev w = w\<lparr>log := log w @ [(ev, existing w)]\<rparr>"

text \<open>\<^verbatim>\<open>str(n)\<close> and the format \<^verbatim>\<open>{n:02d}\<close> of an integer.\<close>

definition py_str_int :: "int \<Rightarrow> ustring" where
  "py_str_int n = (if n < 0 then 45 # dec (nat (- n)) else dec (nat n))"

definition py_fmt_02d :: "int \<Rightarrow> ustring" where
  "py_fmt_02d n =
     (if n < 0 then 45 # dec (nat (- n)) else if n < 10 then 48 # dec (nat n) else dec (nat n))"

text \<open>
  \<^verbatim>\<open>s.replace('.jpg', '.png')\<close>. The source applies it to the whole path string;
  the pattern has no slash, so that is the replacement in every component.
\<close>

function replace_jpg :: "ustring \<Rightarrow> ustring" where
  "replace_jpg s =
     (if s = [] then []
      else if take 4 s = asc ''.jpg'' then asc ''.png'' @ replace_jpg (drop 4 s)
      else hd s # replace_jpg (tl s))"
  by pat_completeness auto
termination
  by (relation "measure length") (auto simp: asc_def)

declare replace_jpg.simps [simp del]

text \<open>\<^verbatim>\<open>StorageManager.get_frame_path\<close>.\<close>

definition get_frame_path :: "path \<Rightarrow> ustring \<Rightarrow> int \<Rightarrow> ustring \<Rightarrow> world \<Rightarrow> (error + path) \<times> world" where
  "get_frame_path jobs_dir job_id shot_number frame_type w =
     (case get_job_dir jobs_dir job_id (Some (asc ''frames'')) w of
        (Inl e, w') \<Rightarrow> (Inl e, w')
      | (Inr frame_dir, w') \<Rightarrow>
          (Inr (path_div frame_dir
                  (asc ''shot_'' @ py_fmt_02d shot_number @ asc ''_'' @ frame_type @ asc ''.jpg'')), w'))"

definition extract_frame_command :: "path \<Rightarrow> path \<Rightarrow> arg list" where
  "extract_frame_command video_path output_path =
     [Opt (asc ''ffmpeg''), Opt (asc ''-i''), File video_path, Opt (asc ''-vf''), Opt (asc ''reverse''),
      Opt (asc ''-frames:v''), Opt (asc ''1''), Opt (asc ''-q:v''), Opt (asc ''2''),
      File output_path, Opt (asc ''-y'')]"

text \<open>
  \<^verbatim>\<open>FrameExtractorService.extract_last_frame\<close>. Its successful return is logged with
  the video it read, the shot number it was given and the frame it returns.
\<close>

definition extract_last_frame :: "tool \<Rightarrow> path \<Rightarrow> path \<Rightarrow> ustring \<Rightarrow> int \<Rightarrow> world \<Rightarrow> (error + path) \<times> world" where
  "extract_last_frame run_tool jobs_dir video_path job_id shot_number w =
     (if \<not> path_exists video_path w then (Inl (FileNotFoundError ''Video not found''), w)
      else
        (case get_frame_path jobs_dir job_id shot_number (asc ''last'') w of
           (Inl e, w1) \<Rightarrow> (Inl e, w1)
         | (Inr frame_path_jpg, w1) \<Rightarrow>
             (let output_path = map replace_jpg frame_path_jpg in
              case mkdir_parents (butlast output_path) w1 of
                (Inl e, w2) \<Rightarrow> (Inl e, w2)
              | (Inr u, w2) \<Rightarrow>
                  (case subprocess_run run_tool (extract_frame_command video_path output_path) w2 of
                     (Inl e, w3) \<Rightarrow>
                       (Inl (if e = CalledProcessError
                             then RuntimeError ''FFmpeg failed to extract frame'' else e), w3)
                   | (Inr u, w3) \<Rightarrow>
                       if \<not> path_exists output_path w3
                       then (Inl (RuntimeError ''Frame extraction failed - output file not created''), w3)
                       else (Inr output_path,
                             log_event (ExtractLastFrame video_path shot_number output_path) w3)))))"

section \<open>The video stage (src/services/video_service.py)\<close>

text \<open>The file name of a shot's video, as \<^verbatim>\<open>save_video\<close>, \<^verbatim>\<open>get_video_path\<close> and the stage build it.\<close>

definition video_filename :: "(nat \<Rightarrow> bool) \<Rightarrow> int \<Rightarrow> ustring \<Rightarrow> ustring" where
  "video_filename isalnum shot_number subject =
     py_fmt_02d shot_number @ asc ''_'' @ take 50 (safe_chars isalnum subject) @ asc ''.mp4''"

text \<open>\<^verbatim>\<open>StorageManager.save_video\<close>, with \<^verbatim>\<open>shutil.copy2\<close>.\<close>

definition save_video :: "(nat \<Rightarrow> bool) \<Rightarrow> path \<Rightarrow> path \<Rightarrow> ustring \<Rightarrow> int \<Rightarrow> ustring \<Rightarrow> world \<Rightarrow> (error + path) \<times> world" where
  "save_video isalnum jobs_dir video_path job_id shot_number subject w =
     (case get_job_dir jobs_dir job_id (Some (asc ''videos'')) w of
        (Inl e, w1) \<Rightarrow> (Inl e, w1)
      | (Inr job_dir, w1) \<Rightarrow>
          (let dest_path = path_div job_dir (video_filename isalnum shot_number subject) in
           if video_path \<noteq> dest_path then
             (case files w1 video_path of
                None \<Rightarrow> (Inl (FileNotFoundError ''copy2''), w1)
              | Some c \<Rightarrow>
                  if dest_path \<in> dirs w1 then (Inl IsADirectoryError, w1)
                  else (Inr dest_path, w1\<lparr>files := (files w1)(dest_path \<mapsto> c)\<rparr>))
           else (Inr dest_path, w1)))"

text \<open>
  The client handed to \<^verbatim>\<open>VideoService\<close>: any object with these four methods.
  Submission and polling answer from the world they are called in; a download may
  change the world in any way.
\<close>

record kie_client =
  kc_create_task :: "json \<Rightarrow> world \<Rightarrow> error + ustring"
  kc_poll_task :: "ustring \<Rightarrow> world \<Rightarrow> error + json"
  kc_extract_result_url :: "json \<Rightarrow> error + ustring"
  kc_download_file :: "ustring \<Rightarrow> path \<Rightarrow> world \<Rightarrow> (error + unit) \<times> world"

text \<open>
  The service with what it reaches: its client, the image host behind
  \<^verbatim>\<open>ImageUploader.upload_image\<close>, the media tool, the directory of
  \<^verbatim>\<open>tempfile.gettempdir()\<close>, \<^verbatim>\<open>str.isalnum\<close>, the jobs directory of its storage,
  the configured aspect ratio, and the clock read by the status update after shot
  \<open>idx\<close>.
\<close>

record video_service =
  vs_kie :: kie_client
  vs_upload_image :: "path \<Rightarrow> world \<Rightarrow> error + ustring"
  vs_tool :: tool
  vs_tempdir :: path
  vs_isalnum :: "nat \<Rightarrow> bool"
  vs_jobs_dir :: path
  vs_aspect_ratio :: ustring
  vs_now :: "nat \<Rightarrow> ustring"

text \<open>A shot of the prompts file (\<^verbatim>\<open>ShotPrompt\<close>) and the response for a shot.\<close>

record shot_prompt =
  sp_shot_number :: int
  sp_prompt :: ustring
  sp_duration :: int
  sp_subject :: ustring

record video_generation_response =
  vr_job_id :: ustring
  vr_shot_number :: int
  vr_video_path :: path
  vr_status :: ustring

text \<open>
  The second half of \<open>generate_video_from_text\<close> and \<open>generate_video_from_image\<close>,
  the same statements in both: submit, poll, extract the URL, download to a temporary
  file, store it, remove the temporary file.
\<close>

definition run_generation ::
  "video_service \<Rightarrow> ustring \<Rightarrow> int \<Rightarrow> ustring \<Rightarrow> json \<Rightarrow> world \<Rightarrow> (error + video_generation_response) \<times> world" where
  "run_generation svc job_id shot_number subject payload w =
     (let w1 = log_event (CreateTask payload) w in
      case kc_create_task (vs_kie svc) payload w1 of
        Inl e \<Rightarrow> (Inl e, w1)
      | Inr task_id \<Rightarrow>
          (let w2 = log_event (PollTask task_id) w1 in
           case kc_poll_task (vs_kie svc) task_id w2 of
             Inl e \<Rightarrow> (Inl e, w2)
           | Inr detail \<Rightarrow>
               (case kc_extract_result_url (vs_kie svc) detail of
                  Inl e \<Rightarrow> (Inl e, w2)
                | Inr video_url \<Rightarrow>
                    (let temp_path = path_div (vs_tempdir svc) (asc ''video_'' @ task_id @ asc ''.mp4'');
                         w3 = log_event (DownloadFile video_url temp_path) w2
                     in case kc_download_file (vs_kie svc) video_url temp_path w3 of
                          (r, w4') \<Rightarrow>
                            (let w4 = w4'\<lparr>log := log w3\<rparr> in
                             case r of
                               Inl e \<Rightarrow> (Inl e, w4)
                             | Inr u \<Rightarrow>
                                 (case save_video (vs_isalnum svc) (vs_jobs_dir svc) temp_path job_id
                                         shot_number subject w4 of
                                    (Inl e, w5) \<Rightarrow> (Inl e, w5)
                                  | (Inr final_path, w5) \<Rightarrow>
                                      (let w6 = (if path_exists temp_path w5
                                                 then w5\<lparr>files := (files w5)(temp_path := None)\<rparr>
                                                 else w5)
                                       in (Inr \<lparr>vr_job_id = job_id, vr_shot_number = shot_number,
                                                vr_video_path = final_path,
                                                vr_status = asc ''completed''\<rparr>, w6))))))))"

definition aspect_ratio_value :: "video_service \<Rightarrow> ustring" where
  "aspect_ratio_value svc =
     (if vs_aspect_ratio svc = asc ''9:16'' then asc ''portrait'' else vs_aspect_ratio svc)"

text \<open>\<^verbatim>\<open>VideoService.generate_video_from_text\<close>.\<close>

definition generate_video_from_text ::
  "video_service \<Rightarrow> ustring \<Rightarrow> int \<Rightarrow> ustring \<Rightarrow> int \<Rightarrow> ustring \<Rightarrow> world
     \<Rightarrow> (error + video_generation_response) \<times> world" where
  "generate_video_from_text svc job_id shot_number prompt duration subject w =
     (let w0 = log_event (GenerateFromText shot_number) w;
          payload = JObj [(asc ''model'', JStr (asc ''sora-2-text-to-video'')),
                          (asc ''input'',
                             JObj [(asc ''aspect_ratio'', JStr (aspect_ratio_value svc)),
                                   (asc ''n_frames'', JStr (py_str_int duration)),
                                   (asc ''size'', JStr (asc ''standard'')),
                                   (asc ''prompt'', JStr prompt)])]
      in run_generation svc job_id shot_number subject payload w0)"

text \<open>\<^verbatim>\<open>VideoService.generate_video_from_image\<close>.\<close>

definition generate_video_from_image ::
  "video_service \<Rightarrow> ustring \<Rightarrow> int \<Rightarrow> ustring \<Rightarrow> int \<Rightarrow> ustring \<Rightarrow> path \<Rightarrow> world
     \<Rightarrow> (error + video_generation_response) \<times> world" where
  "generate_video_from_image svc job_id shot_number prompt duration subject image_path w =
     (let w0 = log_event (GenerateFromImage shot_number image_path) w;
          w1 = log_event (UploadImage image_path) w0
      in case vs_upload_image svc image_path w1 of
           Inl e \<Rightarrow> (Inl e, w1)
         | Inr image_url \<Rightarrow>
             (let payload = JObj [(asc ''model'', JStr (asc ''sora-2-image-to-video'')),
                                  (asc ''input'',
                                     JObj [(asc ''image_url'', JStr image_url),
                                           (asc ''prompt'', JStr prompt),
                                           (asc ''aspect_ratio'', JStr (aspect_ratio_value svc)),
                                           (asc ''n_frames'', JStr (py_str_int duration)),
                                           (asc ''size'', JStr (asc ''standard''))])]
              in run_generation svc job_id shot_number subject payload w1))"

text \<open>
  The body of the loop of \<open>generate_videos_from_prompts\<close> up to the response for the
  shot: the check for an existing video, else frame extraction and image-seeded
  generation, or text-seeded generation.
\<close>

definition process_shot ::
  "video_service \<Rightarrow> ustring \<Rightarrow> path option \<Rightarrow> shot_prompt \<Rightarrow> world
     \<Rightarrow> (error + video_generation_response) \<times> world" where
  "process_shot svc job_id previous_video_path shot w =
     (let shot_number = sp_shot_number shot;
          subject = sp_subject shot;
          expected_filename = video_filename (vs_isalnum svc) shot_number subject
      in case get_job_dir (vs_jobs_dir svc) job_id None w of
           (Inl e, w1) \<Rightarrow> (Inl e, w1)
         | (Inr job_dir, w1) \<Rightarrow>
             (let expected_path = path_div job_dir expected_filename in
              if path_exists expected_path w1 then
                (Inr \<lparr>vr_job_id = job_id, vr_shot_number = shot_number,
                       vr_video_path = expected_path, vr_status = asc ''completed''\<rparr>, w1)
              else
                (case previous_video_path of
                   Some pv \<Rightarrow>
                     if shot_number > 1 then
                       (case extract_last_frame (vs_tool svc) (vs_jobs_dir svc) pv job_id
                               (shot_number - 1) w1 of
                          (Inl e, w2) \<Rightarrow> (Inl e, w2)
                        | (Inr init_frame_path, w2) \<Rightarrow>
                            generate_video_from_image svc job_id shot_number (sp_prompt shot)
                              (sp_duration shot) subject init_frame_path w2)
                     else generate_video_from_text svc job_id shot_number (sp_prompt shot)
                            (sp_duration shot) subject w1
                 | None \<Rightarrow>
                     generate_video_from_text svc job_id shot_number (sp_prompt shot)
                       (sp_duration shot) subject w1)))"

text \<open>The loop, with the progress update that ends each iteration.\<close>

fun video_loop ::
  "video_service \<Rightarrow> ustring \<Rightarrow> nat \<Rightarrow> nat \<Rightarrow> path option \<Rightarrow> video_generation_response list
     \<Rightarrow> shot_prompt list \<Rightarrow> world \<Rightarrow> (error + video_generation_response list) \<times> world" where
  "video_loop svc job_id n_shots idx previous_video_path results [] w = (Inr results, w)"
| "video_loop svc job_id n_shots idx previous_video_path results (shot # rest) w =
     (case process_shot svc job_id previous_video_path shot w of
        (Inl e, w1) \<Rightarrow> (Inl e, w1)
      | (Inr result, w1) \<Rightarrow>
          (case update_job_status (vs_jobs_dir svc) (vs_now svc idx) job_id (asc ''processing'')
                  [(asc ''message'',
                      JStr (asc ''Generated '' @ dec idx @ asc ''/'' @ dec n_shots @ asc '' videos'')),
                   (asc ''progress'',
                      JObj [(asc ''videos_completed'', JInt (int idx)),
                            (asc ''videos_total'', JInt (int n_shots))])] w1 of
             (Inl e, w2) \<Rightarrow> (Inl e, w2)
           | (Inr u, w2) \<Rightarrow>
               video_loop svc job_id n_shots (Suc idx) (Some (vr_video_path result))
                 (results @ [result]) rest w2))"

text \<open>
  \<^verbatim>\<open>VideoService.generate_videos_from_prompts\<close>, on the shots of the loaded prompts
  file.
\<close>

definition generate_videos_from_prompts ::
  "video_service \<Rightarrow> ustring \<Rightarrow> shot_prompt list \<Rightarrow> world
     \<Rightarrow> (error + video_generation_response list) \<times> world" where
  "generate_videos_from_prompts svc job_id shots w =
     video_loop svc job_id (length shots) 1 None [] shots w"


section \<open>Job identity\<close>

lemma asc_Cons_neq_Nil [simp]: "asc (c # cs) \<noteq> []" and asc_Nil [simp]: "asc [] = []"
  by (simp_all add: asc_def)

lemma set_py_strip: "set (py_strip chars s) \<subseteq> set s"
proof -
  have "set (py_strip chars s) \<subseteq> set (dropWhile (\<lambda>c. c \<in> set chars) s)"
    unfolding py_strip_def using set_dropWhileD by fastforce
  also have "\<dots> \<subseteq> set s"
    using set_dropWhileD by fastforce
  finally show ?thesis .
qed

lemma safe_chars_charset:
  "c \<in> set (safe_chars isalnum s) \<Longrightarrow> isalnum c \<or> c \<in> set (asc ''_-'')"
  by (auto simp: safe_chars_def asc_def)

lemma dropWhile_snoc_keep:
  "\<not> P x \<Longrightarrow> \<exists>ys. dropWhile P (xs @ [x]) = ys @ [x]"
proof (cases "\<forall>y \<in> set xs. P y")
  case True
  assume "\<not> P x"
  with True have "dropWhile P (xs @ [x]) = [] @ [x]"
    by (simp add: dropWhile_append2)
  then show ?thesis by blast
next
  case False
  then obtain y where "y \<in> set xs" "\<not> P y" by blast
  then have "dropWhile P (xs @ [x]) = dropWhile P xs @ [x]"
    by (rule dropWhile_append1)
  then show ?thesis by blast
qed

lemma py_strip_hd: "py_strip chars s \<noteq> [] \<Longrightarrow> hd (py_strip chars s) \<notin> set chars"
proof -
  let ?P = "\<lambda>c. c \<in> set chars"
  assume ne: "py_strip chars s \<noteq> []"
  have dne: "dropWhile ?P s \<noteq> []"
  proof
    assume e: "dropWhile ?P s = []"
    have "py_strip chars s = rev (dropWhile ?P (rev []))"
      unfolding py_strip_def e ..
    with ne show False by simp
  qed
  then obtain x xs where d: "dropWhile ?P s = x # xs" by (cases "dropWhile ?P s") auto
  have x: "\<not> ?P x" using hd_dropWhile [OF dne] d by simp
  obtain ys where "dropWhile ?P (rev xs @ [x]) = ys @ [x]"
    using dropWhile_snoc_keep [of ?P x "rev xs"] x by blast
  then have "py_strip chars s = x # rev ys"
    by (simp add: py_strip_def d)
  then show ?thesis using x by simp
qed

lemma py_strip_all:
  assumes "\<forall>c \<in> set s. c \<in> set chars"
  shows "py_strip chars s = []"
proof -
  have e: "dropWhile (\<lambda>c. c \<in> set chars) s = []"
    using assms by simp
  show ?thesis unfolding py_strip_def e by simp
qed

lemma py_strip_last: "py_strip chars s \<noteq> [] \<Longrightarrow> last (py_strip chars s) \<notin> set chars"
proof -
  let ?r = "dropWhile (\<lambda>c. c \<in> set chars) (rev (dropWhile (\<lambda>c. c \<in> set chars) s))"
  assume ne: "py_strip chars s \<noteq> []"
  then have rne: "?r \<noteq> []" unfolding py_strip_def rev_is_Nil_conv .
  have "hd ?r \<notin> set chars" by (rule hd_dropWhile [OF rne])
  moreover have "last (py_strip chars s) = hd ?r"
    unfolding py_strip_def by (rule last_rev)
  ultimately show ?thesis by simp
qed

lemma generate_job_id_titled:
  "title \<noteq> [] \<Longrightarrow>
     generate_job_id isalnum stamp uuid_hex (Some title) =
       take 50 (py_strip (asc ''_'') (safe_chars isalnum title))"
  by (simp add: generate_job_id_def)



lemma get_job_dir_root_empty_id:
  "\<forall>q \<in> set (prefixes jobs_dir). q \<notin> dom (files w) \<Longrightarrow>
     get_job_dir jobs_dir [] None w = (Inr jobs_dir, w\<lparr>dirs := dirs w \<union> set (prefixes jobs_dir)\<rparr>)"
  by (auto simp: get_job_dir_def path_div_def mkdir_parents_def)

text \<open>
  C10 (amended). For a non-empty title the identifier consists of alphanumeric
  characters, underscores and hyphens, has at most 50 characters and no leading
  underscore; it has no trailing underscore when the stripped text has at most 50
  characters, that is when nothing is cut. A title without any alphanumeric character,
  underscore or hyphen gets the empty identifier, and the job directory of the empty
  identifier is the jobs root itself.
\<close>

theorem generate_job_id_shape:
  assumes "title \<noteq> []" and "jid = generate_job_id isalnum stamp uuid_hex (Some title)"
  shows "(\<forall>c \<in> set jid. isalnum c \<or> c \<in> set (asc ''_-''))
       \<and> length jid \<le> 50
       \<and> (jid \<noteq> [] \<longrightarrow> hd jid \<noteq> of_char CHR ''_'')
       \<and> (jid \<noteq> [] \<and> length (py_strip (asc ''_'') (safe_chars isalnum title)) \<le> 50 \<longrightarrow>
            last jid \<noteq> of_char CHR ''_'')
       \<and> ((\<forall>c \<in> set title. \<not> isalnum c \<and> c \<notin> set (asc ''_-'')) \<longrightarrow>
            jid = []
            \<and> (\<forall>d w'. get_job_dir jobs_dir jid None w = (Inr d, w') \<longrightarrow> d = jobs_dir)
            \<and> ((\<forall>q \<in> set (prefixes jobs_dir). q \<notin> dom (files w)) \<longrightarrow>
                 fst (get_job_dir jobs_dir jid None w) = Inr jobs_dir))"
proof -
  let ?s = "py_strip (asc ''_'') (safe_chars isalnum title)"
  have jid: "jid = take 50 ?s"
    using assms by (simp add: generate_job_id_titled)
  have charset: "\<forall>c \<in> set jid. isalnum c \<or> c \<in> set (asc ''_-'')"
  proof
    fix c assume "c \<in> set jid"
    then have "c \<in> set ?s" unfolding jid by (rule in_set_takeD)
    then have "c \<in> set (safe_chars isalnum title)" using set_py_strip by blast
    then show "isalnum c \<or> c \<in> set (asc ''_-'')" by (rule safe_chars_charset)
  qed
  have len: "length jid \<le> 50" unfolding jid by simp
  have us: "set (asc ''_'') = {of_char CHR ''_''}" by (simp add: asc_def)
  have lead: "jid \<noteq> [] \<longrightarrow> hd jid \<noteq> of_char CHR ''_''"
  proof
    assume ne: "jid \<noteq> []"
    then have sne: "?s \<noteq> []" unfolding jid by auto
    have "hd jid = hd ?s" unfolding jid using sne by (simp add: hd_take)
    moreover have "hd ?s \<notin> set (asc ''_'')" by (rule py_strip_hd [OF sne])
    ultimately show "hd jid \<noteq> of_char CHR ''_''" using us by simp
  qed
  have trail: "jid \<noteq> [] \<and> length ?s \<le> 50 \<longrightarrow> last jid \<noteq> of_char CHR ''_''"
  proof
    assume a: "jid \<noteq> [] \<and> length ?s \<le> 50"
    then have eq: "jid = ?s" unfolding jid by simp
    with a have sne: "?s \<noteq> []" by simp
    have "last ?s \<notin> set (asc ''_'')" by (rule py_strip_last [OF sne])
    then show "last jid \<noteq> of_char CHR ''_''" using us eq by simp
  qed
  have empty: "(\<forall>c \<in> set title. \<not> isalnum c \<and> c \<notin> set (asc ''_-'')) \<longrightarrow>
            jid = []
            \<and> (\<forall>d w'. get_job_dir jobs_dir jid None w = (Inr d, w') \<longrightarrow> d = jobs_dir)
            \<and> ((\<forall>q \<in> set (prefixes jobs_dir). q \<notin> dom (files w)) \<longrightarrow>
                 fst (get_job_dir jobs_dir jid None w) = Inr jobs_dir)"
  proof
    assume none: "\<forall>c \<in> set title. \<not> isalnum c \<and> c \<notin> set (asc ''_-'')"
    then have "safe_chars isalnum title = map (\<lambda>c. of_char CHR ''_'') title"
      unfolding safe_chars_def by (intro map_cong) auto
    then have "\<forall>c \<in> set (safe_chars isalnum title). c \<in> set (asc ''_'')"
      using us by auto
    then have "?s = []" by (rule py_strip_all)
    then have j: "jid = []" unfolding jid by simp
    have "\<forall>d w'. get_job_dir jobs_dir [] None w = (Inr d, w') \<longrightarrow> d = jobs_dir"
      by (auto simp: get_job_dir_def path_div_def mkdir_parents_def split: if_splits)
    moreover have "(\<forall>q \<in> set (prefixes jobs_dir). q \<notin> dom (files w)) \<longrightarrow>
                 fst (get_job_dir jobs_dir [] None w) = Inr jobs_dir"
      using get_job_dir_root_empty_id [of jobs_dir w] by simp
    ultimately show "jid = []
            \<and> (\<forall>d w'. get_job_dir jobs_dir jid None w = (Inr d, w') \<longrightarrow> d = jobs_dir)
            \<and> ((\<forall>q \<in> set (prefixes jobs_dir). q \<notin> dom (files w)) \<longrightarrow>
                 fst (get_job_dir jobs_dir jid None w) = Inr jobs_dir)"
      using j by simp
  qed
  from charset len lead trail empty show ?thesis by blast
qed

theorem generate_job_id_shape_witness:
  "asc ''!!!'' \<noteq> []
   \<and> generate_job_id ascii_isalnum (asc ''20260111_143022'') (asc ''a3f8d9c2'') (Some (asc ''!!!'')) = []
   \<and> fst (get_job_dir [asc ''srv'', asc ''jobs''] [] None
             \<lparr>dirs = {}, files = Map.empty, log = []\<rparr>) = Inr [asc ''srv'', asc ''jobs'']"
  using generate_job_id_shape
    [where title = "asc ''!!!''" and isalnum = ascii_isalnum
       and stamp = "asc ''20260111_143022''" and uuid_hex = "asc ''a3f8d9c2''"
       and jobs_dir = "[asc ''srv'', asc ''jobs'']"
       and w = "\<lparr>dirs = {}, files = Map.empty, log = []\<rparr>", OF _ refl]
  by (simp add: asc_def ascii_isalnum_def generate_job_id_def safe_chars_def py_strip_def
        get_job_dir_def path_div_def mkdir_parents_def)

text \<open>
  C10 as stated fails on the trailing underscore: the text is stripped before it is cut,
  so a title whose 50th sanitised character is an underscore keeps it at the end.
\<close>

theorem generate_job_id_trailing_underscore_counterexample:
  "generate_job_id ascii_isalnum (asc ''20260111_143022'') (asc ''a3f8d9c2'')
      (Some (asc ''Iran protests: parliament votes on new sanctions, oil markets react''))
     = asc ''Iran_protests__parliament_votes_on_new_sanctions__''
   \<and> last (asc ''Iran_protests__parliament_votes_on_new_sanctions__'') = of_char CHR ''_''"
  by (simp add: generate_job_id_def asc_def safe_chars_def py_strip_def ascii_isalnum_def)

section \<open>Existence of a job\<close>










section \<open>Task submission\<close>

lemma create_task_returns_iff:
  "(\<exists>t. create_task py_repr post payload = Inr t) \<longleftrightarrow>
     (\<exists>data. post payload = Inr data
        \<and> \<not> (case data of JObj d \<Rightarrow> py_eq_int (dict_get d (asc ''code'')) 500 | _ \<Rightarrow> False)
        \<and> truthy (py_or (safe_get data (asc ''data.taskId''))
                     (py_or (safe_get data (asc ''taskId'')) (safe_get data (asc ''data.id'')))))"
  by (auto simp: create_task_def Let_def split: sum.splits)




section \<open>Result locator\<close>

lemma truthy_or_empty_list [simp]: "truthy (py_or x (JArr [])) = truthy x"
  by (simp add: py_or_def)

lemma py_or_truthy [simp]: "truthy x \<Longrightarrow> py_or x y = x"
  by (simp add: py_or_def)

lemma py_index0_not_RuntimeError: "py_index0 v \<noteq> Inl (RuntimeError m)"
  by (cases v rule: py_index0.cases) auto

text \<open>
  C8 (amended). \<open>extract_result_url\<close> raises its \<^verbatim>\<open>RuntimeError\<close> if and only if
  \<^verbatim>\<open>data.resultJson\<close> is absent or falsy, or is a string that decodes to an object whose
  \<^verbatim>\<open>resultUrls\<close> is absent or falsy. When \<^verbatim>\<open>data.resultJson\<close> is a string that decodes
  to an object whose \<^verbatim>\<open>resultUrls\<close> is a non-empty list, the first element of the list
  is returned.
\<close>

theorem extract_result_url_cases:
  "((\<exists>m. extract_result_url json_loads detail = Inl (RuntimeError m)) \<longleftrightarrow>
      (\<not> truthy (safe_get detail (asc ''data.resultJson''))
       \<or> (\<exists>s p. safe_get detail (asc ''data.resultJson'') = JStr s
             \<and> json_loads s = Some (JObj p)
             \<and> \<not> truthy (dict_get p (asc ''resultUrls'')))))
   \<and> (\<forall>s p u us.
         safe_get detail (asc ''data.resultJson'') = JStr s \<and> s \<noteq> []
         \<and> json_loads s = Some (JObj p)
         \<and> dict_get p (asc ''resultUrls'') = JArr (u # us)
         \<longrightarrow> extract_result_url json_loads detail = Inr u)"
proof (intro conjI)
  show "(\<exists>m. extract_result_url json_loads detail = Inl (RuntimeError m)) \<longleftrightarrow>
      (\<not> truthy (safe_get detail (asc ''data.resultJson''))
       \<or> (\<exists>s p. safe_get detail (asc ''data.resultJson'') = JStr s
             \<and> json_loads s = Some (JObj p)
             \<and> \<not> truthy (dict_get p (asc ''resultUrls''))))"
    by (auto simp: extract_result_url_def Let_def py_index0_not_RuntimeError
        split: json.splits option.splits)
next
  show "\<forall>s p u us.
         safe_get detail (asc ''data.resultJson'') = JStr s \<and> s \<noteq> []
         \<and> json_loads s = Some (JObj p)
         \<and> dict_get p (asc ''resultUrls'') = JArr (u # us)
         \<longrightarrow> extract_result_url json_loads detail = Inr u"
    by (auto simp: extract_result_url_def Let_def)
qed

theorem extract_result_url_cases_witness:
  \<open>extract_result_url sample_json_loads
      (JObj [(asc ''data'', JObj [(asc ''state'', JStr (asc ''success'')),
         (asc ''resultJson'',
          JStr (asc ''{"resultUrls": ["https://cdn.example/a.mp4", "https://cdn.example/b.mp4"]}''))])])
     = Inr (JStr (asc ''https://cdn.example/a.mp4''))
   \<and> extract_result_url sample_json_loads
      (JObj [(asc ''data'', JObj [(asc ''resultJson'', JStr (asc ''{"resultUrls": []}''))])])
     = Inl (RuntimeError ''Missing resultUrls'')
   \<and> extract_result_url sample_json_loads
      (JObj [(asc ''data'', JObj [(asc ''state'', JStr (asc ''success''))])])
     = Inl (RuntimeError ''Missing data.resultJson'')\<close>
  using extract_result_url_cases
    [of sample_json_loads
        \<open>JObj [(asc ''data'', JObj [(asc ''state'', JStr (asc ''success'')),
         (asc ''resultJson'',
          JStr (asc ''{"resultUrls": ["https://cdn.example/a.mp4", "https://cdn.example/b.mp4"]}''))])]\<close>]
  by (simp add: extract_result_url_def sample_json_loads_def safe_get_def dict_get_def asc_def Let_def)

text \<open>
  C8 as stated fails where the decoded \<^verbatim>\<open>resultUrls\<close> is not a list. A string there is
  neither absent nor empty and no error is raised, yet what comes back is its first
  character, not a URL; a \<^verbatim>\<open>resultJson\<close> that is a number is neither absent nor empty
  and the call ends in a \<^verbatim>\<open>TypeError\<close>, not in the error for a malformed result.
\<close>

theorem extract_result_url_counterexample:
  \<open>extract_result_url sample_json_loads
      (JObj [(asc ''data'', JObj [(asc ''state'', JStr (asc ''success'')),
         (asc ''resultJson'', JStr (asc ''{"resultUrls": "https://cdn.example/a.mp4"}''))])])
     = Inr (JStr (asc ''h''))
   \<and> extract_result_url sample_json_loads
      (JObj [(asc ''data'', JObj [(asc ''resultJson'', JInt 5)])])
     = Inl TypeError\<close>
  by (simp add: extract_result_url_def sample_json_loads_def safe_get_def dict_get_def asc_def Let_def)


section \<open>Polling\<close>

lemma round_half_even_ge: "of_int k \<le> q \<Longrightarrow> k \<le> round_half_even q"
proof -
  assume "of_int k \<le> q"
  then have "k \<le> \<lfloor>q\<rfloor>" by (simp add: le_floor_iff)
  then show ?thesis by (simp add: round_half_even_def Let_def)
qed

lemma round_half_even_le: "q \<le> of_int k \<Longrightarrow> round_half_even q \<le> k"
proof (cases "q = of_int k")
  case True
  then show ?thesis by (simp add: round_half_even_def Let_def)
next
  case False
  assume "q \<le> of_int k"
  with False have "q < of_int k" by simp
  then have "\<lfloor>q\<rfloor> < k" by (simp add: floor_less_iff)
  then show ?thesis by (simp add: round_half_even_def Let_def)
qed

lemma ilog2_bounds:
  assumes "0 < x"
  shows "2 powi (ilog2 x) \<le> x" and "x < 2 powi (ilog2 x + 1)"
proof -
  have "2 powi (ilog2 x) \<le> x \<and> x < 2 powi (ilog2 x + 1)"
  proof (cases "1 \<le> x")
    case True
    let ?n = "\<lfloor>x\<rfloor>"
    have n: "0 < ?n" using True by simp
    have b1: "1 \<le> bitlen ?n" using n by (simp add: bitlen_alt_def)
    from bitlen_bounds [OF n] have lo: "2 ^ nat (bitlen ?n - 1) \<le> ?n" and hi: "?n < 2 ^ nat (bitlen ?n)"
      by simp_all
    have e: "ilog2 x = bitlen ?n - 1" using True by (simp add: ilog2_def)
    have "(2::rat) powi (bitlen ?n - 1) = 2 ^ nat (bitlen ?n - 1)"
      using b1 by (simp add: power_int_def)
    also have "\<dots> = of_int (2 ^ nat (bitlen ?n - 1))" by simp
    also have "\<dots> \<le> of_int ?n" using lo by (simp only: of_int_le_iff)
    also have "\<dots> \<le> x" by simp
    finally have 1: "2 powi (ilog2 x) \<le> x" unfolding e .
    have "?n + 1 \<le> 2 ^ nat (bitlen ?n)" using hi by simp
    then have "(of_int (?n + 1) :: rat) \<le> of_int (2 ^ nat (bitlen ?n))" by (simp only: of_int_le_iff)
    moreover have "x < of_int (?n + 1)" using floor_correct [of x] by simp
    ultimately have "x < of_int (2 ^ nat (bitlen ?n))" by simp
    also have "\<dots> = 2 powi (bitlen ?n)" using b1 by (simp add: power_int_def)
    finally have 2: "x < 2 powi (ilog2 x + 1)" unfolding e by simp
    from 1 2 show ?thesis ..
  next
    case False
    then have x1: "x < 1" by simp
    let ?m = "\<lceil>1 / x\<rceil> - 1"
    have "1 < 1 / x" using assms x1 by simp
    then have "1 < \<lceil>1 / x\<rceil>" by (simp add: less_ceiling_iff)
    then have m: "0 < ?m" by simp
    let ?k = "bitlen ?m"
    have k1: "1 \<le> ?k" using m by (simp add: bitlen_alt_def)
    from bitlen_bounds [OF m] have lo: "2 ^ nat (?k - 1) \<le> ?m" and hi: "?m < 2 ^ nat ?k"
      by simp_all
    have e: "ilog2 x = - ?k" using False by (simp add: ilog2_def)
    have "1 / x \<le> of_int \<lceil>1 / x\<rceil>" by simp
    also have "\<dots> = of_int (?m + 1)" by simp
    also have "\<dots> \<le> of_int (2 ^ nat ?k)" using hi by (simp only: of_int_le_iff)
    finally have "1 / x \<le> 2 ^ nat ?k" by simp
    then have "1 \<le> 2 ^ nat ?k * x" using assms by (simp add: field_simps)
    then have "1 / 2 ^ nat ?k \<le> x" by (simp add: field_simps)
    moreover have "(2::rat) powi (- ?k) = 1 / 2 ^ nat ?k"
      using k1 by (simp add: power_int_def field_simps)
    ultimately have 1: "2 powi (ilog2 x) \<le> x" unfolding e by simp
    have "of_int ?m < 1 / x" using ceiling_correct [of "1 / x"] by simp
    moreover have "(of_int (2 ^ nat (?k - 1)) :: rat) \<le> of_int ?m" using lo by (simp only: of_int_le_iff)
    ultimately have "2 ^ nat (?k - 1) < 1 / x" by simp
    then have "2 ^ nat (?k - 1) * x < 1" using assms by (simp add: field_simps)
    then have "x < 1 / 2 ^ nat (?k - 1)" by (simp add: field_simps)
    moreover have "(2::rat) powi (- ?k + 1) = 1 / 2 ^ nat (?k - 1)"
    proof (cases "?k = 1")
      case True
      then show ?thesis by simp
    next
      case False
      with k1 have "- ?k + 1 < 0" by simp
      then have "(2::rat) powi (- ?k + 1) = inverse 2 ^ nat (- (- ?k + 1))"
        by (simp add: power_int_def)
      also have "nat (- (- ?k + 1)) = nat (?k - 1)" by simp
      finally show ?thesis by (simp add: field_simps power_inverse)
    qed
    ultimately have 2: "x < 2 powi (ilog2 x + 1)" unfolding e by simp
    from 1 2 show ?thesis ..
  qed
  then show "2 powi (ilog2 x) \<le> x" and "x < 2 powi (ilog2 x + 1)" by simp_all
qed

lemma representable_grid:
  assumes "representable y" and "2 powi e \<le> \<bar>y\<bar>"
  shows "\<exists>n. y / 2 powi (e - 52) = of_int n"
proof -
  from assms(1) obtain m j where y: "y = of_int m * 2 powi j" and m: "\<bar>m\<bar> < 2 ^ 53"
    unfolding representable_def by blast
  have "\<bar>y\<bar> = of_int \<bar>m\<bar> * 2 powi j" unfolding y by (simp add: abs_mult)
  also have "\<dots> < of_int (2 ^ 53) * 2 powi j"
    using m by (intro mult_strict_right_mono) (simp_all only: of_int_less_iff zero_less_power_int zero_less_numeral)
  also have "\<dots> = 2 powi (53 + j)" by (simp add: power_int_add)
  finally have "(2::rat) powi e < 2 powi (53 + j)" using assms(2) by simp
  then have "e < 53 + j"
    by (metis linorder_not_less one_le_numeral power_int_increasing)
  then have d: "0 \<le> j - (e - 52)" by simp
  have "y / 2 powi (e - 52) = of_int m * 2 powi (j - (e - 52))"
    unfolding y by (simp add: power_int_diff)
  also have "\<dots> = of_int m * 2 ^ nat (j - (e - 52))" using d by (simp add: power_int_def)
  also have "\<dots> = of_int (m * 2 ^ nat (j - (e - 52)))" by simp
  finally show ?thesis by blast
qed

lemma fl_pos:
  "0 < x \<Longrightarrow> fl x = of_int (round_half_even (x / 2 powi (ilog2 x - 52))) * 2 powi (ilog2 x - 52)"
  by (simp add: fl_def Let_def)

lemma fl_lower:
  assumes "0 < a" "a \<le> x" "representable a"
  shows "a \<le> fl x"
proof -
  have x: "0 < x" using assms by simp
  let ?e = "ilog2 x"
  let ?u = "(2::rat) powi (?e - 52)"
  have u: "0 < ?u" by simp
  show ?thesis
  proof (cases "2 powi ?e \<le> a")
    case True
    then have "2 powi ?e \<le> \<bar>a\<bar>" using assms(1) by simp
    from representable_grid [OF assms(3) this] obtain n where n: "a / ?u = of_int n" by blast
    have "a / ?u \<le> x / ?u" using assms(2) u by (simp add: divide_right_mono)
    then have "n \<le> round_half_even (x / ?u)" unfolding n by (rule round_half_even_ge)
    then have "(of_int n :: rat) \<le> of_int (round_half_even (x / ?u))" by (simp only: of_int_le_iff)
    then have "of_int n * ?u \<le> of_int (round_half_even (x / ?u)) * ?u"
      using u by (simp only: mult_le_cancel_right_pos)
    moreover have "of_int n * ?u = a" using n u by (simp add: field_simps)
    ultimately show ?thesis using x by (simp add: fl_pos)
  next
    case False
    have "2 powi ?e / ?u = (2::rat) powi 52" by (simp add: power_int_diff)
    also have "\<dots> = of_int (2 ^ 52)" by simp
    finally have g: "2 powi ?e / ?u = (of_int (2 ^ 52) :: rat)" .
    have "2 powi ?e / ?u \<le> x / ?u" using ilog2_bounds(1) [OF x] u by (simp add: divide_right_mono)
    then have "2 ^ 52 \<le> round_half_even (x / ?u)" unfolding g by (rule round_half_even_ge)
    then have "(of_int (2 ^ 52) :: rat) \<le> of_int (round_half_even (x / ?u))" by (simp only: of_int_le_iff)
    then have le: "of_int (2 ^ 52) * ?u \<le> of_int (round_half_even (x / ?u)) * ?u"
      using u by (simp only: mult_le_cancel_right_pos)
    have "2 powi ?e = (2 powi ?e / ?u) * ?u" using u by simp
    also have "\<dots> = of_int (2 ^ 52) * ?u" by (simp only: g)
    also note le
    also have "of_int (round_half_even (x / ?u)) * ?u = fl x" using x by (simp only: fl_pos)
    finally have "2 powi ?e \<le> fl x" .
    with False show ?thesis by simp
  qed
qed

lemma fl_upper:
  assumes "0 < x" "x \<le> b" "representable b"
  shows "fl x \<le> b"
proof -
  let ?e = "ilog2 x"
  let ?u = "(2::rat) powi (?e - 52)"
  have u: "0 < ?u" by simp
  have "2 powi ?e \<le> \<bar>b\<bar>" using ilog2_bounds(1) [OF assms(1)] assms(2) by simp
  from representable_grid [OF assms(3) this] obtain n where n: "b / ?u = of_int n" by blast
  have "x / ?u \<le> b / ?u" using assms(2) u by (simp add: divide_right_mono)
  then have "round_half_even (x / ?u) \<le> n" unfolding n by (rule round_half_even_le)
  then have "(of_int (round_half_even (x / ?u)) :: rat) \<le> of_int n" by (simp only: of_int_le_iff)
  then have "of_int (round_half_even (x / ?u)) * ?u \<le> of_int n * ?u"
    using u by (simp only: mult_le_cancel_right_pos)
  moreover have "of_int n * ?u = b" using n u by (simp add: field_simps)
  ultimately show ?thesis using assms(1) by (simp add: fl_pos)
qed

lemma fl_id: "0 \<le> x \<Longrightarrow> representable x \<Longrightarrow> fl x = x"
proof (cases "x = 0")
  case True
  then show ?thesis by (simp add: fl_def)
next
  case False
  assume "0 \<le> x" "representable x"
  with False have "0 < x" by simp
  from fl_lower [OF this order_refl \<open>representable x\<close>] fl_upper [OF this order_refl \<open>representable x\<close>]
  show ?thesis by simp
qed


lemma representable_frac: "\<bar>m\<bar> < 2 ^ 53 \<Longrightarrow> representable (of_int m / 2 ^ n)"
  unfolding representable_def
  by (rule exI [of _ m], rule exI [of _ "- int n"]) (simp add: power_int_def field_simps power_inverse)

lemma float_1_3_value: "float_1_3 = 5854679515581645 / 4503599627370496"
  by code_simp

lemma py_uniform_half:
  "py_uniform 0 (1 / 2) bits = of_nat (bits mod 2 ^ 53) / 2 ^ 54"
proof -
  let ?n = "bits mod 2 ^ 53"
  have n: "?n < 2 ^ 53" by simp
  have r: "representable (of_nat ?n / 2 ^ 54)"
    using representable_frac [of "int ?n" 54] n by simp
  have h: "fl (1 / 2 - 0) = 1 / 2" by code_simp
  have p: "(1 / 2) * py_random bits = of_nat ?n / 2 ^ 54" by (simp add: py_random_def)
  have "fl ((1 / 2) * py_random bits) = of_nat ?n / 2 ^ 54"
    unfolding p by (rule fl_id [OF _ r]) simp
  moreover have "fl (0 + of_nat ?n / 2 ^ 54) = of_nat ?n / 2 ^ 54"
    using fl_id [OF _ r] by simp
  ultimately show ?thesis by (simp only: py_uniform_def h)
qed

lemma py_uniform_half_bounds:
  "0 \<le> py_uniform 0 (1 / 2) bits" "py_uniform 0 (1 / 2) bits < 1 / 2"
proof -
  have "(of_nat (bits mod 2 ^ 53) :: rat) < of_nat (2 ^ 53)"
    by (simp only: of_nat_less_iff) simp
  then show "0 \<le> py_uniform 0 (1 / 2) bits" "py_uniform 0 (1 / 2) bits < 1 / 2"
    by (simp_all add: py_uniform_half)
qed

lemma backoff_step_0: "min max_delay (fl (2 * float_1_3)) = 5854679515581645 / 2251799813685248"
  by code_simp

lemma backoff_step_1: "min max_delay (fl (5854679515581645 / 2251799813685248 * float_1_3)) = 7611083370256139 / 2251799813685248"
  by code_simp

lemma backoff_step_2: "min max_delay (fl (7611083370256139 / 2251799813685248 * float_1_3)) = 4947204190666491 / 1125899906842624"
  by code_simp

lemma backoff_step_3: "min max_delay (fl (4947204190666491 / 1125899906842624 * float_1_3)) = 6431365447866439 / 1125899906842624"
  by code_simp

lemma backoff_step_4: "min max_delay (fl (6431365447866439 / 1125899906842624 * float_1_3)) = 8360775082226371 / 1125899906842624"
  by code_simp

lemma backoff_step_5: "min max_delay (fl (8360775082226371 / 1125899906842624 * float_1_3)) = 5434503803447141 / 562949953421312"
  by code_simp

lemma backoff_step_6: "min max_delay (fl (5434503803447141 / 562949953421312 * float_1_3)) = 1766213736120321 / 140737488355328"
  by code_simp

lemma backoff_step_7: "min max_delay (fl (1766213736120321 / 140737488355328 * float_1_3)) = 15"
  by code_simp

lemma backoff_step_cap: "min max_delay (fl (15 * float_1_3)) = 15"
  by code_simp

lemma delay_at_Suc_value:
  "delay_at k = d \<Longrightarrow> min max_delay (fl (d * float_1_3)) = d' \<Longrightarrow> delay_at (Suc k) = d'"
  by (simp add: delay_at.simps)

lemma delay_at_0: "delay_at 0 = 2"
  by (simp add: delay_at.simps initial_delay_def)

lemma delay_at_1: "delay_at 1 = 5854679515581645 / 2251799813685248"
  using delay_at_Suc_value [OF delay_at_0 backoff_step_0] by (simp add: eval_nat_numeral)

lemma delay_at_2: "delay_at 2 = 7611083370256139 / 2251799813685248"
  using delay_at_Suc_value [OF delay_at_1 backoff_step_1] by (simp add: eval_nat_numeral)

lemma delay_at_3: "delay_at 3 = 4947204190666491 / 1125899906842624"
  using delay_at_Suc_value [OF delay_at_2 backoff_step_2] by (simp add: eval_nat_numeral)

lemma delay_at_4: "delay_at 4 = 6431365447866439 / 1125899906842624"
  using delay_at_Suc_value [OF delay_at_3 backoff_step_3] by (simp add: eval_nat_numeral)

lemma delay_at_5: "delay_at 5 = 8360775082226371 / 1125899906842624"
  using delay_at_Suc_value [OF delay_at_4 backoff_step_4] by (simp add: eval_nat_numeral)

lemma delay_at_6: "delay_at 6 = 5434503803447141 / 562949953421312"
  using delay_at_Suc_value [OF delay_at_5 backoff_step_5] by (simp add: eval_nat_numeral)

lemma delay_at_7: "delay_at 7 = 1766213736120321 / 140737488355328"
  using delay_at_Suc_value [OF delay_at_6 backoff_step_6] by (simp add: eval_nat_numeral)

lemma delay_at_8: "delay_at 8 = 15"
  using delay_at_Suc_value [OF delay_at_7 backoff_step_7] by (simp add: eval_nat_numeral)

lemma delay_at_cap: "8 \<le> k \<Longrightarrow> delay_at k = 15"
proof (induction k rule: dec_induct)
  case base
  show ?case by (rule delay_at_8)
next
  case (step n)
  show ?case by (rule delay_at_Suc_value [OF step.IH backoff_step_cap])
qed

lemma delay_at_cases:
  obtains "(k::nat) = 0" | "k = 1" | "k = 2" | "k = 3" | "k = 4" | "k = 5" | "k = 6" | "k = 7" | "8 \<le> k"
proof -
  have "k = 0 \<or> k = 1 \<or> k = 2 \<or> k = 3 \<or> k = 4 \<or> k = 5 \<or> k = 6 \<or> k = 7 \<or> 8 \<le> k"
    by arith
  then show thesis using that by blast
qed

lemma representable_delay_0:
  "representable (2)" "representable (2 + 1 / 2)"
  using representable_frac [of 2 0] representable_frac [of 5 1] by simp_all

lemma representable_delay_1:
  "representable (5854679515581645 / 2251799813685248)" "representable (5854679515581645 / 2251799813685248 + 1 / 2)"
  using representable_frac [of 5854679515581645 51] representable_frac [of 6980579422424269 51] by simp_all

lemma representable_delay_2:
  "representable (7611083370256139 / 2251799813685248)" "representable (7611083370256139 / 2251799813685248 + 1 / 2)"
  using representable_frac [of 7611083370256139 51] representable_frac [of 8736983277098763 51] by simp_all

lemma representable_delay_3:
  "representable (4947204190666491 / 1125899906842624)" "representable (4947204190666491 / 1125899906842624 + 1 / 2)"
  using representable_frac [of 4947204190666491 50] representable_frac [of 5510154144087803 50] by simp_all

lemma representable_delay_4:
  "representable (6431365447866439 / 1125899906842624)" "representable (6431365447866439 / 1125899906842624 + 1 / 2)"
  using representable_frac [of 6431365447866439 50] representable_frac [of 6994315401287751 50] by simp_all

lemma representable_delay_5:
  "representable (8360775082226371 / 1125899906842624)" "representable (8360775082226371 / 1125899906842624 + 1 / 2)"
  using representable_frac [of 8360775082226371 50] representable_frac [of 8923725035647683 50] by simp_all

lemma representable_delay_6:
  "representable (5434503803447141 / 562949953421312)" "representable (5434503803447141 / 562949953421312 + 1 / 2)"
  using representable_frac [of 5434503803447141 49] representable_frac [of 5715978780157797 49] by simp_all

lemma representable_delay_7:
  "representable (1766213736120321 / 140737488355328)" "representable (1766213736120321 / 140737488355328 + 1 / 2)"
  using representable_frac [of 1766213736120321 47] representable_frac [of 1836582480297985 47] by simp_all

lemma representable_delay_8:
  "representable (15)" "representable (15 + 1 / 2)"
  using representable_frac [of 15 0] representable_frac [of 31 1] by simp_all

lemma delay_at_props:
  "2 \<le> delay_at k" "delay_at k \<le> 15" "representable (delay_at k)"
  "representable (delay_at k + 1 / 2)"
proof -
  have "2 \<le> delay_at k \<and> delay_at k \<le> 15 \<and> representable (delay_at k)
      \<and> representable (delay_at k + 1 / 2)"
  proof (cases k rule: delay_at_cases)
    case 1
    show ?thesis unfolding 1 delay_at_0 using representable_delay_0 by simp
  next
    case 2
    show ?thesis unfolding 2 delay_at_1 using representable_delay_1 by simp
  next
    case 3
    show ?thesis unfolding 3 delay_at_2 using representable_delay_2 by simp
  next
    case 4
    show ?thesis unfolding 4 delay_at_3 using representable_delay_3 by simp
  next
    case 5
    show ?thesis unfolding 5 delay_at_4 using representable_delay_4 by simp
  next
    case 6
    show ?thesis unfolding 6 delay_at_5 using representable_delay_5 by simp
  next
    case 7
    show ?thesis unfolding 7 delay_at_6 using representable_delay_6 by simp
  next
    case 8
    show ?thesis unfolding 8 delay_at_7 using representable_delay_7 by simp
  next
    case 9
    show ?thesis unfolding delay_at_cap [OF 9] using representable_delay_8 by simp
  qed
  then show "2 \<le> delay_at k" "delay_at k \<le> 15" "representable (delay_at k)"
    "representable (delay_at k + 1 / 2)" by simp_all
qed


lemma delay_at_mono: "delay_at k \<le> delay_at (Suc k)"
proof -
  have pos: "0 < delay_at k" using delay_at_props(1) [of k] by simp
  have "1 \<le> float_1_3" by (simp add: float_1_3_value)
  then have "delay_at k * 1 \<le> delay_at k * float_1_3"
    using pos by (simp only: mult_le_cancel_left_pos)
  then have "delay_at k \<le> delay_at k * float_1_3" by simp
  from fl_lower [OF pos this delay_at_props(3)]
  show ?thesis using delay_at_props(2) [of k] by (simp add: delay_at.simps max_delay_def)
qed

lemma sleep_bounds:
  "delay_at k \<le> fl (delay_at k + py_uniform 0 (1 / 2) bits)"
  "fl (delay_at k + py_uniform 0 (1 / 2) bits) \<le> delay_at k + 1 / 2"
proof -
  let ?j = "py_uniform 0 (1 / 2) bits"
  have pos: "0 < delay_at k" using delay_at_props(1) [of k] by simp
  have lo: "delay_at k \<le> delay_at k + ?j" using py_uniform_half_bounds(1) [of bits] by simp
  have hi: "delay_at k + ?j \<le> delay_at k + 1 / 2" using py_uniform_half_bounds(2) [of bits] by simp
  show "delay_at k \<le> fl (delay_at k + ?j)"
    by (rule fl_lower [OF pos lo delay_at_props(3)])
  have "0 < delay_at k + ?j" using pos lo by simp
  from fl_upper [OF this hi delay_at_props(4)]
  show "fl (delay_at k + ?j) \<le> delay_at k + 1 / 2" .
qed

lemma poll_loop_more_fuel:
  "poll_loop fuel env st k delay sleeps = Some r \<Longrightarrow>
   poll_loop (fuel + n) env st k delay sleeps = Some r"
proof (induction fuel arbitrary: k delay sleeps)
  case 0
  then show ?case by simp
next
  case (Suc fuel)
  then show ?case
    by (auto simp: Let_def split: sum.splits if_splits)
qed

lemma poll_loop_schedule:
  "poll_loop fuel env st k (delay_at k) sleeps = Some (r, out) \<Longrightarrow>
     \<exists>new. out = sleeps @ new
       \<and> (\<forall>i < length new.
             nominal (new ! i) = delay_at (k + i)
           \<and> slept (new ! i) = fl (delay_at (k + i) + py_uniform 0 (1 / 2) (random_bits env (k + i)))
           \<and> elapsed_before (new ! i) = fl (time_time env (k + i) - st)
           \<and> elapsed_before (new ! i) \<le> timeout)"
proof (induction fuel arbitrary: k sleeps)
  case 0
  then show ?case by simp
next
  case (Suc fuel)
  show ?case
  proof (cases "get_detail env k")
    case (Inl e)
    with Suc.prems show ?thesis by auto
  next
    case (Inr detail)
    let ?state = "safe_get detail (asc ''data.state'')"
    let ?el = "fl (time_time env k - st)"
    let ?s = "fl (delay_at k + py_uniform 0 (1 / 2) (random_bits env k))"
    let ?e = "\<lparr>elapsed_before = ?el, nominal = delay_at k, slept = ?s\<rparr>"
    show ?thesis
    proof (cases "?state = JStr (asc ''success'') \<or> ?state = JStr (asc ''fail'') \<or> ?el > timeout")
      case True
      with Suc.prems Inr have "out = sleeps" by (auto simp: Let_def split: if_splits)
      then show ?thesis by simp
    next
      case False
      with Suc.prems Inr have rec:
        "poll_loop fuel env st (Suc k) (delay_at (Suc k)) (sleeps @ [?e]) = Some (r, out)"
        by (simp add: Let_def delay_at.simps)
      from Suc.IH [OF rec]
      obtain new where new: "out = (sleeps @ [?e]) @ new"
        and b: "\<forall>i < length new.
             nominal (new ! i) = delay_at (Suc k + i)
           \<and> slept (new ! i) = fl (delay_at (Suc k + i) + py_uniform 0 (1 / 2) (random_bits env (Suc k + i)))
           \<and> elapsed_before (new ! i) = fl (time_time env (Suc k + i) - st)
           \<and> elapsed_before (new ! i) \<le> timeout"
        by blast
      have 1: "out = sleeps @ (?e # new)" using new by simp
      have 2: "\<forall>i < length (?e # new).
             nominal ((?e # new) ! i) = delay_at (k + i)
           \<and> slept ((?e # new) ! i) = fl (delay_at (k + i) + py_uniform 0 (1 / 2) (random_bits env (k + i)))
           \<and> elapsed_before ((?e # new) ! i) = fl (time_time env (k + i) - st)
           \<and> elapsed_before ((?e # new) ! i) \<le> timeout"
      proof (intro allI impI)
        fix i assume i: "i < length (?e # new)"
        show "nominal ((?e # new) ! i) = delay_at (k + i)
           \<and> slept ((?e # new) ! i) = fl (delay_at (k + i) + py_uniform 0 (1 / 2) (random_bits env (k + i)))
           \<and> elapsed_before ((?e # new) ! i) = fl (time_time env (k + i) - st)
           \<and> elapsed_before ((?e # new) ! i) \<le> timeout"
        proof (cases i)
          case 0
          then show ?thesis using False by (simp add: not_less)
        next
          case (Suc j)
          with i have "j < length new" by simp
          from b [rule_format, OF this] show ?thesis unfolding Suc by simp
        qed
      qed
      from 1 2 show ?thesis by blast
    qed
  qed
qed

lemma clock_lower:
  assumes "st \<le> time_time env 0"
      and "\<forall>k. time_time env k + initial_delay \<le> time_time env (Suc k)"
  shows "2 * of_nat k \<le> time_time env k - st"
proof (induction k)
  case 0
  then show ?case using assms(1) by simp
next
  case (Suc k)
  then show ?case using assms(2) [rule_format, of k] by (simp add: initial_delay_def)
qed

lemma poll_loop_times_out:
  assumes start: "st \<le> time_time env 0"
      and clk: "\<forall>k. time_time env k + initial_delay \<le> time_time env (Suc k)"
      and pend: "\<forall>k. \<exists>d. get_detail env k = Inr d
      \<and> safe_get d (asc ''data.state'') \<noteq> JStr (asc ''success'')
      \<and> safe_get d (asc ''data.state'') \<noteq> JStr (asc ''fail'')"
  shows "k \<le> 601 \<Longrightarrow> 602 \<le> fuel + k \<Longrightarrow>
     \<exists>e out. poll_loop fuel env st k delay sleeps = Some (Inl (TimeoutError e), out) \<and> timeout < e"
proof (induction fuel arbitrary: k delay sleeps)
  case 0
  then show ?case by simp
next
  case (Suc fuel)
  from pend obtain d where d: "get_detail env k = Inr d"
      "safe_get d (asc ''data.state'') \<noteq> JStr (asc ''success'')"
      "safe_get d (asc ''data.state'') \<noteq> JStr (asc ''fail'')" by blast
  let ?x = "time_time env k - st"
  show ?case
  proof (cases "fl ?x > timeout")
    case True
    with d show ?thesis by (simp add: Let_def)
  next
    case False
    have "k \<le> 600"
    proof (rule ccontr)
      assume "\<not> k \<le> 600"
      then have "601 \<le> k" by simp
      then have "(of_nat 601 :: rat) \<le> of_nat k" by (simp only: of_nat_le_iff)
      then have "1202 \<le> ?x" using clock_lower [OF start clk, of k] by simp
      moreover have "representable 1202"
        using representable_frac [of 1202 0] by simp
      ultimately have "1202 \<le> fl ?x" by (intro fl_lower) simp_all
      with False show False by (simp add: timeout_def)
    qed
    then have a: "Suc k \<le> 601" by simp
    from Suc.prems have b: "602 \<le> fuel + Suc k" by simp
    from Suc.IH [OF a b]
    show ?thesis using d False by (simp add: Let_def)
  qed
qed

text \<open>
  C3 (amended to floating-point arithmetic). In every run of \<open>poll_task\<close> the delay of
  the first sleep is 2, each later delay is the one before it times 1.3, rounded, and
  capped at 15, so delays never decrease, stay at most 15 and are 15 from the ninth
  sleep on; the seconds of every sleep are the rounded sum of its delay and a jitter in
  \<open>[0, 1/2)\<close>, which lies in the closed interval from the delay to the delay plus one
  half; and a sleep is made only while the elapsed time is within the ceiling of 1200
  seconds. Against a provider whose state is never \<^verbatim>\<open>success\<close> or \<^verbatim>\<open>fail\<close>, read on a
  clock that starts no earlier than the start time and advances by at least the initial
  delay from one iteration to the next, the loop ends, on enough fuel and then on any
  more, by raising \<^verbatim>\<open>TimeoutError\<close> with an elapsed time above the ceiling.
\<close>

theorem poll_task_backoff_and_timeout:
  "initial_delay = 2 \<and> max_delay = 15 \<and> timeout = 1200
    \<and> (\<forall>fuel r sleeps. poll_task fuel env start_time = Some (r, sleeps) \<longrightarrow>
          (sleeps \<noteq> [] \<longrightarrow> nominal (hd sleeps) = initial_delay)
        \<and> (\<forall>i. Suc i < length sleeps \<longrightarrow>
              nominal (sleeps ! Suc i) = min max_delay (fl (nominal (sleeps ! i) * float_1_3))
            \<and> nominal (sleeps ! i) \<le> nominal (sleeps ! Suc i))
        \<and> (\<forall>i < length sleeps.
              nominal (sleeps ! i) \<le> max_delay
            \<and> (8 \<le> i \<longrightarrow> nominal (sleeps ! i) = max_delay)
            \<and> slept (sleeps ! i)
                = fl (nominal (sleeps ! i) + py_uniform 0 (1 / 2) (random_bits env i))
            \<and> 0 \<le> py_uniform 0 (1 / 2) (random_bits env i)
            \<and> py_uniform 0 (1 / 2) (random_bits env i) < 1 / 2
            \<and> nominal (sleeps ! i) \<le> slept (sleeps ! i)
            \<and> slept (sleeps ! i) \<le> nominal (sleeps ! i) + 1 / 2
            \<and> elapsed_before (sleeps ! i) = fl (time_time env i - start_time)
            \<and> elapsed_before (sleeps ! i) \<le> timeout))
    \<and> ((\<forall>k. \<exists>d. get_detail env k = Inr d
            \<and> safe_get d (asc ''data.state'') \<noteq> JStr (asc ''success'')
            \<and> safe_get d (asc ''data.state'') \<noteq> JStr (asc ''fail''))
        \<and> start_time \<le> time_time env 0
        \<and> (\<forall>k. time_time env k + initial_delay \<le> time_time env (Suc k)) \<longrightarrow>
        (\<exists>fuel e sleeps.
            poll_task fuel env start_time = Some (Inl (TimeoutError e), sleeps)
          \<and> timeout < e
          \<and> (\<forall>n. poll_task (fuel + n) env start_time = poll_task fuel env start_time)))"
proof (intro conjI allI impI)
  show "initial_delay = 2" "max_delay = 15" "timeout = 1200"
    by (simp_all add: initial_delay_def max_delay_def timeout_def)
next
  fix fuel r sleeps
  assume run: "poll_task fuel env start_time = Some (r, sleeps)"
  then have "poll_loop fuel env start_time 0 (delay_at 0) [] = Some (r, sleeps)"
    by (simp add: poll_task_def delay_at.simps)
  from poll_loop_schedule [OF this]
  have b: "\<forall>i < length sleeps.
             nominal (sleeps ! i) = delay_at i
           \<and> slept (sleeps ! i) = fl (delay_at i + py_uniform 0 (1 / 2) (random_bits env i))
           \<and> elapsed_before (sleeps ! i) = fl (time_time env i - start_time)
           \<and> elapsed_before (sleeps ! i) \<le> timeout"
    by auto
  { assume ne: "sleeps \<noteq> []"
    then have "0 < length sleeps" by simp
    from b [rule_format, OF this] show "nominal (hd sleeps) = initial_delay"
      using ne by (simp add: hd_conv_nth delay_at.simps) }
  { fix i assume i: "Suc i < length sleeps"
    then have i': "i < length sleeps" by simp
    from b [rule_format, OF i] b [rule_format, OF i']
    show "nominal (sleeps ! Suc i) = min max_delay (fl (nominal (sleeps ! i) * float_1_3))"
      by (simp add: delay_at.simps)
    from b [rule_format, OF i] b [rule_format, OF i']
    show "nominal (sleeps ! i) \<le> nominal (sleeps ! Suc i)"
      using delay_at_mono [of i] by simp }
  { fix i assume i: "i < length sleeps"
    note bi = b [rule_format, OF i]
    show "nominal (sleeps ! i) \<le> max_delay"
      using bi delay_at_props(2) [of i] by (simp add: max_delay_def)
    show "slept (sleeps ! i) = fl (nominal (sleeps ! i) + py_uniform 0 (1 / 2) (random_bits env i))"
      using bi by simp
    show "0 \<le> py_uniform 0 (1 / 2) (random_bits env i)"
      by (rule py_uniform_half_bounds(1))
    show "py_uniform 0 (1 / 2) (random_bits env i) < 1 / 2"
      by (rule py_uniform_half_bounds(2))
    show "nominal (sleeps ! i) \<le> slept (sleeps ! i)"
      using bi sleep_bounds(1) [of i "random_bits env i"] by simp
    show "slept (sleeps ! i) \<le> nominal (sleeps ! i) + 1 / 2"
      using bi sleep_bounds(2) [of i "random_bits env i"] by simp
    show "elapsed_before (sleeps ! i) = fl (time_time env i - start_time)"
      using bi by simp
    show "elapsed_before (sleeps ! i) \<le> timeout"
      using bi by simp
    { assume "8 \<le> i"
      from delay_at_cap [OF this] show "nominal (sleeps ! i) = max_delay"
        using bi by (simp add: max_delay_def) } }
next
  assume hyp: "(\<forall>k. \<exists>d. get_detail env k = Inr d
            \<and> safe_get d (asc ''data.state'') \<noteq> JStr (asc ''success'')
            \<and> safe_get d (asc ''data.state'') \<noteq> JStr (asc ''fail''))
        \<and> start_time \<le> time_time env 0
        \<and> (\<forall>k. time_time env k + initial_delay \<le> time_time env (Suc k))"
  then have pend: "\<forall>k. \<exists>d. get_detail env k = Inr d
            \<and> safe_get d (asc ''data.state'') \<noteq> JStr (asc ''success'')
            \<and> safe_get d (asc ''data.state'') \<noteq> JStr (asc ''fail'')"
    and start: "start_time \<le> time_time env 0"
    and clk: "\<forall>k. time_time env k + initial_delay \<le> time_time env (Suc k)"
    by blast+
  have "\<exists>e out. poll_loop 602 env start_time 0 initial_delay []
            = Some (Inl (TimeoutError e), out) \<and> timeout < e"
    by (rule poll_loop_times_out [OF start clk pend]) simp_all
  then obtain e out where run: "poll_task 602 env start_time = Some (Inl (TimeoutError e), out)"
    and e: "timeout < e"
    unfolding poll_task_def by blast
  have "\<forall>n. poll_task (602 + n) env start_time = poll_task 602 env start_time"
    using run poll_loop_more_fuel unfolding poll_task_def by simp
  with run e show "\<exists>fuel e sleeps.
            poll_task fuel env start_time = Some (Inl (TimeoutError e), sleeps)
          \<and> timeout < e
          \<and> (\<forall>n. poll_task (fuel + n) env start_time = poll_task fuel env start_time)"
    by blast
qed

lemma fl_of_nat: "n < 2 ^ 53 \<Longrightarrow> fl (of_nat n) = of_nat n"
proof -
  assume "n < 2 ^ 53"
  then have "representable (of_int (int n) / 2 ^ 0)"
    by (intro representable_frac) simp
  then show ?thesis using fl_id [of "of_nat n"] by simp
qed

lemma poll_loop_waiting_step:
  assumes "get_detail env k = Inr waiting_detail"
      and "fl (time_time env k - st) = el" and "el \<le> timeout"
      and "fl (delay + py_uniform 0 (1 / 2) (random_bits env k)) = s"
      and "min max_delay (fl (delay * float_1_3)) = d'"
      and "fuel = Suc fuel'" and "k' = Suc k"
  shows "poll_loop fuel env st k delay sleeps =
           poll_loop fuel' env st k' d'
             (sleeps @ [\<lparr>elapsed_before = el, nominal = delay, slept = s\<rparr>])"
  using assms
  by (simp add: waiting_detail_def safe_get_def asc_def Let_def not_less [symmetric])

lemma poll_loop_waiting_timeout:
  assumes "get_detail env k = Inr waiting_detail"
      and "fl (time_time env k - st) = el" and "timeout < el"
      and "fuel = Suc fuel'"
  shows "poll_loop fuel env st k delay sleeps = Some (Inl (TimeoutError el), sleeps)"
  using assms
  by (simp add: waiting_detail_def safe_get_def asc_def Let_def)

lemma sleep_quarter_0: "fl (2 + 1 / 4) = 9 / 4"
  by code_simp

lemma sleep_quarter_1: "fl (5854679515581645 / 2251799813685248 + 1 / 4) = 6417629469002957 / 2251799813685248"
  by code_simp

lemma sleep_quarter_2: "fl (7611083370256139 / 2251799813685248 + 1 / 4) = 8174033323677451 / 2251799813685248"
  by code_simp

lemma sleep_quarter_3: "fl (4947204190666491 / 1125899906842624 + 1 / 4) = 5228679167377147 / 1125899906842624"
  by code_simp

lemma sleep_quarter_4: "fl (6431365447866439 / 1125899906842624 + 1 / 4) = 6712840424577095 / 1125899906842624"
  by code_simp

lemma sleep_quarter_5: "fl (8360775082226371 / 1125899906842624 + 1 / 4) = 8642250058937027 / 1125899906842624"
  by code_simp

lemma sleep_quarter_6: "fl (5434503803447141 / 562949953421312 + 1 / 4) = 5575241291802469 / 562949953421312"
  by code_simp

lemma sleep_quarter_7: "fl (1766213736120321 / 140737488355328 + 1 / 4) = 1801398108209153 / 140737488355328"
  by code_simp

lemma sleep_quarter_8: "fl (15 + 1 / 4) = 61 / 4"
  by code_simp

lemma sleep_largest_jitter: "fl (2 + 9007199254740991 / 18014398509481984) = 5 / 2"
  by code_simp

lemma sample_poll_env_simps:
  "get_detail sample_poll_env k = Inr waiting_detail"
  "time_time sample_poll_env k = 1 + 130 * of_nat k"
  "py_uniform 0 (1 / 2) (random_bits sample_poll_env k) = 1 / 4"
  by (simp_all add: sample_poll_env_def py_uniform_half)

lemma sample_poll_elapsed:
  "k \<le> 10 \<Longrightarrow> fl (time_time sample_poll_env k - 0) = 1 + 130 * of_nat k"
proof -
  assume "k \<le> 10"
  then have "1 + 130 * k < 2 ^ 53" by simp
  from fl_of_nat [OF this] show ?thesis by (simp add: sample_poll_env_simps)
qed

lemma sample_poll_run:
  "poll_task 11 sample_poll_env 0 =
     Some (Inl (TimeoutError 1301),
     [\<lparr>elapsed_before = 1, nominal = 2, slept = 9 / 4\<rparr>,
      \<lparr>elapsed_before = 131, nominal = 5854679515581645 / 2251799813685248, slept = 6417629469002957 / 2251799813685248\<rparr>,
      \<lparr>elapsed_before = 261, nominal = 7611083370256139 / 2251799813685248, slept = 8174033323677451 / 2251799813685248\<rparr>,
      \<lparr>elapsed_before = 391, nominal = 4947204190666491 / 1125899906842624, slept = 5228679167377147 / 1125899906842624\<rparr>,
      \<lparr>elapsed_before = 521, nominal = 6431365447866439 / 1125899906842624, slept = 6712840424577095 / 1125899906842624\<rparr>,
      \<lparr>elapsed_before = 651, nominal = 8360775082226371 / 1125899906842624, slept = 8642250058937027 / 1125899906842624\<rparr>,
      \<lparr>elapsed_before = 781, nominal = 5434503803447141 / 562949953421312, slept = 5575241291802469 / 562949953421312\<rparr>,
      \<lparr>elapsed_before = 911, nominal = 1766213736120321 / 140737488355328, slept = 1801398108209153 / 140737488355328\<rparr>,
      \<lparr>elapsed_before = 1041, nominal = 15, slept = 61 / 4\<rparr>,
      \<lparr>elapsed_before = 1171, nominal = 15, slept = 61 / 4\<rparr>])"
proof -
  have s0: "poll_loop 11 sample_poll_env 0 0 2 []
      = poll_loop 10 sample_poll_env 0 1 (5854679515581645 / 2251799813685248) ([] @ [\<lparr>elapsed_before = 1, nominal = 2, slept = 9 / 4\<rparr>])"
  proof (rule poll_loop_waiting_step)
    show "get_detail sample_poll_env 0 = Inr waiting_detail" by (rule sample_poll_env_simps(1))
    show "fl (time_time sample_poll_env 0 - 0) = 1"
      using sample_poll_elapsed [of 0] by (simp add: sample_poll_env_simps)
    show "1 \<le> timeout" by (simp add: timeout_def)
    show "fl (2 + py_uniform 0 (1 / 2) (random_bits sample_poll_env 0)) = 9 / 4"
      unfolding sample_poll_env_simps(3) by (rule sleep_quarter_0)
    show "min max_delay (fl (2 * float_1_3)) = 5854679515581645 / 2251799813685248" by (rule backoff_step_0)
    show "(11::nat) = Suc 10" by simp
    show "(1::nat) = Suc 0" by simp
  qed
  have s1: "poll_loop 10 sample_poll_env 0 1 (5854679515581645 / 2251799813685248) ([] @ [\<lparr>elapsed_before = 1, nominal = 2, slept = 9 / 4\<rparr>])
      = poll_loop 9 sample_poll_env 0 2 (7611083370256139 / 2251799813685248) (([] @ [\<lparr>elapsed_before = 1, nominal = 2, slept = 9 / 4\<rparr>]) @ [\<lparr>elapsed_before = 131, nominal = 5854679515581645 / 2251799813685248, slept = 6417629469002957 / 2251799813685248\<rparr>])"
  proof (rule poll_loop_waiting_step)
    show "get_detail sample_poll_env 1 = Inr waiting_detail" by (rule sample_poll_env_simps(1))
    show "fl (time_time sample_poll_env 1 - 0) = 131"
      using sample_poll_elapsed [of 1] by (simp add: sample_poll_env_simps)
    show "131 \<le> timeout" by (simp add: timeout_def)
    show "fl (5854679515581645 / 2251799813685248 + py_uniform 0 (1 / 2) (random_bits sample_poll_env 1)) = 6417629469002957 / 2251799813685248"
      unfolding sample_poll_env_simps(3) by (rule sleep_quarter_1)
    show "min max_delay (fl (5854679515581645 / 2251799813685248 * float_1_3)) = 7611083370256139 / 2251799813685248" by (rule backoff_step_1)
    show "(10::nat) = Suc 9" by simp
    show "(2::nat) = Suc 1" by simp
  qed
  have s2: "poll_loop 9 sample_poll_env 0 2 (7611083370256139 / 2251799813685248) (([] @ [\<lparr>elapsed_before = 1, nominal = 2, slept = 9 / 4\<rparr>]) @ [\<lparr>elapsed_before = 131, nominal = 5854679515581645 / 2251799813685248, slept = 6417629469002957 / 2251799813685248\<rparr>])
      = poll_loop 8 sample_poll_env 0 3 (4947204190666491 / 1125899906842624) ((([] @ [\<lparr>elapsed_before = 1, nominal = 2, slept = 9 / 4\<rparr>]) @ [\<lparr>elapsed_before = 131, nominal = 5854679515581645 / 2251799813685248, slept = 6417629469002957 / 2251799813685248\<rparr>]) @ [\<lparr>elapsed_before = 261, nominal = 7611083370256139 / 2251799813685248, slept = 8174033323677451 / 2251799813685248\<rparr>])"
  proof (rule poll_loop_waiting_step)
    show "get_detail sample_poll_env 2 = Inr waiting_detail" by (rule sample_poll_env_simps(1))
    show "fl (time_time sample_poll_env 2 - 0) = 261"
      using sample_poll_elapsed [of 2] by (simp add: sample_poll_env_simps)
    show "261 \<le> timeout" by (simp add: timeout_def)
    show "fl (7611083370256139 / 2251799813685248 + py_uniform 0 (1 / 2) (random_bits sample_poll_env 2)) = 8174033323677451 / 2251799813685248"
      unfolding sample_poll_env_simps(3) by (rule sleep_quarter_2)
    show "min max_delay (fl (7611083370256139 / 2251799813685248 * float_1_3)) = 4947204190666491 / 1125899906842624" by (rule backoff_step_2)
    show "(9::nat) = Suc 8" by simp
    show "(3::nat) = Suc 2" by simp
  qed
  have s3: "poll_loop 8 sample_poll_env 0 3 (4947204190666491 / 1125899906842624) ((([] @ [\<lparr>elapsed_before = 1, nominal = 2, slept = 9 / 4\<rparr>]) @ [\<lparr>elapsed_before = 131, nominal = 5854679515581645 / 2251799813685248, slept = 6417629469002957 / 2251799813685248\<rparr>]) @ [\<lparr>elapsed_before = 261, nominal = 7611083370256139 / 2251799813685248, slept = 8174033323677451 / 2251799813685248\<rparr>])
      = poll_loop 7 sample_poll_env 0 4 (6431365447866439 / 1125899906842624) (((([] @ [\<lparr>elapsed_before = 1, nominal = 2, slept = 9 / 4\<rparr>]) @ [\<lparr>elapsed_before = 131, nominal = 5854679515581645 / 2251799813685248, slept = 6417629469002957 / 2251799813685248\<rparr>]) @ [\<lparr>elapsed_before = 261, nominal = 7611083370256139 / 2251799813685248, slept = 8174033323677451 / 2251799813685248\<rparr>]) @ [\<lparr>elapsed_before = 391, nominal = 4947204190666491 / 1125899906842624, slept = 5228679167377147 / 1125899906842624\<rparr>])"
  proof (rule poll_loop_waiting_step)
    show "get_detail sample_poll_env 3 = Inr waiting_detail" by (rule sample_poll_env_simps(1))
    show "fl (time_time sample_poll_env 3 - 0) = 391"
      using sample_poll_elapsed [of 3] by (simp add: sample_poll_env_simps)
    show "391 \<le> timeout" by (simp add: timeout_def)
    show "fl (4947204190666491 / 1125899906842624 + py_uniform 0 (1 / 2) (random_bits sample_poll_env 3)) = 5228679167377147 / 1125899906842624"
      unfolding sample_poll_env_simps(3) by (rule sleep_quarter_3)
    show "min max_delay (fl (4947204190666491 / 1125899906842624 * float_1_3)) = 6431365447866439 / 1125899906842624" by (rule backoff_step_3)
    show "(8::nat) = Suc 7" by simp
    show "(4::nat) = Suc 3" by simp
  qed
  have s4: "poll_loop 7 sample_poll_env 0 4 (6431365447866439 / 1125899906842624) (((([] @ [\<lparr>elapsed_before = 1, nominal = 2, slept = 9 / 4\<rparr>]) @ [\<lparr>elapsed_before = 131, nominal = 5854679515581645 / 2251799813685248, slept = 6417629469002957 / 2251799813685248\<rparr>]) @ [\<lparr>elapsed_before = 261, nominal = 7611083370256139 / 2251799813685248, slept = 8174033323677451 / 2251799813685248\<rparr>]) @ [\<lparr>elapsed_before = 391, nominal = 4947204190666491 / 1125899906842624, slept = 5228679167377147 / 1125899906842624\<rparr>])
      = poll_loop 6 sample_poll_env 0 5 (8360775082226371 / 1125899906842624) ((((([] @ [\<lparr>elapsed_before = 1, nominal = 2, slept = 9 / 4\<rparr>]) @ [\<lparr>elapsed_before = 131, nominal = 5854679515581645 / 2251799813685248, slept = 6417629469002957 / 2251799813685248\<rparr>]) @ [\<lparr>elapsed_before = 261, nominal = 7611083370256139 / 2251799813685248, slept = 8174033323677451 / 2251799813685248\<rparr>]) @ [\<lparr>elapsed_before = 391, nominal = 4947204190666491 / 1125899906842624, slept = 5228679167377147 / 1125899906842624\<rparr>]) @ [\<lparr>elapsed_before = 521, nominal = 6431365447866439 / 1125899906842624, slept = 6712840424577095 / 1125899906842624\<rparr>])"
  proof (rule poll_loop_waiting_step)
    show "get_detail sample_poll_env 4 = Inr waiting_detail" by (rule sample_poll_env_simps(1))
    show "fl (time_time sample_poll_env 4 - 0) = 521"
      using sample_poll_elapsed [of 4] by (simp add: sample_poll_env_simps)
    show "521 \<le> timeout" by (simp add: timeout_def)
    show "fl (6431365447866439 / 1125899906842624 + py_uniform 0 (1 / 2) (random_bits sample_poll_env 4)) = 6712840424577095 / 1125899906842624"
      unfolding sample_poll_env_simps(3) by (rule sleep_quarter_4)
    show "min max_delay (fl (6431365447866439 / 1125899906842624 * float_1_3)) = 8360775082226371 / 1125899906842624" by (rule backoff_step_4)
    show "(7::nat) = Suc 6" by simp
    show "(5::nat) = Suc 4" by simp
  qed
  have s5: "poll_loop 6 sample_poll_env 0 5 (8360775082226371 / 1125899906842624) ((((([] @ [\<lparr>elapsed_before = 1, nominal = 2, slept = 9 / 4\<rparr>]) @ [\<lparr>elapsed_before = 131, nominal = 5854679515581645 / 2251799813685248, slept = 6417629469002957 / 2251799813685248\<rparr>]) @ [\<lparr>elapsed_before = 261, nominal = 7611083370256139 / 2251799813685248, slept = 8174033323677451 / 2251799813685248\<rparr>]) @ [\<lparr>elapsed_before = 391, nominal = 4947204190666491 / 1125899906842624, slept = 5228679167377147 / 1125899906842624\<rparr>]) @ [\<lparr>elapsed_before = 521, nominal = 6431365447866439 / 1125899906842624, slept = 6712840424577095 / 1125899906842624\<rparr>])
      = poll_loop 5 sample_poll_env 0 6 (5434503803447141 / 562949953421312) (((((([] @ [\<lparr>elapsed_before = 1, nominal = 2, slept = 9 / 4\<rparr>]) @ [\<lparr>elapsed_before = 131, nominal = 5854679515581645 / 2251799813685248, slept = 6417629469002957 / 2251799813685248\<rparr>]) @ [\<lparr>elapsed_before = 261, nominal = 7611083370256139 / 2251799813685248, slept = 8174033323677451 / 2251799813685248\<rparr>]) @ [\<lparr>elapsed_before = 391, nominal = 4947204190666491 / 1125899906842624, slept = 5228679167377147 / 1125899906842624\<rparr>]) @ [\<lparr>elapsed_before = 521, nominal = 6431365447866439 / 1125899906842624, slept = 6712840424577095 / 1125899906842624\<rparr>]) @ [\<lparr>elapsed_before = 651, nominal = 8360775082226371 / 1125899906842624, slept = 8642250058937027 / 1125899906842624\<rparr>])"
  proof (rule poll_loop_waiting_step)
    show "get_detail sample_poll_env 5 = Inr waiting_detail" by (rule sample_poll_env_simps(1))
    show "fl (time_time sample_poll_env 5 - 0) = 651"
      using sample_poll_elapsed [of 5] by (simp add: sample_poll_env_simps)
    show "651 \<le> timeout" by (simp add: timeout_def)
    show "fl (8360775082226371 / 1125899906842624 + py_uniform 0 (1 / 2) (random_bits sample_poll_env 5)) = 8642250058937027 / 1125899906842624"
      unfolding sample_poll_env_simps(3) by (rule sleep_quarter_5)
    show "min max_delay (fl (8360775082226371 / 1125899906842624 * float_1_3)) = 5434503803447141 / 562949953421312" by (rule backoff_step_5)
    show "(6::nat) = Suc 5" by simp
    show "(6::nat) = Suc 5" by simp
  qed
  have s6: "poll_loop 5 sample_poll_env 0 6 (5434503803447141 / 562949953421312) (((((([] @ [\<lparr>elapsed_before = 1, nominal = 2, slept = 9 / 4\<rparr>]) @ [\<lparr>elapsed_before = 131, nominal = 5854679515581645 / 2251799813685248, slept = 6417629469002957 / 2251799813685248\<rparr>]) @ [\<lparr>elapsed_before = 261, nominal = 7611083370256139 / 2251799813685248, slept = 8174033323677451 / 2251799813685248\<rparr>]) @ [\<lparr>elapsed_before = 391, nominal = 4947204190666491 / 1125899906842624, slept = 5228679167377147 / 1125899906842624\<rparr>]) @ [\<lparr>elapsed_before = 521, nominal = 6431365447866439 / 1125899906842624, slept = 6712840424577095 / 1125899906842624\<rparr>]) @ [\<lparr>elapsed_before = 651, nominal = 8360775082226371 / 1125899906842624, slept = 8642250058937027 / 1125899906842624\<rparr>])
      = poll_loop 4 sample_poll_env 0 7 (1766213736120321 / 140737488355328) ((((((([] @ [\<lparr>elapsed_before = 1, nominal = 2, slept = 9 / 4\<rparr>]) @ [\<lparr>elapsed_before = 131, nominal = 5854679515581645 / 2251799813685248, slept = 6417629469002957 / 2251799813685248\<rparr>]) @ [\<lparr>elapsed_before = 261, nominal = 7611083370256139 / 2251799813685248, slept = 8174033323677451 / 2251799813685248\<rparr>]) @ [\<lparr>elapsed_before = 391, nominal = 4947204190666491 / 1125899906842624, slept = 5228679167377147 / 1125899906842624\<rparr>]) @ [\<lparr>elapsed_before = 521, nominal = 6431365447866439 / 1125899906842624, slept = 6712840424577095 / 1125899906842624\<rparr>]) @ [\<lparr>elapsed_before = 651, nominal = 8360775082226371 / 1125899906842624, slept = 8642250058937027 / 1125899906842624\<rparr>]) @ [\<lparr>elapsed_before = 781, nominal = 5434503803447141 / 562949953421312, slept = 5575241291802469 / 562949953421312\<rparr>])"
  proof (rule poll_loop_waiting_step)
    show "get_detail sample_poll_env 6 = Inr waiting_detail" by (rule sample_poll_env_simps(1))
    show "fl (time_time sample_poll_env 6 - 0) = 781"
      using sample_poll_elapsed [of 6] by (simp add: sample_poll_env_simps)
    show "781 \<le> timeout" by (simp add: timeout_def)
    show "fl (5434503803447141 / 562949953421312 + py_uniform 0 (1 / 2) (random_bits sample_poll_env 6)) = 5575241291802469 / 562949953421312"
      unfolding sample_poll_env_simps(3) by (rule sleep_quarter_6)
    show "min max_delay (fl (5434503803447141 / 562949953421312 * float_1_3)) = 1766213736120321 / 140737488355328" by (rule backoff_step_6)
    show "(5::nat) = Suc 4" by simp
    show "(7::nat) = Suc 6" by simp
  qed
  have s7: "poll_loop 4 sample_poll_env 0 7 (1766213736120321 / 140737488355328) ((((((([] @ [\<lparr>elapsed_before = 1, nominal = 2, slept = 9 / 4\<rparr>]) @ [\<lparr>elapsed_before = 131, nominal = 5854679515581645 / 2251799813685248, slept = 6417629469002957 / 2251799813685248\<rparr>]) @ [\<lparr>elapsed_before = 261, nominal = 7611083370256139 / 2251799813685248, slept = 8174033323677451 / 2251799813685248\<rparr>]) @ [\<lparr>elapsed_before = 391, nominal = 4947204190666491 / 1125899906842624, slept = 5228679167377147 / 1125899906842624\<rparr>]) @ [\<lparr>elapsed_before = 521, nominal = 6431365447866439 / 1125899906842624, slept = 6712840424577095 / 1125899906842624\<rparr>]) @ [\<lparr>elapsed_before = 651, nominal = 8360775082226371 / 1125899906842624, slept = 8642250058937027 / 1125899906842624\<rparr>]) @ [\<lparr>elapsed_before = 781, nominal = 5434503803447141 / 562949953421312, slept = 5575241291802469 / 562949953421312\<rparr>])
      = poll_loop 3 sample_poll_env 0 8 15 (((((((([] @ [\<lparr>elapsed_before = 1, nominal = 2, slept = 9 / 4\<rparr>]) @ [\<lparr>elapsed_before = 131, nominal = 5854679515581645 / 2251799813685248, slept = 6417629469002957 / 2251799813685248\<rparr>]) @ [\<lparr>elapsed_before = 261, nominal = 7611083370256139 / 2251799813685248, slept = 8174033323677451 / 2251799813685248\<rparr>]) @ [\<lparr>elapsed_before = 391, nominal = 4947204190666491 / 1125899906842624, slept = 5228679167377147 / 1125899906842624\<rparr>]) @ [\<lparr>elapsed_before = 521, nominal = 6431365447866439 / 1125899906842624, slept = 6712840424577095 / 1125899906842624\<rparr>]) @ [\<lparr>elapsed_before = 651, nominal = 8360775082226371 / 1125899906842624, slept = 8642250058937027 / 1125899906842624\<rparr>]) @ [\<lparr>elapsed_before = 781, nominal = 5434503803447141 / 562949953421312, slept = 5575241291802469 / 562949953421312\<rparr>]) @ [\<lparr>elapsed_before = 911, nominal = 1766213736120321 / 140737488355328, slept = 1801398108209153 / 140737488355328\<rparr>])"
  proof (rule poll_loop_waiting_step)
    show "get_detail sample_poll_env 7 = Inr waiting_detail" by (rule sample_poll_env_simps(1))
    show "fl (time_time sample_poll_env 7 - 0) = 911"
      using sample_poll_elapsed [of 7] by (simp add: sample_poll_env_simps)
    show "911 \<le> timeout" by (simp add: timeout_def)
    show "fl (1766213736120321 / 140737488355328 + py_uniform 0 (1 / 2) (random_bits sample_poll_env 7)) = 1801398108209153 / 140737488355328"
      unfolding sample_poll_env_simps(3) by (rule sleep_quarter_7)
    show "min max_delay (fl (1766213736120321 / 140737488355328 * float_1_3)) = 15" by (rule backoff_step_7)
    show "(4::nat) = Suc 3" by simp
    show "(8::nat) = Suc 7" by simp
  qed
  have s8: "poll_loop 3 sample_poll_env 0 8 15 (((((((([] @ [\<lparr>elapsed_before = 1, nominal = 2, slept = 9 / 4\<rparr>]) @ [\<lparr>elapsed_before = 131, nominal = 5854679515581645 / 2251799813685248, slept = 6417629469002957 / 2251799813685248\<rparr>]) @ [\<lparr>elapsed_before = 261, nominal = 7611083370256139 / 2251799813685248, slept = 8174033323677451 / 2251799813685248\<rparr>]) @ [\<lparr>elapsed_before = 391, nominal = 4947204190666491 / 1125899906842624, slept = 5228679167377147 / 1125899906842624\<rparr>]) @ [\<lparr>elapsed_before = 521, nominal = 6431365447866439 / 1125899906842624, slept = 6712840424577095 / 1125899906842624\<rparr>]) @ [\<lparr>elapsed_before = 651, nominal = 8360775082226371 / 1125899906842624, slept = 8642250058937027 / 1125899906842624\<rparr>]) @ [\<lparr>elapsed_before = 781, nominal = 5434503803447141 / 562949953421312, slept = 5575241291802469 / 562949953421312\<rparr>]) @ [\<lparr>elapsed_before = 911, nominal = 1766213736120321 / 140737488355328, slept = 1801398108209153 / 140737488355328\<rparr>])
      = poll_loop 2 sample_poll_env 0 9 15 ((((((((([] @ [\<lparr>elapsed_before = 1, nominal = 2, slept = 9 / 4\<rparr>]) @ [\<lparr>elapsed_before = 131, nominal = 5854679515581645 / 2251799813685248, slept = 6417629469002957 / 2251799813685248\<rparr>]) @ [\<lparr>elapsed_before = 261, nominal = 7611083370256139 / 2251799813685248, slept = 8174033323677451 / 2251799813685248\<rparr>]) @ [\<lparr>elapsed_before = 391, nominal = 4947204190666491 / 1125899906842624, slept = 5228679167377147 / 1125899906842624\<rparr>]) @ [\<lparr>elapsed_before = 521, nominal = 6431365447866439 / 1125899906842624, slept = 6712840424577095 / 1125899906842624\<rparr>]) @ [\<lparr>elapsed_before = 651, nominal = 8360775082226371 / 1125899906842624, slept = 8642250058937027 / 1125899906842624\<rparr>]) @ [\<lparr>elapsed_before = 781, nominal = 5434503803447141 / 562949953421312, slept = 5575241291802469 / 562949953421312\<rparr>]) @ [\<lparr>elapsed_before = 911, nominal = 1766213736120321 / 140737488355328, slept = 1801398108209153 / 140737488355328\<rparr>]) @ [\<lparr>elapsed_before = 1041, nominal = 15, slept = 61 / 4\<rparr>])"
  proof (rule poll_loop_waiting_step)
    show "get_detail sample_poll_env 8 = Inr waiting_detail" by (rule sample_poll_env_simps(1))
    show "fl (time_time sample_poll_env 8 - 0) = 1041"
      using sample_poll_elapsed [of 8] by (simp add: sample_poll_env_simps)
    show "1041 \<le> timeout" by (simp add: timeout_def)
    show "fl (15 + py_uniform 0 (1 / 2) (random_bits sample_poll_env 8)) = 61 / 4"
      unfolding sample_poll_env_simps(3) by (rule sleep_quarter_8)
    show "min max_delay (fl (15 * float_1_3)) = 15" by (rule backoff_step_cap)
    show "(3::nat) = Suc 2" by simp
    show "(9::nat) = Suc 8" by simp
  qed
  have s9: "poll_loop 2 sample_poll_env 0 9 15 ((((((((([] @ [\<lparr>elapsed_before = 1, nominal = 2, slept = 9 / 4\<rparr>]) @ [\<lparr>elapsed_before = 131, nominal = 5854679515581645 / 2251799813685248, slept = 6417629469002957 / 2251799813685248\<rparr>]) @ [\<lparr>elapsed_before = 261, nominal = 7611083370256139 / 2251799813685248, slept = 8174033323677451 / 2251799813685248\<rparr>]) @ [\<lparr>elapsed_before = 391, nominal = 4947204190666491 / 1125899906842624, slept = 5228679167377147 / 1125899906842624\<rparr>]) @ [\<lparr>elapsed_before = 521, nominal = 6431365447866439 / 1125899906842624, slept = 6712840424577095 / 1125899906842624\<rparr>]) @ [\<lparr>elapsed_before = 651, nominal = 8360775082226371 / 1125899906842624, slept = 8642250058937027 / 1125899906842624\<rparr>]) @ [\<lparr>elapsed_before = 781, nominal = 5434503803447141 / 562949953421312, slept = 5575241291802469 / 562949953421312\<rparr>]) @ [\<lparr>elapsed_before = 911, nominal = 1766213736120321 / 140737488355328, slept = 1801398108209153 / 140737488355328\<rparr>]) @ [\<lparr>elapsed_before = 1041, nominal = 15, slept = 61 / 4\<rparr>])
      = poll_loop 1 sample_poll_env 0 10 15 (((((((((([] @ [\<lparr>elapsed_before = 1, nominal = 2, slept = 9 / 4\<rparr>]) @ [\<lparr>elapsed_before = 131, nominal = 5854679515581645 / 2251799813685248, slept = 6417629469002957 / 2251799813685248\<rparr>]) @ [\<lparr>elapsed_before = 261, nominal = 7611083370256139 / 2251799813685248, slept = 8174033323677451 / 2251799813685248\<rparr>]) @ [\<lparr>elapsed_before = 391, nominal = 4947204190666491 / 1125899906842624, slept = 5228679167377147 / 1125899906842624\<rparr>]) @ [\<lparr>elapsed_before = 521, nominal = 6431365447866439 / 1125899906842624, slept = 6712840424577095 / 1125899906842624\<rparr>]) @ [\<lparr>elapsed_before = 651, nominal = 8360775082226371 / 1125899906842624, slept = 8642250058937027 / 1125899906842624\<rparr>]) @ [\<lparr>elapsed_before = 781, nominal = 5434503803447141 / 562949953421312, slept = 5575241291802469 / 562949953421312\<rparr>]) @ [\<lparr>elapsed_before = 911, nominal = 1766213736120321 / 140737488355328, slept = 1801398108209153 / 140737488355328\<rparr>]) @ [\<lparr>elapsed_before = 1041, nominal = 15, slept = 61 / 4\<rparr>]) @ [\<lparr>elapsed_before = 1171, nominal = 15, slept = 61 / 4\<rparr>])"
  proof (rule poll_loop_waiting_step)
    show "get_detail sample_poll_env 9 = Inr waiting_detail" by (rule sample_poll_env_simps(1))
    show "fl (time_time sample_poll_env 9 - 0) = 1171"
      using sample_poll_elapsed [of 9] by (simp add: sample_poll_env_simps)
    show "1171 \<le> timeout" by (simp add: timeout_def)
    show "fl (15 + py_uniform 0 (1 / 2) (random_bits sample_poll_env 9)) = 61 / 4"
      unfolding sample_poll_env_simps(3) by (rule sleep_quarter_8)
    show "min max_delay (fl (15 * float_1_3)) = 15" by (rule backoff_step_cap)
    show "(2::nat) = Suc 1" by simp
    show "(10::nat) = Suc 9" by simp
  qed
  have s10: "poll_loop 1 sample_poll_env 0 10 15 (((((((((([] @ [\<lparr>elapsed_before = 1, nominal = 2, slept = 9 / 4\<rparr>]) @ [\<lparr>elapsed_before = 131, nominal = 5854679515581645 / 2251799813685248, slept = 6417629469002957 / 2251799813685248\<rparr>]) @ [\<lparr>elapsed_before = 261, nominal = 7611083370256139 / 2251799813685248, slept = 8174033323677451 / 2251799813685248\<rparr>]) @ [\<lparr>elapsed_before = 391, nominal = 4947204190666491 / 1125899906842624, slept = 5228679167377147 / 1125899906842624\<rparr>]) @ [\<lparr>elapsed_before = 521, nominal = 6431365447866439 / 1125899906842624, slept = 6712840424577095 / 1125899906842624\<rparr>]) @ [\<lparr>elapsed_before = 651, nominal = 8360775082226371 / 1125899906842624, slept = 8642250058937027 / 1125899906842624\<rparr>]) @ [\<lparr>elapsed_before = 781, nominal = 5434503803447141 / 562949953421312, slept = 5575241291802469 / 562949953421312\<rparr>]) @ [\<lparr>elapsed_before = 911, nominal = 1766213736120321 / 140737488355328, slept = 1801398108209153 / 140737488355328\<rparr>]) @ [\<lparr>elapsed_before = 1041, nominal = 15, slept = 61 / 4\<rparr>]) @ [\<lparr>elapsed_before = 1171, nominal = 15, slept = 61 / 4\<rparr>])
      = Some (Inl (TimeoutError 1301), (((((((((([] @ [\<lparr>elapsed_before = 1, nominal = 2, slept = 9 / 4\<rparr>]) @ [\<lparr>elapsed_before = 131, nominal = 5854679515581645 / 2251799813685248, slept = 6417629469002957 / 2251799813685248\<rparr>]) @ [\<lparr>elapsed_before = 261, nominal = 7611083370256139 / 2251799813685248, slept = 8174033323677451 / 2251799813685248\<rparr>]) @ [\<lparr>elapsed_before = 391, nominal = 4947204190666491 / 1125899906842624, slept = 5228679167377147 / 1125899906842624\<rparr>]) @ [\<lparr>elapsed_before = 521, nominal = 6431365447866439 / 1125899906842624, slept = 6712840424577095 / 1125899906842624\<rparr>]) @ [\<lparr>elapsed_before = 651, nominal = 8360775082226371 / 1125899906842624, slept = 8642250058937027 / 1125899906842624\<rparr>]) @ [\<lparr>elapsed_before = 781, nominal = 5434503803447141 / 562949953421312, slept = 5575241291802469 / 562949953421312\<rparr>]) @ [\<lparr>elapsed_before = 911, nominal = 1766213736120321 / 140737488355328, slept = 1801398108209153 / 140737488355328\<rparr>]) @ [\<lparr>elapsed_before = 1041, nominal = 15, slept = 61 / 4\<rparr>]) @ [\<lparr>elapsed_before = 1171, nominal = 15, slept = 61 / 4\<rparr>]))"
  proof (rule poll_loop_waiting_timeout)
    show "get_detail sample_poll_env 10 = Inr waiting_detail" by (rule sample_poll_env_simps(1))
    show "fl (time_time sample_poll_env 10 - 0) = 1301"
      using sample_poll_elapsed [of 10] by (simp add: sample_poll_env_simps)
    show "timeout < 1301" by (simp add: timeout_def)
    show "(1::nat) = Suc 0" by simp
  qed
  have "poll_loop 11 sample_poll_env 0 0 2 [] = Some (Inl (TimeoutError 1301), (((((((((([] @ [\<lparr>elapsed_before = 1, nominal = 2, slept = 9 / 4\<rparr>]) @ [\<lparr>elapsed_before = 131, nominal = 5854679515581645 / 2251799813685248, slept = 6417629469002957 / 2251799813685248\<rparr>]) @ [\<lparr>elapsed_before = 261, nominal = 7611083370256139 / 2251799813685248, slept = 8174033323677451 / 2251799813685248\<rparr>]) @ [\<lparr>elapsed_before = 391, nominal = 4947204190666491 / 1125899906842624, slept = 5228679167377147 / 1125899906842624\<rparr>]) @ [\<lparr>elapsed_before = 521, nominal = 6431365447866439 / 1125899906842624, slept = 6712840424577095 / 1125899906842624\<rparr>]) @ [\<lparr>elapsed_before = 651, nominal = 8360775082226371 / 1125899906842624, slept = 8642250058937027 / 1125899906842624\<rparr>]) @ [\<lparr>elapsed_before = 781, nominal = 5434503803447141 / 562949953421312, slept = 5575241291802469 / 562949953421312\<rparr>]) @ [\<lparr>elapsed_before = 911, nominal = 1766213736120321 / 140737488355328, slept = 1801398108209153 / 140737488355328\<rparr>]) @ [\<lparr>elapsed_before = 1041, nominal = 15, slept = 61 / 4\<rparr>]) @ [\<lparr>elapsed_before = 1171, nominal = 15, slept = 61 / 4\<rparr>]))"
    by (simp only: s0 s1 s2 s3 s4 s5 s6 s7 s8 s9 s10)
  then show ?thesis
    unfolding poll_task_def initial_delay_def
    by (simp only: append_Nil append_Cons)
qed

lemma largest_jitter_run:
  "poll_task 2 largest_jitter_env 0 =
     Some (Inl (TimeoutError 1300), [\<lparr>elapsed_before = 0, nominal = 2, slept = 5 / 2\<rparr>])"
proof -
  have j: "py_uniform 0 (1 / 2) (random_bits largest_jitter_env 0) = 9007199254740991 / 18014398509481984"
    by (simp add: largest_jitter_env_def py_uniform_half)
  have g: "get_detail largest_jitter_env k = Inr waiting_detail" for k
    by (simp add: largest_jitter_env_def)
  have s0: "poll_loop 2 largest_jitter_env 0 0 2 []
      = poll_loop 1 largest_jitter_env 0 1 (5854679515581645 / 2251799813685248)
          ([] @ [\<lparr>elapsed_before = 0, nominal = 2, slept = 5 / 2\<rparr>])"
  proof (rule poll_loop_waiting_step)
    show "get_detail largest_jitter_env 0 = Inr waiting_detail" by (rule g)
    show "fl (time_time largest_jitter_env 0 - 0) = 0"
      by (simp add: largest_jitter_env_def fl_def)
    show "0 \<le> timeout" by (simp add: timeout_def)
    show "fl (2 + py_uniform 0 (1 / 2) (random_bits largest_jitter_env 0)) = 5 / 2"
      unfolding j by (rule sleep_largest_jitter)
    show "min max_delay (fl (2 * float_1_3)) = 5854679515581645 / 2251799813685248" by (rule backoff_step_0)
    show "(2::nat) = Suc 1" by simp
    show "(1::nat) = Suc 0" by simp
  qed
  have s1: "poll_loop 1 largest_jitter_env 0 1 (5854679515581645 / 2251799813685248)
          ([] @ [\<lparr>elapsed_before = 0, nominal = 2, slept = 5 / 2\<rparr>])
      = Some (Inl (TimeoutError 1300), [] @ [\<lparr>elapsed_before = 0, nominal = 2, slept = 5 / 2\<rparr>])"
  proof (rule poll_loop_waiting_timeout)
    show "get_detail largest_jitter_env 1 = Inr waiting_detail" by (rule g)
    show "fl (time_time largest_jitter_env 1 - 0) = 1300"
      using fl_of_nat [of 1300] by (simp add: largest_jitter_env_def)
    show "timeout < 1300" by (simp add: timeout_def)
    show "(1::nat) = Suc 0" by simp
  qed
  have "poll_loop 2 largest_jitter_env 0 0 2 []
      = Some (Inl (TimeoutError 1300), [] @ [\<lparr>elapsed_before = 0, nominal = 2, slept = 5 / 2\<rparr>])"
    by (simp only: s0 s1)
  then show ?thesis
    unfolding poll_task_def initial_delay_def
    by (simp only: append_Nil)
qed

theorem poll_task_backoff_and_timeout_witness:
  "poll_task 11 sample_poll_env 0 =
     Some (Inl (TimeoutError 1301),
     [\<lparr>elapsed_before = 1, nominal = 2, slept = 9 / 4\<rparr>,
      \<lparr>elapsed_before = 131, nominal = 5854679515581645 / 2251799813685248, slept = 6417629469002957 / 2251799813685248\<rparr>,
      \<lparr>elapsed_before = 261, nominal = 7611083370256139 / 2251799813685248, slept = 8174033323677451 / 2251799813685248\<rparr>,
      \<lparr>elapsed_before = 391, nominal = 4947204190666491 / 1125899906842624, slept = 5228679167377147 / 1125899906842624\<rparr>,
      \<lparr>elapsed_before = 521, nominal = 6431365447866439 / 1125899906842624, slept = 6712840424577095 / 1125899906842624\<rparr>,
      \<lparr>elapsed_before = 651, nominal = 8360775082226371 / 1125899906842624, slept = 8642250058937027 / 1125899906842624\<rparr>,
      \<lparr>elapsed_before = 781, nominal = 5434503803447141 / 562949953421312, slept = 5575241291802469 / 562949953421312\<rparr>,
      \<lparr>elapsed_before = 911, nominal = 1766213736120321 / 140737488355328, slept = 1801398108209153 / 140737488355328\<rparr>,
      \<lparr>elapsed_before = 1041, nominal = 15, slept = 61 / 4\<rparr>,
      \<lparr>elapsed_before = 1171, nominal = 15, slept = 61 / 4\<rparr>])
   \<and> timeout < 1301
   \<and> nominal ([\<lparr>elapsed_before = 1, nominal = 2, slept = 9 / 4\<rparr>,
      \<lparr>elapsed_before = 131, nominal = 5854679515581645 / 2251799813685248, slept = 6417629469002957 / 2251799813685248\<rparr>,
      \<lparr>elapsed_before = 261, nominal = 7611083370256139 / 2251799813685248, slept = 8174033323677451 / 2251799813685248\<rparr>,
      \<lparr>elapsed_before = 391, nominal = 4947204190666491 / 1125899906842624, slept = 5228679167377147 / 1125899906842624\<rparr>,
      \<lparr>elapsed_before = 521, nominal = 6431365447866439 / 1125899906842624, slept = 6712840424577095 / 1125899906842624\<rparr>,
      \<lparr>elapsed_before = 651, nominal = 8360775082226371 / 1125899906842624, slept = 8642250058937027 / 1125899906842624\<rparr>,
      \<lparr>elapsed_before = 781, nominal = 5434503803447141 / 562949953421312, slept = 5575241291802469 / 562949953421312\<rparr>,
      \<lparr>elapsed_before = 911, nominal = 1766213736120321 / 140737488355328, slept = 1801398108209153 / 140737488355328\<rparr>,
      \<lparr>elapsed_before = 1041, nominal = 15, slept = 61 / 4\<rparr>,
      \<lparr>elapsed_before = 1171, nominal = 15, slept = 61 / 4\<rparr>] ! 8) = max_delay
   \<and> (\<exists>fuel e sleeps.
          poll_task fuel sample_poll_env 0 = Some (Inl (TimeoutError e), sleeps)
        \<and> timeout < e
        \<and> (\<forall>n. poll_task (fuel + n) sample_poll_env 0 = poll_task fuel sample_poll_env 0))"
proof -
  note t = poll_task_backoff_and_timeout [of sample_poll_env 0]
  have pend: "\<forall>k. \<exists>d. get_detail sample_poll_env k = Inr d
            \<and> safe_get d (asc ''data.state'') \<noteq> JStr (asc ''success'')
            \<and> safe_get d (asc ''data.state'') \<noteq> JStr (asc ''fail'')"
    by (simp add: sample_poll_env_def waiting_detail_def safe_get_def asc_def)
  have start: "0 \<le> time_time sample_poll_env 0"
    by (simp add: sample_poll_env_def)
  have clk: "\<forall>k. time_time sample_poll_env k + initial_delay \<le> time_time sample_poll_env (Suc k)"
    by (simp add: sample_poll_env_def initial_delay_def)
  from t pend start clk
  have 1: "\<exists>fuel e sleeps.
          poll_task fuel sample_poll_env 0 = Some (Inl (TimeoutError e), sleeps)
        \<and> timeout < e
        \<and> (\<forall>n. poll_task (fuel + n) sample_poll_env 0 = poll_task fuel sample_poll_env 0)"
    by blast
  have 2: "nominal ([\<lparr>elapsed_before = 1, nominal = 2, slept = 9 / 4\<rparr>,
      \<lparr>elapsed_before = 131, nominal = 5854679515581645 / 2251799813685248, slept = 6417629469002957 / 2251799813685248\<rparr>,
      \<lparr>elapsed_before = 261, nominal = 7611083370256139 / 2251799813685248, slept = 8174033323677451 / 2251799813685248\<rparr>,
      \<lparr>elapsed_before = 391, nominal = 4947204190666491 / 1125899906842624, slept = 5228679167377147 / 1125899906842624\<rparr>,
      \<lparr>elapsed_before = 521, nominal = 6431365447866439 / 1125899906842624, slept = 6712840424577095 / 1125899906842624\<rparr>,
      \<lparr>elapsed_before = 651, nominal = 8360775082226371 / 1125899906842624, slept = 8642250058937027 / 1125899906842624\<rparr>,
      \<lparr>elapsed_before = 781, nominal = 5434503803447141 / 562949953421312, slept = 5575241291802469 / 562949953421312\<rparr>,
      \<lparr>elapsed_before = 911, nominal = 1766213736120321 / 140737488355328, slept = 1801398108209153 / 140737488355328\<rparr>,
      \<lparr>elapsed_before = 1041, nominal = 15, slept = 61 / 4\<rparr>,
      \<lparr>elapsed_before = 1171, nominal = 15, slept = 61 / 4\<rparr>] ! 8) = max_delay"
    using t [THEN conjunct2, THEN conjunct2, THEN conjunct2, THEN conjunct1, rule_format,
             OF sample_poll_run, THEN conjunct2, THEN conjunct2, rule_format, of 8]
    by simp
  have 3: "timeout < 1301" using t by simp
  from sample_poll_run 1 2 3 show ?thesis by blast
qed

text \<open>
  C3 as stated fails at the upper end of the interval: the sum of the delay and the jitter
  is rounded. With the largest jitter \<^verbatim>\<open>random.uniform(0, 0.5)\<close> can return, which is below
  one half, the first sleep is exactly the delay plus one half.
\<close>

theorem poll_task_sleep_reaches_upper_bound_counterexample:
  "poll_task 2 largest_jitter_env 0 =
     Some (Inl (TimeoutError 1300), [\<lparr>elapsed_before = 0, nominal = 2, slept = 5 / 2\<rparr>])
   \<and> py_uniform 0 (1 / 2) (random_bits largest_jitter_env 0) = 9007199254740991 / 18014398509481984
   \<and> py_uniform 0 (1 / 2) (random_bits largest_jitter_env 0) < 1 / 2
   \<and> slept \<lparr>elapsed_before = 0, nominal = 2, slept = 5 / 2\<rparr>
       = nominal \<lparr>elapsed_before = 0, nominal = 2, slept = 5 / 2\<rparr> + 1 / 2"
proof -
  have j: "py_uniform 0 (1 / 2) (random_bits largest_jitter_env 0) = 9007199254740991 / 18014398509481984"
    by (simp add: largest_jitter_env_def py_uniform_half)
  have "py_uniform 0 (1 / 2) (random_bits largest_jitter_env 0) < 1 / 2"
    by (rule py_uniform_half_bounds(2))
  moreover have "slept \<lparr>elapsed_before = 0, nominal = 2, slept = 5 / 2\<rparr>
       = nominal \<lparr>elapsed_before = 0, nominal = 2, slept = 5 / 2\<rparr> + (1 / 2 :: rat)"
    by simp
  ultimately show ?thesis using largest_jitter_run j by blast
qed


section \<open>The status record\<close>

lemma dict_set_keys: "fst ` set (dict_set k v d) = insert k (fst ` set d)"
  by (induction d) auto

lemma dict_update_keys: "fst ` set (dict_update d kw) = fst ` set d \<union> fst ` set kw"
  unfolding dict_update_def
  by (induction kw arbitrary: d) (auto simp: dict_set_keys split: prod.splits)

lemma mkdir_parents_files: "mkdir_parents p w = (r, w') \<Longrightarrow> files w' = files w"
  by (auto simp: mkdir_parents_def split: if_splits)

lemma get_job_dir_files: "get_job_dir jobs_dir job_id stage w = (r, w') \<Longrightarrow> files w' = files w"
  by (auto simp: get_job_dir_def Let_def split: prod.splits sum.splits dest: mkdir_parents_files)

lemma get_job_dir_prompts:
  assumes "get_job_dir jobs_dir job_id (Some (asc ''prompts'')) w = (r, w')"
  shows "files w' = files w"
    and "r = Inr d \<Longrightarrow> path_div d (asc ''metadata.json'') = metadata_file jobs_dir job_id"
    and "r = Inr d \<Longrightarrow> dirs w' = dirs w \<union> set (prefixes d)"
  using assms
  by (auto simp: get_job_dir_def mkdir_parents_def metadata_file_def Let_def split: if_splits)

lemma load_job_metadata_files:
  assumes "load_job_metadata jobs_dir job_id w = (r, w')"
  shows "files w' = files w"
proof -
  obtain r1 w1 where g: "get_job_dir jobs_dir job_id (Some (asc ''prompts'')) w = (r1, w1)"
    by (cases "get_job_dir jobs_dir job_id (Some (asc ''prompts'')) w")
  have f: "files w1 = files w" by (rule get_job_dir_prompts(1) [OF g])
  have "w' = w1"
    using assms g
    by (cases r1) (simp_all add: load_job_metadata_def Let_def split: if_splits option.splits content.splits)
  with f show ?thesis by simp
qed

lemma load_job_metadata_keys:
  assumes "load_job_metadata jobs_dir job_id w = (Inr (JObj d), w')"
  shows "fst ` set d \<subseteq> status_keys jobs_dir job_id w"
proof -
  obtain r1 w1 where g: "get_job_dir jobs_dir job_id (Some (asc ''prompts'')) w = (r1, w1)"
    by (cases "get_job_dir jobs_dir job_id (Some (asc ''prompts'')) w")
  have f: "files w1 = files w" by (rule get_job_dir_prompts(1) [OF g])
  obtain jd where r1: "r1 = Inr jd"
    using assms g by (cases r1) (simp_all add: load_job_metadata_def)
  have mp: "path_div jd (asc ''metadata.json'') = metadata_file jobs_dir job_id"
    by (rule get_job_dir_prompts(2) [OF g r1])
  have "d = [] \<or> files w (metadata_file jobs_dir job_id) = Some (Json (JObj d))"
    using assms g r1 mp f
    by (simp add: load_job_metadata_def Let_def split: if_splits option.splits content.splits)
  then show ?thesis by (force simp: status_keys_def)
qed

lemma save_job_metadata_keys:
  assumes "save_job_metadata jobs_dir job_id (JObj d) w = (r, w')"
  shows "status_keys jobs_dir job_id w' \<subseteq> status_keys jobs_dir job_id w \<union> fst ` set d"
proof -
  obtain r1 w1 where g: "get_job_dir jobs_dir job_id (Some (asc ''prompts'')) w = (r1, w1)"
    by (cases "get_job_dir jobs_dir job_id (Some (asc ''prompts'')) w")
  have f: "files w1 = files w" by (rule get_job_dir_prompts(1) [OF g])
  show ?thesis
  proof (cases r1)
    case (Inl e)
    with assms g have "w' = w1" by (simp add: save_job_metadata_def)
    with f show ?thesis by (simp add: status_keys_def)
  next
    case (Inr jd)
    have mp: "path_div jd (asc ''metadata.json'') = metadata_file jobs_dir job_id"
      by (rule get_job_dir_prompts(2) [OF g Inr])
    have "files w' = files w \<or>
          files w' = (files w)(metadata_file jobs_dir job_id \<mapsto> Json (JObj d))"
      using assms g Inr mp f
      by (auto simp: save_job_metadata_def Let_def split: if_splits)
    then show ?thesis by (auto simp: status_keys_def)
  qed
qed

lemma save_job_metadata_fail:
  assumes "save_job_metadata jobs_dir job_id m w = (Inl e, w')"
  shows "files w' = files w"
proof -
  obtain r1 w1 where g: "get_job_dir jobs_dir job_id (Some (asc ''prompts'')) w = (r1, w1)"
    by (cases "get_job_dir jobs_dir job_id (Some (asc ''prompts'')) w")
  have f: "files w1 = files w" by (rule get_job_dir_prompts(1) [OF g])
  have "w' = w1"
    using assms g
    by (cases r1) (simp_all add: save_job_metadata_def Let_def split: if_splits)
  with f show ?thesis by simp
qed

lemma status_keys_cong: "files w' = files w \<Longrightarrow> status_keys jobs_dir job_id w' = status_keys jobs_dir job_id w"
  by (simp add: status_keys_def)

lemma update_job_status_fail:
  assumes "update_job_status jobs_dir now job_id status kwargs w = (Inl e, w')"
  shows "status_keys jobs_dir job_id w' = status_keys jobs_dir job_id w"
proof -
  obtain r1 w1 where l: "load_job_metadata jobs_dir job_id w = (r1, w1)"
    by (cases "load_job_metadata jobs_dir job_id w")
  have f1: "files w1 = files w" by (rule load_job_metadata_files [OF l])
  have "files w' = files w"
  proof (cases r1)
    case (Inl e1)
    with assms l have "w' = w1" by (simp add: update_job_status_def)
    with f1 show ?thesis by simp
  next
    case (Inr m)
    show ?thesis
    proof (cases "\<exists>d. m = JObj d")
      case False
      with assms l Inr have "w' = w1"
        by (cases m) (simp_all add: update_job_status_def)
      with f1 show ?thesis by simp
    next
      case True
      then obtain d where m: "m = JObj d" by blast
      let ?d3 = "dict_update (dict_set (asc ''updated_at'') (JStr now) (dict_set (asc ''status'') (JStr status) d)) kwargs"
      obtain r2 w2 where s: "save_job_metadata jobs_dir job_id (JObj ?d3) w1 = (r2, w2)"
        by (cases "save_job_metadata jobs_dir job_id (JObj ?d3) w1")
      from assms l Inr m s obtain e2 where "r2 = Inl e2" "w' = w2"
        by (cases r2) (simp_all add: update_job_status_def Let_def)
      with s have "files w' = files w1" using save_job_metadata_fail by blast
      with f1 show ?thesis by simp
    qed
  qed
  then show ?thesis by (rule status_keys_cong)
qed

lemma update_job_status_keys:
  assumes "update_job_status jobs_dir now job_id status kwargs w = (r, w')"
  shows "status_keys jobs_dir job_id w' \<subseteq>
           status_keys jobs_dir job_id w \<union> {asc ''status'', asc ''updated_at''} \<union> fst ` set kwargs"
proof (cases r)
  case (Inl e)
  with assms show ?thesis using update_job_status_fail by blast
next
  case (Inr u)
  obtain r1 w1 where l0: "load_job_metadata jobs_dir job_id w = (r1, w1)"
    by (cases "load_job_metadata jobs_dir job_id w")
  obtain m where r1: "r1 = Inr m"
    using assms Inr l0 by (cases r1) (simp_all add: update_job_status_def)
  note l = l0 [unfolded r1]
  obtain d where m: "m = JObj d"
    using assms Inr l by (cases m) (simp_all add: update_job_status_def)
  let ?d3 = "dict_update (dict_set (asc ''updated_at'') (JStr now) (dict_set (asc ''status'') (JStr status) d)) kwargs"
  obtain r2 w2 where s0: "save_job_metadata jobs_dir job_id (JObj ?d3) w1 = (r2, w2)"
    by (cases "save_job_metadata jobs_dir job_id (JObj ?d3) w1")
  have "w' = w2"
    using assms Inr l m s0 by (cases r2) (simp_all add: update_job_status_def Let_def)
  note s = s0 [unfolded \<open>w' = w2\<close> [symmetric]]
  have k1: "status_keys jobs_dir job_id w1 = status_keys jobs_dir job_id w"
    using load_job_metadata_files [OF l] by (rule status_keys_cong)
  have "fst ` set d \<subseteq> status_keys jobs_dir job_id w"
    using l m load_job_metadata_keys by blast
  moreover have "status_keys jobs_dir job_id w' \<subseteq> status_keys jobs_dir job_id w1 \<union> fst ` set ?d3"
    by (rule save_job_metadata_keys [OF s])
  ultimately show ?thesis
    unfolding k1 dict_update_keys dict_set_keys by blast
qed

lemma run_steps_keys:
  "run_steps jobs_dir job_id clock i steps w = (r, w') \<Longrightarrow>
     status_keys jobs_dir job_id w' \<subseteq>
       status_keys jobs_dir job_id w \<union> {asc ''status'', asc ''updated_at''} \<union> \<Union> (step_keys ` set steps)"
proof (induction steps arbitrary: i w)
  case Nil
  then show ?case by auto
next
  case (Cons s steps)
  show ?case
  proof (cases s)
    case (Raise e)
    with Cons.prems show ?thesis by auto
  next
    case (Update status kwargs)
    obtain r1 w1 where u: "update_job_status jobs_dir (clock i) job_id status kwargs w = (r1, w1)"
      by (cases "update_job_status jobs_dir (clock i) job_id status kwargs w")
    note k = update_job_status_keys [OF u]
    show ?thesis
    proof (cases r1)
      case (Inl e)
      with Cons.prems Update u have "w' = w1" by simp
      with k Update show ?thesis by auto
    next
      case (Inr x)
      with Cons.prems Update u have "run_steps jobs_dir job_id clock (Suc i) steps w1 = (r, w')" by simp
      from Cons.IH [OF this] k Update show ?thesis by auto
    qed
  qed
qed

lemma run_steps_fail_keys:
  "run_steps jobs_dir job_id clock i (front @ [s]) w = (Inl e, w') \<Longrightarrow>
     status_keys jobs_dir job_id w' \<subseteq>
       status_keys jobs_dir job_id w \<union> {asc ''status'', asc ''updated_at''} \<union> \<Union> (step_keys ` set front)"
proof (induction front arbitrary: i w)
  case Nil
  then show ?case
    by (cases s) (auto split: prod.splits sum.splits dest: update_job_status_fail)
next
  case (Cons x front)
  show ?case
  proof (cases x)
    case (Raise e)
    with Cons.prems show ?thesis by auto
  next
    case (Update status kwargs)
    obtain r1 w1 where u: "update_job_status jobs_dir (clock i) job_id status kwargs w = (r1, w1)"
      by (cases "update_job_status jobs_dir (clock i) job_id status kwargs w")
    note k = update_job_status_keys [OF u]
    show ?thesis
    proof (cases r1)
      case (Inl e)
      with Cons.prems Update u have "w' = w1" by simp
      with k Update show ?thesis by auto
    next
      case (Inr y)
      with Cons.prems Update u
      have "run_steps jobs_dir job_id clock (Suc i) (front @ [s]) w1 = (Inl e, w')" by simp
      from Cons.IH [OF this] k Update show ?thesis by auto
    qed
  qed
qed

lemma raise_if_quiet: "s \<in> set (raise_if e) \<Longrightarrow> step_keys s = {}"
  by (cases e) (auto simp: raise_if_def)

lemma try_steps_front:
  "\<exists>front. try_steps run = front @ [Update (asc ''completed'') [(asc ''result'', final_result run)]]
     \<and> (\<forall>s \<in> set front. asc ''result'' \<notin> step_keys s \<and> asc ''error'' \<notin> step_keys s)"
proof -
  define A where "A =
     (if prompts_cached run then
        (case prompts_result run of Inl e \<Rightarrow> [Raise e] | Inr info \<Rightarrow> [])
      else
        Update (asc ''processing'') [(asc ''message'', JStr (asc ''Generating prompts''))]
        # (case prompts_result run of
             Inl e \<Rightarrow> [Raise e]
           | Inr info \<Rightarrow>
               [Update (asc ''prompts_generated'')
                  [(asc ''title'', p_title info),
                   (asc ''num_shots'', JInt (p_num_shots info)),
                   (asc ''total_duration'', JInt (p_num_shots info * p_clip_duration info)),
                   (asc ''voice_reader_text'', p_voice_reader info)]]))"
  define B where "B = map (\<lambda>idx. Update (asc ''processing'')
              [(asc ''message'',
                  JStr (asc ''Generated '' @ dec idx @ asc ''/'' @ dec (videos_total run) @ asc '' videos'')),
               (asc ''progress'',
                  JObj [(asc ''videos_completed'', JInt (int idx)),
                        (asc ''videos_total'', JInt (int (videos_total run)))])])
         [1 ..< Suc (videos_done run)]"
  define C where "C = (if final_cached run then []
        else (case merge_error run of
                Some e \<Rightarrow> [Raise e]
              | None \<Rightarrow>
                  [Update (asc ''completed'')
                     [(asc ''message'', JStr (asc ''Final video created'')),
                      (asc ''final_video_path'', JStr (final_video_path run))]]))"
  define front where "front =
     A @ [Update (asc ''processing'') [(asc ''message'', JStr (asc ''Generating videos''))]]
     @ B @ raise_if (videos_error run)
     @ [Update (asc ''processing'') [(asc ''message'', JStr (asc ''Concatenating videos''))]]
     @ raise_if (concat_error run)
     @ [Update (asc ''processing'') [(asc ''message'', JStr (asc ''Generating voiceover''))]]
     @ raise_if (voiceover_error run)
     @ [Update (asc ''processing'') [(asc ''message'', JStr (asc ''Merging final video''))]]
     @ C"
  let ?Q = "\<lambda>s. asc ''result'' \<notin> step_keys s \<and> asc ''error'' \<notin> step_keys s"
  have eq: "try_steps run = front @ [Update (asc ''completed'') [(asc ''result'', final_result run)]]"
    unfolding try_steps_def front_def A_def B_def C_def by (simp only: append_assoc)
  have qA: "\<forall>s \<in> set A. ?Q s"
    unfolding A_def by (cases "prompts_result run") (simp_all add: asc_def)
  have qB: "\<forall>s \<in> set B. ?Q s"
    unfolding B_def by (auto simp: asc_def)
  have qC: "\<forall>s \<in> set C. ?Q s"
    unfolding C_def by (cases "merge_error run") (simp_all add: asc_def)
  have qR: "\<And>e. \<forall>s \<in> set (raise_if e). ?Q s"
    using raise_if_quiet by simp
  have qU: "\<And>m. ?Q (Update (asc ''processing'') [(asc ''message'', m)])"
    by (simp add: asc_def)
  have "\<forall>s \<in> set front. ?Q s"
    unfolding front_def set_append using qA qB qC qR qU by (simp add: ball_Un)
  with eq show ?thesis by blast
qed

lemma path_div_metadata: "path_div p (asc ''metadata.json'') = p @ [asc ''metadata.json'']"
  by (simp add: path_div_def path_parts_def asc_def)

lemma metadata_file_snoc:
  "metadata_file jobs_dir job_id =
     path_div (path_div jobs_dir job_id) (asc ''prompts'') @ [asc ''metadata.json'']"
  by (simp add: metadata_file_def path_div_metadata)

lemma snoc_not_prefix: "q \<in> set (prefixes p) \<Longrightarrow> q \<noteq> p @ [x]"
  by (auto simp: in_set_prefixes dest: prefix_length_le)

lemma update_job_status_healthy:
  assumes h: "healthy jobs_dir job_id w"
  shows "\<exists>w'. update_job_status jobs_dir now job_id status kwargs w = (Inr (), w')
           \<and> healthy jobs_dir job_id w'
           \<and> status_keys jobs_dir job_id w' =
               status_keys jobs_dir job_id w \<union> {asc ''status'', asc ''updated_at''} \<union> fst ` set kwargs"
proof -
  let ?jd = "path_div (path_div jobs_dir job_id) (asc ''prompts'')"
  let ?mp = "metadata_file jobs_dir job_id"
  let ?w1 = "w\<lparr>dirs := dirs w \<union> set (prefixes ?jd)\<rparr>"
  have mp: "?mp = ?jd @ [asc ''metadata.json'']" by (rule metadata_file_snoc)
  have free: "\<forall>q \<in> set (prefixes ?jd). q \<notin> dom (files w)" and nd: "?mp \<notin> dirs w"
    using h by (auto simp: healthy_def)
  have jdfree: "?jd \<notin> dom (files w)" using free by (simp add: in_set_prefixes)
  have g: "\<And>v. files v = files w \<Longrightarrow>
        get_job_dir jobs_dir job_id (Some (asc ''prompts'')) v
          = (Inr ?jd, v\<lparr>dirs := dirs v \<union> set (prefixes ?jd)\<rparr>)"
    using free jdfree by (simp add: get_job_dir_def mkdir_parents_def Let_def)
  have mpnp: "?mp \<notin> set (prefixes ?jd)" using snoc_not_prefix mp by metis
  obtain d where d: "files w ?mp = None \<and> d = [] \<or> files w ?mp = Some (Json (JObj d))"
    using h by (auto simp: healthy_def split: option.splits content.splits json.splits)
  have keys: "status_keys jobs_dir job_id w = fst ` set d"
    using d by (force simp: status_keys_def)
  have l: "load_job_metadata jobs_dir job_id w = (Inr (JObj d), ?w1)"
    using d nd mpnp g [of w]
    by (auto simp: load_job_metadata_def Let_def path_div_metadata mp [symmetric] path_exists_def dom_def)
  let ?d3 = "dict_update (dict_set (asc ''updated_at'') (JStr now) (dict_set (asc ''status'') (JStr status) d)) kwargs"
  let ?w2 = "?w1\<lparr>files := (files w)(?mp \<mapsto> Json (JObj ?d3))\<rparr>"
  have s: "save_job_metadata jobs_dir job_id (JObj ?d3) ?w1 = (Inr ?mp, ?w2)"
    using nd mpnp g [of ?w1]
    by (simp add: save_job_metadata_def Let_def path_div_metadata mp [symmetric])
  have u: "update_job_status jobs_dir now job_id status kwargs w = (Inr (), ?w2)"
    using l s by (simp add: update_job_status_def Let_def)
  have h2: "healthy jobs_dir job_id ?w2"
    using free nd mpnp by (auto simp: healthy_def)
  have k2: "status_keys jobs_dir job_id ?w2 = fst ` set ?d3"
    by (simp add: status_keys_def)
  show ?thesis
    using u h2 k2 keys by (auto simp: dict_update_keys dict_set_keys)
qed

lemma run_steps_healthy:
  "healthy jobs_dir job_id w \<Longrightarrow>
   \<exists>r w'. run_steps jobs_dir job_id clock i steps w = (r, w')
      \<and> healthy jobs_dir job_id w'
      \<and> status_keys jobs_dir job_id w \<subseteq> status_keys jobs_dir job_id w'
      \<and> ((\<forall>s \<in> set steps. \<exists>st kw. s = Update st kw) \<longrightarrow>
            r = Inr () \<and> \<Union> (step_keys ` set steps) \<subseteq> status_keys jobs_dir job_id w')
      \<and> ((\<exists>s \<in> set steps. \<exists>e. s = Raise e) \<longrightarrow> (\<exists>e. r = Inl e))"
proof (induction steps arbitrary: i w)
  case Nil
  then show ?case by simp
next
  case (Cons s steps)
  show ?case
  proof (cases s)
    case (Raise e)
    with Cons.prems show ?thesis by auto
  next
    case (Update status kwargs)
    from update_job_status_healthy [OF Cons.prems]
    obtain w1 where u: "update_job_status jobs_dir (clock i) job_id status kwargs w = (Inr (), w1)"
      and h1: "healthy jobs_dir job_id w1"
      and k1: "status_keys jobs_dir job_id w1 =
               status_keys jobs_dir job_id w \<union> {asc ''status'', asc ''updated_at''} \<union> fst ` set kwargs"
      by blast
    from Cons.IH [OF h1, of "Suc i"]
    obtain r w' where r: "run_steps jobs_dir job_id clock (Suc i) steps w1 = (r, w')"
      and h': "healthy jobs_dir job_id w'"
      and m: "status_keys jobs_dir job_id w1 \<subseteq> status_keys jobs_dir job_id w'"
      and a: "(\<forall>s \<in> set steps. \<exists>st kw. s = Update st kw) \<longrightarrow>
            r = Inr () \<and> \<Union> (step_keys ` set steps) \<subseteq> status_keys jobs_dir job_id w'"
      and b: "(\<exists>s \<in> set steps. \<exists>e. s = Raise e) \<longrightarrow> (\<exists>e. r = Inl e)"
      by blast
    have "run_steps jobs_dir job_id clock i (s # steps) w = (r, w')"
      using Update u r by simp
    moreover have "status_keys jobs_dir job_id w \<subseteq> status_keys jobs_dir job_id w'"
      using k1 m by blast
    moreover have "(\<forall>t \<in> set (s # steps). \<exists>st kw. t = Update st kw) \<longrightarrow>
            r = Inr () \<and> \<Union> (step_keys ` set (s # steps)) \<subseteq> status_keys jobs_dir job_id w'"
      using a k1 m Update by auto
    moreover have "(\<exists>t \<in> set (s # steps). \<exists>e. t = Raise e) \<longrightarrow> (\<exists>e. r = Inl e)"
      using b Update by auto
    ultimately show ?thesis using h' by blast
  qed
qed

lemma full_pipeline_task_healthy_ex:
  assumes h: "healthy jobs_dir job_id w"
  shows "\<exists>r w'. full_pipeline_task jobs_dir job_id clock err_str run w = (r, w')
      \<and> healthy jobs_dir job_id w'
      \<and> status_keys jobs_dir job_id w \<subseteq> status_keys jobs_dir job_id w'
      \<and> ((\<forall>s \<in> set (try_steps run). \<exists>st kw. s = Update st kw) \<longrightarrow>
            asc ''result'' \<in> status_keys jobs_dir job_id w')
      \<and> ((\<exists>s \<in> set (try_steps run). \<exists>e. s = Raise e) \<longrightarrow>
            asc ''error'' \<in> status_keys jobs_dir job_id w')"
proof -
  from run_steps_healthy [OF h, of clock 0 "try_steps run"]
  obtain r1 w1 where r: "run_steps jobs_dir job_id clock 0 (try_steps run) w = (r1, w1)"
      and h1: "healthy jobs_dir job_id w1"
      and m: "status_keys jobs_dir job_id w \<subseteq> status_keys jobs_dir job_id w1"
      and a: "(\<forall>s \<in> set (try_steps run). \<exists>st kw. s = Update st kw) \<longrightarrow>
            r1 = Inr () \<and> \<Union> (step_keys ` set (try_steps run)) \<subseteq> status_keys jobs_dir job_id w1"
      and b: "(\<exists>s \<in> set (try_steps run). \<exists>e. s = Raise e) \<longrightarrow> (\<exists>e. r1 = Inl e)"
    by blast
  have last: "Update (asc ''completed'') [(asc ''result'', final_result run)] \<in> set (try_steps run)"
    using try_steps_front [of run] by auto
  show ?thesis
  proof (cases r1)
    case (Inr u)
    then have fin: "full_pipeline_task jobs_dir job_id clock err_str run w = (Inr (), w1)"
      using r by (simp add: full_pipeline_task_def)
    have "(\<forall>s \<in> set (try_steps run). \<exists>st kw. s = Update st kw) \<longrightarrow>
            asc ''result'' \<in> status_keys jobs_dir job_id w1"
    proof
      assume all: "\<forall>s \<in> set (try_steps run). \<exists>st kw. s = Update st kw"
      with a have "\<Union> (step_keys ` set (try_steps run)) \<subseteq> status_keys jobs_dir job_id w1" by blast
      moreover have "asc ''result'' \<in> step_keys (Update (asc ''completed'') [(asc ''result'', final_result run)])"
        by simp
      ultimately show "asc ''result'' \<in> status_keys jobs_dir job_id w1" using last by blast
    qed
    moreover have "\<not> (\<exists>s \<in> set (try_steps run). \<exists>e. s = Raise e)"
      using b Inr by auto
    ultimately show ?thesis using fin h1 m by blast
  next
    case (Inl e)
    from update_job_status_healthy [OF h1, of "clock (length (try_steps run))" "asc ''failed''"
        "[(asc ''error'', JStr (err_str e))]"]
    obtain w2 where u: "update_job_status jobs_dir (clock (length (try_steps run))) job_id (asc ''failed'')
            [(asc ''error'', JStr (err_str e))] w1 = (Inr (), w2)"
      and h2: "healthy jobs_dir job_id w2"
      and k2: "status_keys jobs_dir job_id w2 =
               status_keys jobs_dir job_id w1 \<union> {asc ''status'', asc ''updated_at''}
                 \<union> fst ` set [(asc ''error'', JStr (err_str e))]"
      by blast
    have fin: "full_pipeline_task jobs_dir job_id clock err_str run w = (Inr (), w2)"
      using r Inl u by (simp add: full_pipeline_task_def)
    have "asc ''error'' \<in> status_keys jobs_dir job_id w2" using k2 by simp
    moreover have "\<not> (\<forall>s \<in> set (try_steps run). \<exists>st kw. s = Update st kw)"
      using a Inl by auto
    moreover have "status_keys jobs_dir job_id w \<subseteq> status_keys jobs_dir job_id w2"
      using m k2 by blast
    ultimately show ?thesis using fin h2 by blast
  qed
qed

lemma full_pipeline_task_healthy:
  assumes h: "healthy jobs_dir job_id w"
  shows "healthy jobs_dir job_id (snd (full_pipeline_task jobs_dir job_id clock err_str run w))"
    and "status_keys jobs_dir job_id w \<subseteq>
           status_keys jobs_dir job_id (snd (full_pipeline_task jobs_dir job_id clock err_str run w))"
    and "\<forall>s \<in> set (try_steps run). \<exists>st kw. s = Update st kw \<Longrightarrow>
           asc ''result'' \<in> status_keys jobs_dir job_id
             (snd (full_pipeline_task jobs_dir job_id clock err_str run w))"
    and "\<exists>s \<in> set (try_steps run). \<exists>e. s = Raise e \<Longrightarrow>
           asc ''error'' \<in> status_keys jobs_dir job_id
             (snd (full_pipeline_task jobs_dir job_id clock err_str run w))"
proof -
  from full_pipeline_task_healthy_ex [OF h, of clock err_str run]
  obtain r w' where f: "full_pipeline_task jobs_dir job_id clock err_str run w = (r, w')"
      and 1: "healthy jobs_dir job_id w'"
      and 2: "status_keys jobs_dir job_id w \<subseteq> status_keys jobs_dir job_id w'"
      and 3: "(\<forall>s \<in> set (try_steps run). \<exists>st kw. s = Update st kw) \<longrightarrow>
            asc ''result'' \<in> status_keys jobs_dir job_id w'"
      and 4: "(\<exists>s \<in> set (try_steps run). \<exists>e. s = Raise e) \<longrightarrow>
            asc ''error'' \<in> status_keys jobs_dir job_id w'"
    by blast
  have s: "snd (full_pipeline_task jobs_dir job_id clock err_str run w) = w'"
    using f by simp
  show "healthy jobs_dir job_id (snd (full_pipeline_task jobs_dir job_id clock err_str run w))"
    unfolding s by (rule 1)
  show "status_keys jobs_dir job_id w \<subseteq>
           status_keys jobs_dir job_id (snd (full_pipeline_task jobs_dir job_id clock err_str run w))"
    unfolding s by (rule 2)
  show "asc ''result'' \<in> status_keys jobs_dir job_id
             (snd (full_pipeline_task jobs_dir job_id clock err_str run w))"
    if "\<forall>s \<in> set (try_steps run). \<exists>st kw. s = Update st kw"
    unfolding s using 3 that by blast
  show "asc ''error'' \<in> status_keys jobs_dir job_id
             (snd (full_pipeline_task jobs_dir job_id clock err_str run w))"
    if "\<exists>s \<in> set (try_steps run). \<exists>e. s = Raise e"
    unfolding s using 4 that by blast
qed

text \<open>
  C6 (amended). When the persisted status record of a job holds neither \<^verbatim>\<open>result\<close>
  nor \<^verbatim>\<open>error\<close> before a run of \<open>full_pipeline_task\<close>, as on the first
  submission of a title, it does not hold both after the run, however the stages and the
  writes of the record turn out.
\<close>

theorem full_pipeline_task_result_error_exclusive:
  assumes "asc ''result'' \<notin> status_keys jobs_dir job_id w"
      and "asc ''error'' \<notin> status_keys jobs_dir job_id w"
  shows "\<not> (asc ''result'' \<in> status_keys jobs_dir job_id
                 (snd (full_pipeline_task jobs_dir job_id clock err_str run w))
          \<and> asc ''error'' \<in> status_keys jobs_dir job_id
                 (snd (full_pipeline_task jobs_dir job_id clock err_str run w)))"
proof -
  let ?K = "status_keys jobs_dir job_id"
  let ?base = "{asc ''status'', asc ''updated_at''}"
  let ?fin = "Update (asc ''completed'') [(asc ''result'', final_result run)]"
  obtain front where eq: "try_steps run = front @ [?fin]"
    and quiet: "\<forall>s \<in> set front. asc ''result'' \<notin> step_keys s \<and> asc ''error'' \<notin> step_keys s"
    using try_steps_front by blast
  have nb: "asc ''result'' \<notin> ?base" "asc ''error'' \<notin> ?base" by (simp_all add: asc_def)
  have ne: "asc ''result'' \<noteq> asc ''error''" by (simp add: asc_def)
  have qr: "asc ''result'' \<notin> \<Union> (step_keys ` set front)"
    and qe: "asc ''error'' \<notin> \<Union> (step_keys ` set front)"
    using quiet by simp_all
  obtain r1 w1 where r: "run_steps jobs_dir job_id clock 0 (front @ [?fin]) w = (r1, w1)"
    by (cases "run_steps jobs_dir job_id clock 0 (front @ [?fin]) w")
  show ?thesis
  proof (cases r1)
    case (Inr u)
    then have fin: "snd (full_pipeline_task jobs_dir job_id clock err_str run w) = w1"
      using r by (simp add: full_pipeline_task_def eq)
    have sub: "?K w1 \<subseteq> ?K w \<union> ?base \<union> \<Union> (step_keys ` set (front @ [?fin]))"
      by (rule run_steps_keys [OF r])
    have "\<Union> (step_keys ` set (front @ [?fin])) = \<Union> (step_keys ` set front) \<union> {asc ''result''}"
      by auto
    then have "asc ''error'' \<notin> \<Union> (step_keys ` set (front @ [?fin]))"
      using qe ne by simp
    with sub assms(2) nb(2) have "asc ''error'' \<notin> ?K w1" by blast
    then show ?thesis unfolding fin by simp
  next
    case (Inl e)
    let ?kw = "[(asc ''error'', JStr (err_str e))]"
    obtain r2 w2 where u: "update_job_status jobs_dir (clock (length (try_steps run))) job_id
            (asc ''failed'') ?kw w1 = (r2, w2)"
      by (cases "update_job_status jobs_dir (clock (length (try_steps run))) job_id
            (asc ''failed'') ?kw w1")
    have fin: "snd (full_pipeline_task jobs_dir job_id clock err_str run w) = w2"
      using r Inl u by (simp add: full_pipeline_task_def eq [symmetric])
    have sub1: "?K w1 \<subseteq> ?K w \<union> ?base \<union> \<Union> (step_keys ` set front)"
      by (rule run_steps_fail_keys [OF r [unfolded Inl]])
    with assms(1) nb(1) qr have r1: "asc ''result'' \<notin> ?K w1" by blast
    have sub2: "?K w2 \<subseteq> ?K w1 \<union> ?base \<union> fst ` set ?kw"
      by (rule update_job_status_keys [OF u])
    have "fst ` set ?kw = {asc ''error''}" by simp
    with sub2 r1 nb(1) ne have "asc ''result'' \<notin> ?K w2" by blast
    then show ?thesis unfolding fin by simp
  qed
qed

lemma healthy_empty: "healthy jobs_dir job_id \<lparr>dirs = {}, files = Map.empty, log = []\<rparr>"
  by (simp add: healthy_def)

lemma sample_finished_run_updates:
  "\<forall>s \<in> set (try_steps sample_finished_run). \<exists>st kw. s = Update st kw"
  by (simp add: try_steps_def sample_finished_run_def raise_if_def)

lemma sample_failed_run_raises:
  "\<exists>s \<in> set (try_steps sample_failed_run). \<exists>e. s = Raise e"
  by (simp add: try_steps_def sample_failed_run_def raise_if_def)

theorem full_pipeline_task_result_error_exclusive_witness:
  "asc ''result'' \<in> status_keys [asc ''srv'', asc ''jobs''] (asc ''Iran_Protests_Update'')
       (snd (full_pipeline_task [asc ''srv'', asc ''jobs''] (asc ''Iran_Protests_Update'')
               (\<lambda>i. asc ''2026-01-11T14:30:22'') (\<lambda>e. asc ''failed'') sample_finished_run
               \<lparr>dirs = {}, files = Map.empty, log = []\<rparr>))
   \<and> asc ''error'' \<notin> status_keys [asc ''srv'', asc ''jobs''] (asc ''Iran_Protests_Update'')
       (snd (full_pipeline_task [asc ''srv'', asc ''jobs''] (asc ''Iran_Protests_Update'')
               (\<lambda>i. asc ''2026-01-11T14:30:22'') (\<lambda>e. asc ''failed'') sample_finished_run
               \<lparr>dirs = {}, files = Map.empty, log = []\<rparr>))"
proof -
  let ?w0 = "\<lparr>dirs = {}, files = Map.empty, log = []\<rparr> :: world"
  have k0: "status_keys [asc ''srv'', asc ''jobs''] (asc ''Iran_Protests_Update'') ?w0 = {}"
    by (simp add: status_keys_def)
  have res: "asc ''result'' \<in> status_keys [asc ''srv'', asc ''jobs''] (asc ''Iran_Protests_Update'')
       (snd (full_pipeline_task [asc ''srv'', asc ''jobs''] (asc ''Iran_Protests_Update'')
               (\<lambda>i. asc ''2026-01-11T14:30:22'') (\<lambda>e. asc ''failed'') sample_finished_run ?w0))"
    by (rule full_pipeline_task_healthy(3) [OF healthy_empty sample_finished_run_updates])
  have "asc ''result'' \<notin> status_keys [asc ''srv'', asc ''jobs''] (asc ''Iran_Protests_Update'') ?w0"
    and "asc ''error'' \<notin> status_keys [asc ''srv'', asc ''jobs''] (asc ''Iran_Protests_Update'') ?w0"
    unfolding k0 by simp_all
  from full_pipeline_task_result_error_exclusive [OF this] res
  show ?thesis by blast
qed

text \<open>
  C6 as stated fails across runs: \<open>update_job_status\<close> merges into the record and
  never removes a key. A run that fails writes \<^verbatim>\<open>error\<close>; the same title submitted
  again gets the same job id, and the run that then succeeds writes \<^verbatim>\<open>result\<close> next
  to it.
\<close>

theorem status_record_result_and_error_counterexample:
  "asc ''result'' \<in> status_keys [asc ''srv'', asc ''jobs''] (asc ''Iran_Protests_Update'')
       (snd (full_pipeline_task [asc ''srv'', asc ''jobs''] (asc ''Iran_Protests_Update'')
               (\<lambda>i. asc ''2026-01-11T15:02:10'') (\<lambda>e. asc ''failed'') sample_finished_run
          (snd (full_pipeline_task [asc ''srv'', asc ''jobs''] (asc ''Iran_Protests_Update'')
               (\<lambda>i. asc ''2026-01-11T14:30:22'') (\<lambda>e. asc ''Failed to parse JSON from Claude response'')
               sample_failed_run \<lparr>dirs = {}, files = Map.empty, log = []\<rparr>))))
   \<and> asc ''error'' \<in> status_keys [asc ''srv'', asc ''jobs''] (asc ''Iran_Protests_Update'')
       (snd (full_pipeline_task [asc ''srv'', asc ''jobs''] (asc ''Iran_Protests_Update'')
               (\<lambda>i. asc ''2026-01-11T15:02:10'') (\<lambda>e. asc ''failed'') sample_finished_run
          (snd (full_pipeline_task [asc ''srv'', asc ''jobs''] (asc ''Iran_Protests_Update'')
               (\<lambda>i. asc ''2026-01-11T14:30:22'') (\<lambda>e. asc ''Failed to parse JSON from Claude response'')
               sample_failed_run \<lparr>dirs = {}, files = Map.empty, log = []\<rparr>))))"
proof -
  let ?jd = "[asc ''srv'', asc ''jobs'']"
  let ?id = "asc ''Iran_Protests_Update''"
  let ?w0 = "\<lparr>dirs = {}, files = Map.empty, log = []\<rparr> :: world"
  let ?w1 = "snd (full_pipeline_task ?jd ?id (\<lambda>i. asc ''2026-01-11T14:30:22'')
               (\<lambda>e. asc ''Failed to parse JSON from Claude response'') sample_failed_run ?w0)"
  let ?w2 = "snd (full_pipeline_task ?jd ?id (\<lambda>i. asc ''2026-01-11T15:02:10'') (\<lambda>e. asc ''failed'')
               sample_finished_run ?w1)"
  have h1: "healthy ?jd ?id ?w1"
    by (rule full_pipeline_task_healthy(1) [OF healthy_empty])
  have e1: "asc ''error'' \<in> status_keys ?jd ?id ?w1"
    by (rule full_pipeline_task_healthy(4) [OF healthy_empty sample_failed_run_raises])
  have m: "status_keys ?jd ?id ?w1 \<subseteq> status_keys ?jd ?id ?w2"
    by (rule full_pipeline_task_healthy(2) [OF h1])
  have r2: "asc ''result'' \<in> status_keys ?jd ?id ?w2"
    by (rule full_pipeline_task_healthy(3) [OF h1 sample_finished_run_updates])
  from e1 m have "asc ''error'' \<in> status_keys ?jd ?id ?w2" by (rule subsetD [rotated])
  with r2 show ?thesis by (rule conjI)
qed


section \<open>Output of the media operations\<close>

lemma ffmpeg_output_concat: "ffmpeg_output (concat_command concat_file output_path) = Some output_path"
  by (simp add: concat_command_def asc_def)

lemma ffmpeg_output_mux: "ffmpeg_output (mux_command video_path audio_path output_path) = Some output_path"
  by (simp add: mux_command_def asc_def)

text \<open>
  C7 (amended). Concatenation and mux give the media tool the canonical artifact path
  itself as its output file: there is no temporary output and no publishing step. A path
  is returned only when the tool ran, its output decoded and it exited with status 0,
  and then it is the canonical path. Whether the call returns or raises, the canonical
  path afterwards holds what the tool left there, or what it held before when the tool
  did not touch it or did not start.
\<close>

theorem media_tool_writes_canonical_path:
  assumes "output_path \<noteq> concat_file"
  shows "ffmpeg_output (concat_command concat_file output_path) = Some output_path
       \<and> (\<forall>p. fst (concatenate_videos run_tool concat_file video_paths output_path w) = Inr p \<longrightarrow>
             p = output_path
           \<and> (\<exists>written. run_tool (concat_command concat_file output_path)
                 (w\<lparr>files := (files w)(concat_file \<mapsto> ConcatList video_paths)\<rparr>) = Exited 0 True written))
       \<and> files (snd (concatenate_videos run_tool concat_file video_paths output_path w)) output_path
           = (case run_tool (concat_command concat_file output_path)
                     (w\<lparr>files := (files w)(concat_file \<mapsto> ConcatList video_paths)\<rparr>) of
                Exited rc decodes (Some c) \<Rightarrow> Some c
              | _ \<Rightarrow> files w output_path)
       \<and> ffmpeg_output (mux_command video_path audio_path final_path) = Some final_path
       \<and> (\<forall>p. fst (merge_audio_video run_tool video_path audio_path final_path w) = Inr p \<longrightarrow>
             p = final_path
           \<and> (\<exists>written. run_tool (mux_command video_path audio_path final_path) w = Exited 0 True written))
       \<and> files (snd (merge_audio_video run_tool video_path audio_path final_path w)) final_path
           = (case run_tool (mux_command video_path audio_path final_path) w of
                Exited rc decodes (Some c) \<Rightarrow> Some c
              | _ \<Rightarrow> files w final_path)"
proof (intro conjI)
  let ?w1 = "w\<lparr>files := (files w)(concat_file \<mapsto> ConcatList video_paths)\<rparr>"
  show "ffmpeg_output (concat_command concat_file output_path) = Some output_path"
    by (rule ffmpeg_output_concat)
  show "ffmpeg_output (mux_command video_path audio_path final_path) = Some final_path"
    by (rule ffmpeg_output_mux)
  show "\<forall>p. fst (concatenate_videos run_tool concat_file video_paths output_path w) = Inr p \<longrightarrow>
             p = output_path
           \<and> (\<exists>written. run_tool (concat_command concat_file output_path) ?w1 = Exited 0 True written)"
    by (cases "run_tool (concat_command concat_file output_path) ?w1")
       (auto simp: concatenate_videos_def subprocess_run_def ffmpeg_output_concat Let_def
          split: option.splits if_splits)
  show "files (snd (concatenate_videos run_tool concat_file video_paths output_path w)) output_path
           = (case run_tool (concat_command concat_file output_path) ?w1 of
                Exited rc decodes (Some c) \<Rightarrow> Some c
              | _ \<Rightarrow> files w output_path)"
    using assms
    by (cases "run_tool (concat_command concat_file output_path) ?w1")
       (auto simp: concatenate_videos_def subprocess_run_def ffmpeg_output_concat Let_def
          split: option.splits if_splits)
  show "\<forall>p. fst (merge_audio_video run_tool video_path audio_path final_path w) = Inr p \<longrightarrow>
             p = final_path
           \<and> (\<exists>written. run_tool (mux_command video_path audio_path final_path) w = Exited 0 True written)"
    by (cases "run_tool (mux_command video_path audio_path final_path) w")
       (auto simp: merge_audio_video_def subprocess_run_def ffmpeg_output_mux Let_def
          split: option.splits if_splits)
  show "files (snd (merge_audio_video run_tool video_path audio_path final_path w)) final_path
           = (case run_tool (mux_command video_path audio_path final_path) w of
                Exited rc decodes (Some c) \<Rightarrow> Some c
              | _ \<Rightarrow> files w final_path)"
    by (cases "run_tool (mux_command video_path audio_path final_path) w")
       (auto simp: merge_audio_video_def subprocess_run_def ffmpeg_output_mux Let_def
          split: option.splits if_splits)
qed

theorem media_tool_writes_canonical_path_witness:
  "sample_videos_dir @ [asc ''concatenated.mp4''] \<noteq> [asc ''tmp'', asc ''tmpk3x9.txt'']
   \<and> files (snd (concatenate_videos interrupted_tool [asc ''tmp'', asc ''tmpk3x9.txt'']
         [sample_videos_dir @ [asc ''01_anchor.mp4''], sample_videos_dir @ [asc ''02_street.mp4'']]
         (sample_videos_dir @ [asc ''concatenated.mp4'']) sample_video_world))
       (sample_videos_dir @ [asc ''concatenated.mp4'']) = Some (Media Truncated)
   \<and> files (snd (merge_audio_video working_tool
         (sample_videos_dir @ [asc ''concatenated.mp4''])
         [asc ''srv'', asc ''jobs'', asc ''Test-50'', asc ''audio'', asc ''voiceover.mp3'']
         [asc ''srv'', asc ''jobs'', asc ''Test-50'', asc ''final'', asc ''final.mp4'']
         sample_video_world))
       [asc ''srv'', asc ''jobs'', asc ''Test-50'', asc ''final'', asc ''final.mp4'']
     = Some (Media Complete)
   \<and> fst (merge_audio_video working_tool
         (sample_videos_dir @ [asc ''concatenated.mp4''])
         [asc ''srv'', asc ''jobs'', asc ''Test-50'', asc ''audio'', asc ''voiceover.mp3'']
         [asc ''srv'', asc ''jobs'', asc ''Test-50'', asc ''final'', asc ''final.mp4'']
         sample_video_world)
     = Inr [asc ''srv'', asc ''jobs'', asc ''Test-50'', asc ''final'', asc ''final.mp4'']"
proof -
  let ?vids = "[sample_videos_dir @ [asc ''01_anchor.mp4''], sample_videos_dir @ [asc ''02_street.mp4'']]"
  let ?out = "sample_videos_dir @ [asc ''concatenated.mp4'']"
  let ?cf = "[asc ''tmp'', asc ''tmpk3x9.txt'']"
  let ?fin = "[asc ''srv'', asc ''jobs'', asc ''Test-50'', asc ''final'', asc ''final.mp4'']"
  let ?aud = "[asc ''srv'', asc ''jobs'', asc ''Test-50'', asc ''audio'', asc ''voiceover.mp3'']"
  have ne: "?out \<noteq> ?cf" by (simp add: sample_videos_dir_def)
  from media_tool_writes_canonical_path [OF ne, of interrupted_tool ?vids sample_video_world ?out ?aud ?fin]
  have 1: "files (snd (concatenate_videos interrupted_tool ?cf ?vids ?out sample_video_world)) ?out
             = Some (Media Truncated)"
    by (simp add: interrupted_tool_def)
  from media_tool_writes_canonical_path [OF ne, of working_tool ?vids sample_video_world ?out ?aud ?fin]
  have 2: "files (snd (merge_audio_video working_tool ?out ?aud ?fin sample_video_world)) ?fin
             = Some (Media Complete)"
    by (simp add: working_tool_def)
  have 3: "fst (merge_audio_video working_tool ?out ?aud ?fin sample_video_world) = Inr ?fin"
    by (simp add: merge_audio_video_def subprocess_run_def working_tool_def ffmpeg_output_mux)
  from ne 1 2 3 show ?thesis by blast
qed

text \<open>
  C7 as stated fails: there is no temporary output and no publishing step. A tool that
  is cut off while writing leaves a truncated file at \<^verbatim>\<open>videos/concatenated.mp4\<close>, and
  the next \<open>combine_videos\<close> for the job finds that path present and returns it as
  the concatenated video without running the tool.
\<close>

theorem partial_concat_exposed_counterexample:
  "fst (concatenate_videos interrupted_tool [asc ''tmp'', asc ''tmpk3x9.txt'']
         [sample_videos_dir @ [asc ''01_anchor.mp4''], sample_videos_dir @ [asc ''02_street.mp4'']]
         (sample_videos_dir @ [asc ''concatenated.mp4'']) sample_video_world)
     = Inl CalledProcessError
   \<and> files (snd (concatenate_videos interrupted_tool [asc ''tmp'', asc ''tmpk3x9.txt'']
         [sample_videos_dir @ [asc ''01_anchor.mp4''], sample_videos_dir @ [asc ''02_street.mp4'']]
         (sample_videos_dir @ [asc ''concatenated.mp4'']) sample_video_world))
       (sample_videos_dir @ [asc ''concatenated.mp4'']) = Some (Media Truncated)
   \<and> fst (combine_videos interrupted_tool [asc ''tmp'', asc ''tmpq7w1.txt''] (\<lambda>d w. [])
         [asc ''srv'', asc ''jobs''] (asc ''Test-50'')
         (snd (concatenate_videos interrupted_tool [asc ''tmp'', asc ''tmpk3x9.txt'']
           [sample_videos_dir @ [asc ''01_anchor.mp4''], sample_videos_dir @ [asc ''02_street.mp4'']]
           (sample_videos_dir @ [asc ''concatenated.mp4'']) sample_video_world)))
     = Inr (sample_videos_dir @ [asc ''concatenated.mp4''])"
proof -
  let ?vids = "[sample_videos_dir @ [asc ''01_anchor.mp4''], sample_videos_dir @ [asc ''02_street.mp4'']]"
  let ?out = "sample_videos_dir @ [asc ''concatenated.mp4'']"
  let ?cf = "[asc ''tmp'', asc ''tmpk3x9.txt'']"
  let ?w1 = "snd (concatenate_videos interrupted_tool ?cf ?vids ?out sample_video_world)"
  have ne: "?out \<noteq> ?cf" by (simp add: sample_videos_dir_def)
  have run: "concatenate_videos interrupted_tool ?cf ?vids ?out sample_video_world
      = (Inl CalledProcessError,
         sample_video_world\<lparr>files := ((files sample_video_world)(?cf \<mapsto> ConcatList ?vids, ?out \<mapsto> Media Truncated))
                                   (?cf := None)\<rparr>)"
    by (simp add: concatenate_videos_def subprocess_run_def ffmpeg_output_concat interrupted_tool_def
        path_exists_def Let_def)
  have 1: "fst (concatenate_videos interrupted_tool ?cf ?vids ?out sample_video_world) = Inl CalledProcessError"
    unfolding run by simp
  have 2: "files ?w1 ?out = Some (Media Truncated)"
    unfolding run using ne by simp
  have d: "path_div (path_div [asc ''srv'', asc ''jobs''] (asc ''Test-50'')) (asc ''videos'') = sample_videos_dir"
    by (simp add: path_div_def path_parts_def sample_videos_dir_def asc_def)
  have o: "path_div sample_videos_dir (asc ''concatenated.mp4'') = ?out"
    by (simp add: path_div_def path_parts_def asc_def)
  have nf: "\<forall>q \<in> set (prefixes sample_videos_dir). q \<notin> dom (files ?w1)"
    unfolding run
    by (auto simp: sample_video_world_def sample_videos_dir_def in_set_prefixes prefix_def asc_def)
  then have nf1: "sample_videos_dir \<notin> dom (files ?w1)" by (simp add: in_set_prefixes)
  have g: "get_concat_video_path [asc ''srv'', asc ''jobs''] (asc ''Test-50'') ?w1
      = (Inr ?out, ?w1\<lparr>dirs := dirs ?w1 \<union> set (prefixes sample_videos_dir)\<rparr>)"
    using nf nf1
    by (simp add: get_concat_video_path_def get_job_dir_def mkdir_parents_def d o Let_def)
  have 3: "fst (combine_videos interrupted_tool [asc ''tmp'', asc ''tmpq7w1.txt''] (\<lambda>d w. [])
         [asc ''srv'', asc ''jobs''] (asc ''Test-50'') ?w1) = Inr ?out"
    using 2 by (simp add: combine_videos_def g path_exists_def dom_def)
  from 1 2 3 show ?thesis by blast
qed


end
